theory Spec2Isabelle
  imports Complex_Main
begin

section \<open>Python errors as values\<close>

text \<open>
  The module \<^verbatim>\<open>perceiver_obs.py\<close> is Python on top of PyTorch. Every raise that a
  call of the module can run into is a value of \<open>py_error\<close>; a function that may raise
  returns \<open>py_error + 'a\<close> with \<open>Inl\<close> for the exception. Python integers are \<open>int\<close> and
  tensor extents are \<open>nat\<close>. The entries of images, feature maps and token sequences are
  \<open>real\<close>: finite float32 values, combined by ideal arithmetic. Where a result depends on a
  value being infinite or not a number, in the attention, the entries are \<open>xreal\<close>; where
  it depends on the rounding of a Python float or of a float32, in the constructor, the
  rounding is written out.
\<close>

datatype py_error =
    NotImplementedError
  | ZeroDivisionError
  | NameError string
  | TypeError string
  | AttributeError string
  | ValueError
  | IndexError
  | KeyError string
  | RuntimeError
  | OverflowError

definition bnd :: "py_error + 'a \<Rightarrow> ('a \<Rightarrow> py_error + 'b) \<Rightarrow> py_error + 'b" where
  "bnd r f = (case r of Inl e \<Rightarrow> Inl e | Inr v \<Rightarrow> f v)"

definition floordiv :: "int \<Rightarrow> int \<Rightarrow> py_error + int" where
  \<comment> \<open>Python's \<^verbatim>\<open>a // b\<close> on integers: floor division, ZeroDivisionError for \<open>b = 0\<close>.\<close>
  "floordiv a b = (if b = 0 then Inl ZeroDivisionError else Inr (a div b))"

section \<open>Tensors of rank four\<close>

text \<open>
  An image batch and a feature map are tensors of shape \<open>[B, C, H, W]\<close>: the four extents
  and the entry at each index.
\<close>

record tensor4 =
  dims :: "nat \<times> nat \<times> nat \<times> nat"
  elem :: "nat \<Rightarrow> nat \<Rightarrow> nat \<Rightarrow> nat \<Rightarrow> real"

section \<open>nn.Conv2d\<close>

text \<open>
  \<^verbatim>\<open>nn.Conv2d\<close> belongs to PyTorch. Its model keeps what the module relies on: the
  constructor allocates a weight of shape \<open>[out, in, kh, kw]\<close> (an extent below zero is a
  RuntimeError), and the forward pass is the cross-correlation of the documentation with the
  output extent \<open>(n + 2 * pad - kernel) div stride + 1\<close> (the formula quoted in the comment
  of \<^verbatim>\<open>visual_embed\<close>), refusing a weight without output channel, a channel mismatch, a
  stride that is not positive and a kernel larger than the padded input. A layer without
  input channel gives a result without channel.
\<close>

record conv2d =
  in_channels :: int
  out_channels :: int
  kernel_size :: "int \<times> int"
  stride :: "int \<times> int"
  padding :: "int \<times> int"
  has_bias :: bool
  weight :: "nat \<Rightarrow> nat \<Rightarrow> nat \<Rightarrow> nat \<Rightarrow> real"
  bias :: "nat \<Rightarrow> real"

definition Conv2d ::
  "int \<Rightarrow> int \<Rightarrow> int \<times> int \<Rightarrow> int \<times> int \<Rightarrow> bool \<Rightarrow>
   (nat \<Rightarrow> nat \<Rightarrow> nat \<Rightarrow> nat \<Rightarrow> real) \<Rightarrow> (nat \<Rightarrow> real) \<Rightarrow> py_error + conv2d" where
  \<comment> \<open>\<open>w0\<close> and \<open>b0\<close> are the randomly initialised weight and bias.\<close>
  "Conv2d in_c out_c ks st with_bias w0 b0 =
     (if in_c < 0 \<or> out_c < 0 \<or> fst ks < 0 \<or> snd ks < 0 then Inl RuntimeError
      else Inr \<lparr>in_channels = in_c, out_channels = out_c, kernel_size = ks, stride = st,
                padding = (0, 0), has_bias = with_bias, weight = w0, bias = b0\<rparr>)"

definition conv_out_size :: "nat \<Rightarrow> int \<Rightarrow> int \<Rightarrow> int \<Rightarrow> py_error + nat" where
  "conv_out_size n k s p =
     (if s \<le> 0 then Inl RuntimeError
      else if int n + 2 * p < k then Inl RuntimeError
      else Inr (nat ((int n + 2 * p - k) div s + 1)))"

definition padded_elem :: "tensor4 \<Rightarrow> int \<times> int \<Rightarrow> nat \<Rightarrow> nat \<Rightarrow> int \<Rightarrow> int \<Rightarrow> real" where
  \<comment> \<open>The entry of the zero-padded input at row \<open>r\<close> and column \<open>c\<close> of the padded frame.\<close>
  "padded_elem x p b ch r c =
     (case dims x of (B, C, H, W) \<Rightarrow>
        if fst p \<le> r \<and> r < fst p + int H \<and> snd p \<le> c \<and> c < snd p + int W
        then elem x b ch (nat (r - fst p)) (nat (c - snd p)) else 0)"

definition conv2d_value :: "conv2d \<Rightarrow> tensor4 \<Rightarrow> nat \<Rightarrow> nat \<Rightarrow> nat \<Rightarrow> nat \<Rightarrow> real" where
  "conv2d_value cv x b oc i j =
     (if has_bias cv then bias cv oc else 0) +
     (\<Sum>ch \<leftarrow> [0..<nat (in_channels cv)].
        \<Sum>u \<leftarrow> [0..<nat (fst (kernel_size cv))].
          \<Sum>v \<leftarrow> [0..<nat (snd (kernel_size cv))].
            weight cv oc ch u v *
            padded_elem x (padding cv) b ch
              (int i * fst (stride cv) + int u) (int j * snd (stride cv) + int v))"

definition conv2d_forward :: "conv2d \<Rightarrow> tensor4 \<Rightarrow> py_error + tensor4" where
  "conv2d_forward cv x =
     (case dims x of (B, C, H, W) \<Rightarrow>
        if out_channels cv \<le> 0 then Inl RuntimeError
        else if int C \<noteq> in_channels cv then Inl RuntimeError
        else bnd (conv_out_size H (fst (kernel_size cv)) (fst (stride cv)) (fst (padding cv)))
          (\<lambda>H'. bnd (conv_out_size W (snd (kernel_size cv)) (snd (stride cv)) (snd (padding cv)))
          (\<lambda>W'. Inr \<lparr>dims = (B, if C = 0 then 0 else nat (out_channels cv), H', W'),
                      elem = conv2d_value cv x\<rparr>)))"

section \<open>PatchEmbed\<close>

datatype size_arg = Scalar int | Pair int int

fun to_2tuple :: "size_arg \<Rightarrow> int \<times> int" where
  \<comment> \<open>timm's \<^verbatim>\<open>to_2tuple\<close>: a pair is returned as it is, a number is repeated.\<close>
  "to_2tuple (Scalar n) = (n, n)"
| "to_2tuple (Pair a b) = (a, b)"

record patch_embed =
  pe_img_size :: "int \<times> int"
  pe_patch_size :: "int \<times> int"
  pe_num_patches :: int
  pe_proj :: conv2d

definition PatchEmbed ::
  "size_arg \<Rightarrow> size_arg \<Rightarrow> int \<Rightarrow> int \<Rightarrow> bool \<Rightarrow>
   (nat \<Rightarrow> nat \<Rightarrow> nat \<Rightarrow> nat \<Rightarrow> real) \<Rightarrow> (nat \<Rightarrow> real) \<Rightarrow> py_error + patch_embed" where
  \<comment> \<open>\<^verbatim>\<open>PatchEmbed.__init__(img_size, patch_size, in_chans, embed_dim, no_patch_embed_bias)\<close>\<close>
  "PatchEmbed img_size patch_size in_chans embed_dim no_patch_embed_bias w0 b0 =
     (let img = to_2tuple img_size; patch = to_2tuple patch_size in
      bnd (floordiv (snd img) (snd patch)) (\<lambda>nw.
      bnd (floordiv (fst img) (fst patch)) (\<lambda>nh.
      bnd (Conv2d in_chans embed_dim patch patch (\<not> no_patch_embed_bias) w0 b0) (\<lambda>cv.
      Inr \<lparr>pe_img_size = img, pe_patch_size = patch, pe_num_patches = nw * nh,
           pe_proj = cv\<rparr>))))"

definition PatchEmbed_forward :: "patch_embed \<Rightarrow> tensor4 \<Rightarrow> py_error + tensor4" where
  "PatchEmbed_forward pe x = conv2d_forward (pe_proj pe) x"

definition same_patch :: "int \<times> int \<Rightarrow> nat \<Rightarrow> nat \<Rightarrow> nat \<Rightarrow> tensor4 \<Rightarrow> tensor4 \<Rightarrow> bool" where
  \<comment> \<open>Two inputs agree on the pixels of patch \<open>(i, j)\<close> of example \<open>b\<close>: rows
      \<open>i * ph ..< (i + 1) * ph\<close> and columns \<open>j * pw ..< (j + 1) * pw\<close>, in every channel.\<close>
  "same_patch patch b i j x y =
     (\<forall>ch r c. int i * fst patch \<le> int r \<and> int r < (int i + 1) * fst patch \<and>
               int j * snd patch \<le> int c \<and> int c < (int j + 1) * snd patch \<longrightarrow>
               elem x b ch r c = elem y b ch r c)"

definition PatchEmbed_call ::
  "size_arg \<Rightarrow> size_arg \<Rightarrow> int \<Rightarrow> int \<Rightarrow> bool \<Rightarrow>
   (nat \<Rightarrow> nat \<Rightarrow> nat \<Rightarrow> nat \<Rightarrow> real) \<Rightarrow> (nat \<Rightarrow> real) \<Rightarrow> tensor4 \<Rightarrow>
   py_error + tensor4" where
  \<comment> \<open>\<^verbatim>\<open>PatchEmbed(img_size, patch_size, in_chans, embed_dim, no_bias)(x)\<close>: build, then apply.\<close>
  "PatchEmbed_call img_size patch_size in_chans embed_dim nb w0 b0 x =
     bnd (PatchEmbed img_size patch_size in_chans embed_dim nb w0 b0)
       (\<lambda>pe. PatchEmbed_forward pe x)"

text \<open>Constant tensors and weights, the concrete inputs of the evaluations below.\<close>

definition const_weight :: "real \<Rightarrow> nat \<Rightarrow> nat \<Rightarrow> nat \<Rightarrow> nat \<Rightarrow> real" where
  "const_weight v oc ch u w = v"

definition const_bias :: "real \<Rightarrow> nat \<Rightarrow> real" where
  "const_bias v oc = v"

definition const_tensor4 :: "nat \<times> nat \<times> nat \<times> nat \<Rightarrow> real \<Rightarrow> tensor4" where
  "const_tensor4 shp v = \<lparr>dims = shp, elem = const_weight v\<rparr>"

section \<open>Floating-point values\<close>








section \<open>nn.Linear and nn.Dropout\<close>

text \<open>
  A tensor of shape \<open>[B, N, C]\<close>: a batch of token sequences. The entries of \<open>tensor3\<close> are
  numbers; the entries of \<open>tensor3x\<close>, the input of the attention, are float32 values.
\<close>

record tensor3 =
  dims3 :: "nat \<times> nat \<times> nat"
  elem3 :: "nat \<Rightarrow> nat \<Rightarrow> nat \<Rightarrow> real"


record linear =
  in_features :: int
  out_features :: int
  lin_weight :: "nat \<Rightarrow> nat \<Rightarrow> real"
  lin_bias :: "(nat \<Rightarrow> real) option"

definition Linear ::
  "int \<Rightarrow> int \<Rightarrow> bool \<Rightarrow> (nat \<Rightarrow> nat \<Rightarrow> real) \<Rightarrow> (nat \<Rightarrow> real) \<Rightarrow> py_error + linear" where
  \<comment> \<open>\<^verbatim>\<open>nn.Linear(in_features, out_features, bias)\<close>; allocating the weight refuses an
      extent below zero.\<close>
  "Linear n_in n_out with_bias w0 b0 =
     (if n_in < 0 \<or> n_out < 0 then Inl RuntimeError
      else Inr \<lparr>in_features = n_in, out_features = n_out, lin_weight = w0,
                lin_bias = (if with_bias then Some b0 else None)\<rparr>)"



definition Dropout :: "real \<Rightarrow> py_error + real" where
  \<comment> \<open>\<^verbatim>\<open>nn.Dropout(p)\<close> keeps the rate and refuses one outside \<open>[0, 1]\<close>.\<close>
  "Dropout p = (if p < 0 \<or> 1 < p then Inl ValueError else Inr p)"

section \<open>Attention\<close>


text \<open>A mask of shape \<open>[B, N]\<close> with integer entries.\<close>

record mask2 =
  mdims :: "nat \<times> nat"
  melem :: "nat \<Rightarrow> nat \<Rightarrow> int"

datatype pyfloat = PyReal real | PyComplex

definition pow_neg_half :: "int \<Rightarrow> py_error + pyfloat" where
  \<comment> \<open>Python's \<^verbatim>\<open>n ** -0.5\<close> on an integer: zero raises, a negative base gives a complex
      number.\<close>
  "pow_neg_half n =
     (if n = 0 then Inl ZeroDivisionError
      else if n < 0 then Inr PyComplex
      else Inr (PyReal (1 / sqrt (real_of_int n))))"

definition truthy :: "real option \<Rightarrow> bool" where
  \<comment> \<open>Python truth of an optional float: \<^verbatim>\<open>None\<close> and \<^verbatim>\<open>0.0\<close> are false.\<close>
  "truthy r = (case r of None \<Rightarrow> False | Some v \<Rightarrow> v \<noteq> 0)"

record attention =
  num_heads :: int
  scale :: pyfloat
  qkv :: linear
  attn_drop :: real
  proj :: linear
  proj_drop :: real

record linear_init =
  init_weight :: "nat \<Rightarrow> nat \<Rightarrow> real"
  init_bias :: "nat \<Rightarrow> real"

definition Attention ::
  "int \<Rightarrow> int \<Rightarrow> bool \<Rightarrow> real option \<Rightarrow> real \<Rightarrow> real \<Rightarrow> linear_init \<Rightarrow> linear_init \<Rightarrow>
   py_error + attention" where
  \<comment> \<open>\<^verbatim>\<open>Attention.__init__(dim, num_heads, qkv_bias, qk_scale, attn_drop, proj_drop)\<close>; the
      last two arguments are the initial values of the two linear layers.\<close>
  "Attention dm heads qkv_bias qk_scale attn_drop_rate proj_drop_rate r_qkv r_proj =
     bnd (floordiv dm heads) (\<lambda>head_dim.
     bnd (if truthy qk_scale then Inr (PyReal (the qk_scale)) else pow_neg_half head_dim) (\<lambda>sc.
     bnd (Linear dm (dm * 3) qkv_bias (init_weight r_qkv) (init_bias r_qkv)) (\<lambda>l_qkv.
     bnd (Dropout attn_drop_rate) (\<lambda>d_attn.
     bnd (Linear dm dm True (init_weight r_proj) (init_bias r_proj)) (\<lambda>l_proj.
     bnd (Dropout proj_drop_rate) (\<lambda>d_proj.
     Inr \<lparr>num_heads = heads, scale = sc, qkv = l_qkv, attn_drop = d_attn,
          proj = l_proj, proj_drop = d_proj\<rparr>))))))"













section \<open>Mlp, Block and the transformer's constructor\<close>

definition py_int :: "real \<Rightarrow> int" where
  \<comment> \<open>Python's \<^verbatim>\<open>int(x)\<close> on a float: truncation towards zero.\<close>
  "py_int x = (if 0 \<le> x then \<lfloor>x\<rfloor> else \<lceil>x\<rceil>)"

definition round_half_even :: "real \<Rightarrow> int" where
  "round_half_even x =
     (if x - of_int \<lfloor>x\<rfloor> < 1 / 2 then \<lfloor>x\<rfloor>
      else if 1 / 2 < x - of_int \<lfloor>x\<rfloor> then \<lfloor>x\<rfloor> + 1
      else if even \<lfloor>x\<rfloor> then \<lfloor>x\<rfloor> else \<lfloor>x\<rfloor> + 1)"

definition float_round :: "nat \<Rightarrow> int \<Rightarrow> real \<Rightarrow> real" where
  \<comment> \<open>The binary floating-point number with \<open>p\<close> significant bits and least exponent
      \<open>emin\<close> that is nearest to \<open>x\<close>, ties to even; the exponent is not bounded above, so a
      result of magnitude \<open>2 ^ (emax + 1)\<close> or more stands for an overflow.\<close>
  "float_round p emin x =
     (if x = 0 then 0
      else of_int (round_half_even
                     (x / 2 powr (of_int (max \<lfloor>log 2 \<bar>x\<bar>\<rfloor> emin) - (real p - 1)))) *
           2 powr (of_int (max \<lfloor>log 2 \<bar>x\<bar>\<rfloor> emin) - (real p - 1)))"

definition double_round :: "real \<Rightarrow> real" where
  \<comment> \<open>Rounding to a Python float, an IEEE 754 double.\<close>
  "double_round x = float_round 53 (- 1022) x"

definition f32 :: "real \<Rightarrow> real" where
  \<comment> \<open>Rounding to a float32.\<close>
  "f32 x = float_round 24 (- 126) x"

definition mlp_hidden_dim :: "int \<Rightarrow> real \<Rightarrow> py_error + int" where
  \<comment> \<open>\<^verbatim>\<open>int(dim * mlp_ratio)\<close> for a float \<^verbatim>\<open>mlp_ratio\<close>: the integer is converted to a
      float, the product is rounded, and neither may overflow. An integer ratio is taken as
      the float of the same value.\<close>
  "mlp_hidden_dim dm mlp_ratio =
     (if 2 ^ 1024 \<le> \<bar>double_round (real_of_int dm)\<bar> then Inl OverflowError
      else if 2 ^ 1024 \<le> \<bar>double_round (double_round (real_of_int dm) * mlp_ratio)\<bar>
      then Inl OverflowError
      else Inr (py_int (double_round (double_round (real_of_int dm) * mlp_ratio))))"

definition torch_zeros :: "int list \<Rightarrow> py_error + unit" where
  \<comment> \<open>Allocating a tensor refuses an extent below zero.\<close>
  "torch_zeros shp = (if list_ex (\<lambda>d. d < 0) shp then Inl RuntimeError else Inr ())"

text \<open>
  The argument \<^verbatim>\<open>norm_layer\<close> is a callable that builds the norm of a width. The model
  covers \<^verbatim>\<open>nn.LayerNorm\<close> and its partial applications: an \<open>eps\<close>, and whether the layer has
  the affine parameters \<^verbatim>\<open>weight\<close> and \<^verbatim>\<open>bias\<close>.
\<close>

datatype norm_layer = LayerNormOf real bool

record layer_norm =
  ln_shape :: int
  ln_eps :: real
  ln_weight :: "(nat \<Rightarrow> real) option"
  ln_bias :: "(nat \<Rightarrow> real) option"

fun LayerNorm :: "norm_layer \<Rightarrow> int \<Rightarrow> py_error + layer_norm" where
  \<comment> \<open>\<^verbatim>\<open>norm_layer(n)\<close>: with affine parameters, a weight of ones and a bias of zeros.\<close>
  "LayerNorm (LayerNormOf eps affine) n =
     bnd (torch_zeros [n]) (\<lambda>_.
     Inr \<lparr>ln_shape = n, ln_eps = eps,
          ln_weight = (if affine then Some (\<lambda>i. 1) else None),
          ln_bias = (if affine then Some (\<lambda>i. 0) else None)\<rparr>)"

record mlp =
  fc1 :: linear
  fc2 :: linear
  mlp_drop :: real

definition Mlp ::
  "int \<Rightarrow> int option \<Rightarrow> int option \<Rightarrow> real \<Rightarrow> linear_init \<Rightarrow> linear_init \<Rightarrow> py_error + mlp" where
  \<comment> \<open>\<^verbatim>\<open>Mlp.__init__\<close>: \<^verbatim>\<open>hidden_features or in_features\<close> takes \<^verbatim>\<open>in_features\<close> for
      \<^verbatim>\<open>None\<close> and for 0.\<close>
  "Mlp n_in hidden_feats out_feats drop_p r1 r2 =
     (let n_out = (case out_feats of None \<Rightarrow> n_in | Some k \<Rightarrow> if k = 0 then n_in else k);
          n_hid = (case hidden_feats of None \<Rightarrow> n_in | Some k \<Rightarrow> if k = 0 then n_in else k)
      in
      bnd (Linear n_in n_hid True (init_weight r1) (init_bias r1)) (\<lambda>l1.
      bnd (Linear n_hid n_out True (init_weight r2) (init_bias r2)) (\<lambda>l2.
      bnd (Dropout drop_p) (\<lambda>d.
      Inr \<lparr>fc1 = l1, fc2 = l2, mlp_drop = d\<rparr>))))"

record block_init =
  init_qkv :: linear_init
  init_proj :: linear_init
  init_fc1 :: linear_init
  init_fc2 :: linear_init

record block =
  norm1 :: layer_norm
  attn :: attention
  drop_path :: "real option"
  norm2 :: layer_norm
  block_mlp :: mlp

definition Block ::
  "int \<Rightarrow> int \<Rightarrow> real \<Rightarrow> bool \<Rightarrow> real option \<Rightarrow> real \<Rightarrow> real \<Rightarrow> real \<Rightarrow> norm_layer \<Rightarrow>
   block_init \<Rightarrow> py_error + block" where
  \<comment> \<open>\<^verbatim>\<open>Block.__init__(dim, num_heads, mlp_ratio, qkv_bias, qk_scale, drop, attn_drop,
      drop_path, norm_layer)\<close>\<close>
  "Block dm heads mlp_ratio qkv_bias qk_scale drop_p attn_drop_rate drop_path_rate nl r =
     bnd (LayerNorm nl dm) (\<lambda>n1.
     bnd (Attention dm heads qkv_bias qk_scale attn_drop_rate drop_p (init_qkv r) (init_proj r))
       (\<lambda>att.
     bnd (LayerNorm nl dm) (\<lambda>n2.
     bnd (mlp_hidden_dim dm mlp_ratio) (\<lambda>hidden.
     bnd (Mlp dm (Some hidden) None drop_p (init_fc1 r) (init_fc2 r)) (\<lambda>ml.
     Inr \<lparr>norm1 = n1, attn = att,
          drop_path = (if 0 < drop_path_rate then Some drop_path_rate else None),
          norm2 = n2, block_mlp = ml\<rparr>)))))"

fun sequence :: "(py_error + 'a) list \<Rightarrow> py_error + 'a list" where
  \<comment> \<open>A list comprehension whose elements may raise: the first error wins.\<close>
  "sequence [] = Inr []"
| "sequence (r # rs) = bnd r (\<lambda>v. bnd (sequence rs) (\<lambda>vs. Inr (v # vs)))"

definition linspace :: "real \<Rightarrow> real \<Rightarrow> int \<Rightarrow> py_error + (nat \<Rightarrow> real)" where
  \<comment> \<open>\<^verbatim>\<open>torch.linspace(lo, hi, steps)\<close> in float32: entry \<open>i\<close> of the result. The two ends
      are converted to float32, which refuses a number beyond the range; the first half of
      the entries is counted up from the start and the second half down from the end.\<close>
  "linspace lo hi steps =
     (if steps < 0 then Inl RuntimeError
      else if 2 ^ 128 \<le> \<bar>f32 lo\<bar> \<or> 2 ^ 128 \<le> \<bar>f32 hi\<bar> then Inl RuntimeError
      else Inr (\<lambda>i.
        if steps = 1 then f32 lo
        else if int i < steps div 2
        then f32 (f32 lo + f32 (f32 ((f32 hi - f32 lo) / real_of_int (steps - 1)) * real i))
        else f32 (f32 hi - f32 (f32 ((f32 hi - f32 lo) / real_of_int (steps - 1)) *
                                  real_of_int (steps - int i - 1)))))"

record vit_args =
  arg_img_size :: size_arg
  arg_patch_size :: size_arg
  arg_in_chans :: int
  arg_num_classes :: int
  arg_embed_dim :: int
  arg_depth :: int
  arg_num_heads :: int
  arg_mlp_ratio :: real
  arg_qkv_bias :: bool
  arg_qk_scale :: "real option"
  arg_representation_size :: "int option"
  arg_drop_rate :: real
  arg_attn_drop_rate :: real
  arg_drop_path_rate :: real
  arg_norm_layer :: "norm_layer option"
  arg_add_norm_before_transformer :: bool
  arg_no_patch_embed_bias :: bool
  arg_use_video :: bool
  arg_max_frames :: int
  arg_pretrained :: bool

definition default_args :: vit_args where
  \<comment> \<open>The defaults of \<^verbatim>\<open>PerceiverVisionTransformer.__init__\<close>.\<close>
  "default_args =
     \<lparr>arg_img_size = Scalar 224, arg_patch_size = Scalar 16, arg_in_chans = 3,
      arg_num_classes = 1000, arg_embed_dim = 768, arg_depth = 12, arg_num_heads = 12,
      arg_mlp_ratio = 4, arg_qkv_bias = True, arg_qk_scale = None,
      arg_representation_size = None, arg_drop_rate = 0, arg_attn_drop_rate = 0,
      arg_drop_path_rate = 0, arg_norm_layer = None, arg_add_norm_before_transformer = False,
      arg_no_patch_embed_bias = False, arg_use_video = False, arg_max_frames = 8,
      arg_pretrained = False\<rparr>"

text \<open>
  The random draws of a construction: the initial values of the convolution and of the
  linear layers of block \<open>i\<close> (\<open>r_block\<close>), and what \<^verbatim>\<open>trunc_normal_\<close> writes into the position
  table, the class token and, through \<^verbatim>\<open>_init_weights\<close>, the linear layers (\<open>r_linear\<close>).
\<close>

record vit_init =
  r_proj_weight :: "nat \<Rightarrow> nat \<Rightarrow> nat \<Rightarrow> nat \<Rightarrow> real"
  r_proj_bias :: "nat \<Rightarrow> real"
  r_block :: "nat \<Rightarrow> block_init"
  r_pos_embed :: "nat \<Rightarrow> nat \<Rightarrow> real"
  r_cls_token :: "nat \<Rightarrow> real"
  r_linear :: "nat \<Rightarrow> block_init"

record cfg =
  cfg_url :: string
  cfg_num_classes :: int
  cfg_input_size :: "int \<times> int \<times> int"

text \<open>
  The module. \<open>vit_temporal_embed\<close>, \<open>vit_max_frames\<close>, \<open>vit_pre_norm\<close> and \<open>vit_mask_token\<close>
  are \<open>None\<close> when the object has no such attribute.
\<close>

record vit =
  vit_training :: bool
  vit_num_classes :: int
  vit_embed_dim :: int
  vit_add_norm_before_transformer :: bool
  vit_patch_embed :: patch_embed
  vit_patch_size :: size_arg
  vit_patch_dim :: int
  vit_cls_token :: "nat \<Rightarrow> real"
  vit_pos_embed :: "nat \<Rightarrow> nat \<Rightarrow> real"
  vit_total_output_patch :: int
  vit_pos_drop :: real
  vit_use_video :: bool
  vit_temporal_embed :: "(nat \<Rightarrow> nat \<Rightarrow> real) option"
  vit_max_frames :: "int option"
  vit_pre_norm :: "layer_norm option"
  vit_blocks :: "block list"
  vit_norm :: layer_norm
  vit_mask_token :: "(nat \<Rightarrow> real) option"
  vit_default_cfg :: "cfg option"

fun size_floordiv :: "size_arg \<Rightarrow> size_arg \<Rightarrow> py_error + int" where
  \<comment> \<open>\<^verbatim>\<open>img_size // patch_size\<close>: defined on two integers only.\<close>
  "size_floordiv (Scalar a) (Scalar b) = floordiv a b"
| "size_floordiv _ _ = Inl (TypeError ''unsupported operand type(s) for //'')"

definition build_modules :: "vit_args \<Rightarrow> vit_init \<Rightarrow> py_error + vit" where
  \<comment> \<open>\<^verbatim>\<open>PerceiverVisionTransformer.__init__\<close> from its first statement to \<^verbatim>\<open>self.norm =
      norm_layer(embed_dim)\<close>, statement by statement: the module before the test of
      \<^verbatim>\<open>pretrained\<close>, with a position table and a class token of zeros. No statement assigns
      \<^verbatim>\<open>self.mask_token\<close>.\<close>
  "build_modules a r =
     (let nl = (case arg_norm_layer a of None \<Rightarrow> LayerNormOf (1 / 10 ^ 6) True | Some n \<Rightarrow> n) in
      bnd (PatchEmbed (arg_img_size a) (arg_patch_size a) (arg_in_chans a) (arg_embed_dim a)
             False (r_proj_weight r) (r_proj_bias r)) (\<lambda>pe.
      bnd (size_floordiv (arg_img_size a) (arg_patch_size a)) (\<lambda>pd.
      bnd (torch_zeros [1, 1, arg_embed_dim a]) (\<lambda>_.
      bnd (torch_zeros [1, pe_num_patches pe + 1, arg_embed_dim a]) (\<lambda>_.
      bnd (Dropout (arg_drop_rate a)) (\<lambda>pdrop.
      bnd (if arg_use_video a then torch_zeros [1, 64, arg_embed_dim a] else Inr ()) (\<lambda>_.
      bnd (if arg_add_norm_before_transformer a
           then bnd (LayerNorm nl (arg_embed_dim a)) (\<lambda>n. Inr (Some n)) else Inr None) (\<lambda>pn.
      bnd (linspace 0 (arg_drop_path_rate a) (arg_depth a)) (\<lambda>dpr.
      bnd (sequence (map (\<lambda>i. Block (arg_embed_dim a) (arg_num_heads a) (arg_mlp_ratio a)
                                  (arg_qkv_bias a) (arg_qk_scale a) (arg_drop_rate a)
                                  (arg_attn_drop_rate a) (dpr i) nl (r_block r i))
                         [0..<nat (arg_depth a)])) (\<lambda>bls.
      bnd (LayerNorm nl (arg_embed_dim a)) (\<lambda>nrm.
      Inr \<lparr>vit_training = True,
           vit_num_classes = arg_num_classes a,
           vit_embed_dim = arg_embed_dim a,
           vit_add_norm_before_transformer = arg_add_norm_before_transformer a,
           vit_patch_embed = pe,
           vit_patch_size = arg_patch_size a,
           vit_patch_dim = pd,
           vit_cls_token = (\<lambda>d. 0),
           vit_pos_embed = (\<lambda>n d. 0),
           vit_total_output_patch = pe_num_patches pe + 1,
           vit_pos_drop = pdrop,
           vit_use_video = arg_use_video a,
           vit_temporal_embed = (if arg_use_video a then Some (\<lambda>f d. 0) else None),
           vit_max_frames = (if arg_use_video a then Some (arg_max_frames a) else None),
           vit_pre_norm = pn,
           vit_blocks = bls,
           vit_norm = nrm,
           vit_mask_token = None,
           vit_default_cfg = None\<rparr>)))))))))))"

definition init_linear :: "linear_init \<Rightarrow> linear \<Rightarrow> linear" where
  \<comment> \<open>\<^verbatim>\<open>_init_weights\<close> on a linear layer: a fresh weight, and a bias of zero if there is one.\<close>
  "init_linear r l =
     l\<lparr>lin_weight := init_weight r, lin_bias := map_option (\<lambda>_ _. 0) (lin_bias l)\<rparr>"

definition init_layer_norm :: "layer_norm \<Rightarrow> py_error + layer_norm" where
  \<comment> \<open>\<^verbatim>\<open>_init_weights\<close> on a layer norm: \<^verbatim>\<open>nn.init.constant_(m.bias, 0)\<close> and
      \<^verbatim>\<open>nn.init.constant_(m.weight, 1.0)\<close>, without a test for \<^verbatim>\<open>None\<close>; filling \<^verbatim>\<open>None\<close>
      is an AttributeError.\<close>
  "init_layer_norm l =
     (case ln_bias l of
        None \<Rightarrow> Inl (AttributeError ''fill_'')
      | Some _ \<Rightarrow>
     (case ln_weight l of
        None \<Rightarrow> Inl (AttributeError ''fill_'')
      | Some _ \<Rightarrow> Inr (l\<lparr>ln_bias := Some (\<lambda>i. 0), ln_weight := Some (\<lambda>i. 1)\<rparr>)))"

definition init_block :: "block_init \<Rightarrow> block \<Rightarrow> py_error + block" where
  \<comment> \<open>\<^verbatim>\<open>_init_weights\<close> on the sub-modules of a block, in the order of their registration.\<close>
  "init_block r bl =
     bnd (init_layer_norm (norm1 bl)) (\<lambda>n1.
     bnd (init_layer_norm (norm2 bl)) (\<lambda>n2.
     Inr (bl\<lparr>norm1 := n1,
             attn := (attn bl)\<lparr>qkv := init_linear (init_qkv r) (qkv (attn bl)),
                                 proj := init_linear (init_proj r) (proj (attn bl))\<rparr>,
             norm2 := n2,
             block_mlp := (block_mlp bl)\<lparr>fc1 := init_linear (init_fc1 r) (fc1 (block_mlp bl)),
                                        fc2 := init_linear (init_fc2 r) (fc2 (block_mlp bl))\<rparr>\<rparr>)))"

definition init_weights :: "vit_init \<Rightarrow> vit \<Rightarrow> py_error + vit" where
  \<comment> \<open>The statements after the test of \<^verbatim>\<open>pretrained\<close>: \<^verbatim>\<open>trunc_normal_\<close> on the position
      table and the class token, then \<^verbatim>\<open>self.apply(self._init_weights)\<close> over the
      sub-modules.\<close>
  "init_weights r m =
     bnd (case vit_pre_norm m of
            None \<Rightarrow> Inr None
          | Some pn \<Rightarrow> bnd (init_layer_norm pn) (\<lambda>n. Inr (Some n))) (\<lambda>pn.
     bnd (sequence (map (\<lambda>(i, bl). init_block (r_linear r i) bl) (enumerate 0 (vit_blocks m))))
       (\<lambda>bls.
     bnd (init_layer_norm (vit_norm m)) (\<lambda>nrm.
     Inr (m\<lparr>vit_pos_embed := r_pos_embed r, vit_cls_token := r_cls_token r,
            vit_pre_norm := pn, vit_blocks := bls, vit_norm := nrm\<rparr>))))"

definition PerceiverVisionTransformer :: "vit_args \<Rightarrow> vit_init \<Rightarrow> py_error + vit" where
  \<comment> \<open>\<^verbatim>\<open>PerceiverVisionTransformer.__init__\<close>: the sub-modules, the test
      \<^verbatim>\<open>if pretrained: raise NotImplementedError\<close>, then the initialisation.\<close>
  "PerceiverVisionTransformer a r =
     bnd (build_modules a r) (\<lambda>m.
     if arg_pretrained a then Inl NotImplementedError else init_weights r m)"

section \<open>The model factory\<close>

text \<open>
  Keyword arguments are a list of typed keywords: a Python \<^verbatim>\<open>**kwargs\<close> dictionary. The
  keyword \<^verbatim>\<open>pretrained\<close> is no keyword of this type: every function of the factory names it
  as a parameter of its own, so Python never leaves it in \<^verbatim>\<open>**kwargs\<close>.
\<close>

datatype backbone = Backbone string

datatype kwarg =
    K_img_size size_arg
  | K_patch_size size_arg
  | K_in_chans int
  | K_num_classes int
  | K_embed_dim int
  | K_depth int
  | K_num_heads int
  | K_mlp_ratio real
  | K_qkv_bias bool
  | K_qk_scale "real option"
  | K_representation_size "int option"
  | K_drop_rate real
  | K_attn_drop_rate real
  | K_drop_path_rate real
  | K_norm_layer "norm_layer option"
  | K_add_norm_before_transformer bool
  | K_no_patch_embed_bias bool
  | K_use_video bool
  | K_max_frames int
  | K_hybrid_backbone backbone
  | K_distilled bool
  | K_variant string
  | K_other string

fun kw_name :: "kwarg \<Rightarrow> string" where
  "kw_name (K_img_size _) = ''img_size''"
| "kw_name (K_patch_size _) = ''patch_size''"
| "kw_name (K_in_chans _) = ''in_chans''"
| "kw_name (K_num_classes _) = ''num_classes''"
| "kw_name (K_embed_dim _) = ''embed_dim''"
| "kw_name (K_depth _) = ''depth''"
| "kw_name (K_num_heads _) = ''num_heads''"
| "kw_name (K_mlp_ratio _) = ''mlp_ratio''"
| "kw_name (K_qkv_bias _) = ''qkv_bias''"
| "kw_name (K_qk_scale _) = ''qk_scale''"
| "kw_name (K_representation_size _) = ''representation_size''"
| "kw_name (K_drop_rate _) = ''drop_rate''"
| "kw_name (K_attn_drop_rate _) = ''attn_drop_rate''"
| "kw_name (K_drop_path_rate _) = ''drop_path_rate''"
| "kw_name (K_norm_layer _) = ''norm_layer''"
| "kw_name (K_add_norm_before_transformer _) = ''add_norm_before_transformer''"
| "kw_name (K_no_patch_embed_bias _) = ''no_patch_embed_bias''"
| "kw_name (K_use_video _) = ''use_video''"
| "kw_name (K_max_frames _) = ''max_frames''"
| "kw_name (K_hybrid_backbone _) = ''hybrid_backbone''"
| "kw_name (K_distilled _) = ''distilled''"
| "kw_name (K_variant _) = ''variant''"
| "kw_name (K_other s) = s"

fun bind_kwarg :: "kwarg \<Rightarrow> vit_args \<Rightarrow> py_error + vit_args" where
  \<comment> \<open>Binding one keyword to the parameters of \<^verbatim>\<open>PerceiverVisionTransformer.__init__\<close>, which
      has no \<^verbatim>\<open>**kwargs\<close>: a keyword that is no parameter is a TypeError.\<close>
  "bind_kwarg (K_img_size v) a = Inr (a\<lparr>arg_img_size := v\<rparr>)"
| "bind_kwarg (K_patch_size v) a = Inr (a\<lparr>arg_patch_size := v\<rparr>)"
| "bind_kwarg (K_in_chans v) a = Inr (a\<lparr>arg_in_chans := v\<rparr>)"
| "bind_kwarg (K_num_classes v) a = Inr (a\<lparr>arg_num_classes := v\<rparr>)"
| "bind_kwarg (K_embed_dim v) a = Inr (a\<lparr>arg_embed_dim := v\<rparr>)"
| "bind_kwarg (K_depth v) a = Inr (a\<lparr>arg_depth := v\<rparr>)"
| "bind_kwarg (K_num_heads v) a = Inr (a\<lparr>arg_num_heads := v\<rparr>)"
| "bind_kwarg (K_mlp_ratio v) a = Inr (a\<lparr>arg_mlp_ratio := v\<rparr>)"
| "bind_kwarg (K_qkv_bias v) a = Inr (a\<lparr>arg_qkv_bias := v\<rparr>)"
| "bind_kwarg (K_qk_scale v) a = Inr (a\<lparr>arg_qk_scale := v\<rparr>)"
| "bind_kwarg (K_representation_size v) a = Inr (a\<lparr>arg_representation_size := v\<rparr>)"
| "bind_kwarg (K_drop_rate v) a = Inr (a\<lparr>arg_drop_rate := v\<rparr>)"
| "bind_kwarg (K_attn_drop_rate v) a = Inr (a\<lparr>arg_attn_drop_rate := v\<rparr>)"
| "bind_kwarg (K_drop_path_rate v) a = Inr (a\<lparr>arg_drop_path_rate := v\<rparr>)"
| "bind_kwarg (K_norm_layer v) a = Inr (a\<lparr>arg_norm_layer := v\<rparr>)"
| "bind_kwarg (K_add_norm_before_transformer v) a =
     Inr (a\<lparr>arg_add_norm_before_transformer := v\<rparr>)"
| "bind_kwarg (K_no_patch_embed_bias v) a = Inr (a\<lparr>arg_no_patch_embed_bias := v\<rparr>)"
| "bind_kwarg (K_use_video v) a = Inr (a\<lparr>arg_use_video := v\<rparr>)"
| "bind_kwarg (K_max_frames v) a = Inr (a\<lparr>arg_max_frames := v\<rparr>)"
| "bind_kwarg _ a = Inl (TypeError ''__init__() got an unexpected keyword argument'')"

fun bind_kwargs :: "kwarg list \<Rightarrow> vit_args \<Rightarrow> py_error + vit_args" where
  "bind_kwargs [] a = Inr a"
| "bind_kwargs (k # ks) a = bnd (bind_kwarg k a) (bind_kwargs ks)"

definition has_key :: "string \<Rightarrow> kwarg list \<Rightarrow> bool" where
  "has_key name kws = (name \<in> kw_name ` set kws)"

definition pop_key :: "string \<Rightarrow> kwarg list \<Rightarrow> kwarg list" where
  "pop_key name kws = filter (\<lambda>k. kw_name k \<noteq> name) kws"

definition dict_merge :: "kwarg list \<Rightarrow> kwarg list \<Rightarrow> py_error + kwarg list" where
  \<comment> \<open>\<^verbatim>\<open>dict(k1=v1, ..., **kwargs)\<close>: a key written twice is a TypeError.\<close>
  "dict_merge explicit kws =
     (if list_ex (\<lambda>k. has_key (kw_name k) explicit) kws
      then Inl (TypeError ''dict() got multiple values for keyword argument'')
      else Inr (explicit @ kws))"

text \<open>
  The names the module reads without binding them, and the functions it imports from timm.
  \<open>env_default_cfgs\<close> and \<open>env_distilled_cls\<close> are \<open>None\<close> when the module binds no such name;
  a lookup then raises NameError.
\<close>

record module_env =
  env_default_cfgs :: "(string \<Rightarrow> cfg option) option"
  env_distilled_cls :: "(kwarg list \<Rightarrow> vit_init \<Rightarrow> py_error + vit) option"
  env_load_pretrained :: "vit \<Rightarrow> int \<Rightarrow> int \<Rightarrow> py_error + vit"
  env_backbone :: "string \<Rightarrow> bool \<Rightarrow> int \<Rightarrow> py_error + backbone"

definition this_module ::
  "(vit \<Rightarrow> int \<Rightarrow> int \<Rightarrow> py_error + vit) \<Rightarrow> (string \<Rightarrow> bool \<Rightarrow> int \<Rightarrow> py_error + backbone) \<Rightarrow>
   module_env" where
  \<comment> \<open>The module as it is written: it imports \<^verbatim>\<open>load_pretrained\<close> and the backbone
      constructors, and neither defines nor imports \<^verbatim>\<open>default_cfgs\<close> and
      \<^verbatim>\<open>DistilledPerceiverVisionTransformer\<close>.\<close>
  "this_module lp bk =
     \<lparr>env_default_cfgs = None, env_distilled_cls = None, env_load_pretrained = lp,
      env_backbone = bk\<rparr>"

definition kw_in_chans :: "kwarg list \<Rightarrow> int" where
  \<comment> \<open>\<^verbatim>\<open>kwargs.get("in_chans", 3)\<close>\<close>
  "kw_in_chans kws = (case [v. K_in_chans v \<leftarrow> kws] of [] \<Rightarrow> 3 | v # _ \<Rightarrow> v)"

definition create_vision_transformer ::
  "module_env \<Rightarrow> string \<Rightarrow> bool \<Rightarrow> bool \<Rightarrow> kwarg list \<Rightarrow> vit_init \<Rightarrow> py_error + vit" where
  \<comment> \<open>\<^verbatim>\<open>_create_vision_transformer(variant, pretrained, distilled, **kwargs)\<close>\<close>
  "create_vision_transformer env variant pretrained distilled kwargs r =
     (case env_default_cfgs env of
        None \<Rightarrow> Inl (NameError ''default_cfgs'')
      | Some default_cfgs \<Rightarrow>
     (case default_cfgs variant of
        None \<Rightarrow> Inl (KeyError variant)
      | Some default_cfg \<Rightarrow>
        let default_num_classes = cfg_num_classes default_cfg;
            default_img_size = snd (snd (cfg_input_size default_cfg));
            num_classes = (case [v. K_num_classes v \<leftarrow> kwargs] of
                             [] \<Rightarrow> default_num_classes | v # _ \<Rightarrow> v);
            kwargs1 = pop_key ''num_classes'' kwargs;
            img_size = (case [v. K_img_size v \<leftarrow> kwargs1] of
                          [] \<Rightarrow> Scalar default_img_size | v # _ \<Rightarrow> v);
            kwargs2 = pop_key ''img_size'' kwargs1;
            repr_size0 = (case [v. K_representation_size v \<leftarrow> kwargs2] of
                            [] \<Rightarrow> None | v # _ \<Rightarrow> v);
            kwargs3 = pop_key ''representation_size'' kwargs2;
            repr_size = (if repr_size0 \<noteq> None \<and> num_classes \<noteq> default_num_classes
                         then None else repr_size0);
            call_kwargs = [K_img_size img_size, K_num_classes num_classes,
                           K_representation_size repr_size] @ kwargs3
        in
        bnd (if distilled
             then (case env_distilled_cls env of
                     None \<Rightarrow> Inl (NameError ''DistilledPerceiverVisionTransformer'')
                   | Some cls \<Rightarrow> cls call_kwargs r)
             else bnd (bind_kwargs call_kwargs default_args)
                    (\<lambda>a. PerceiverVisionTransformer a r)) (\<lambda>model0.
        let model = model0\<lparr>vit_default_cfg := Some default_cfg\<rparr> in
        if pretrained
        then env_load_pretrained env model num_classes (kw_in_chans kwargs3)
        else Inr model)))"

datatype factory =
    vit_small_patch16_224
  | vit_base_patch16_224
  | vit_base_patch32_224
  | vit_base_patch16_384
  | vit_base_patch32_384
  | vit_large_patch16_224
  | vit_large_patch32_224
  | vit_large_patch16_384
  | vit_large_patch32_384
  | vit_base_patch16_224_in21k
  | vit_base_patch32_224_in21k
  | vit_large_patch16_224_in21k
  | vit_large_patch32_224_in21k
  | vit_huge_patch14_224_in21k
  | vit_base_resnet50_224_in21k
  | vit_base_resnet50_384
  | vit_small_resnet26d_224
  | vit_small_resnet50d_s3_224
  | vit_base_resnet26d_224
  | vit_base_resnet50d_224
  | vit_deit_tiny_patch16_224
  | vit_deit_small_patch16_224
  | vit_deit_base_patch16_224
  | vit_deit_base_patch16_384
  | vit_deit_tiny_distilled_patch16_224
  | vit_deit_small_distilled_patch16_224
  | vit_deit_base_distilled_patch16_224
  | vit_deit_base_distilled_patch16_384

fun explicit_kwargs :: "factory \<Rightarrow> kwarg list" where
  \<comment> \<open>The keywords a factory writes into \<^verbatim>\<open>model_kwargs\<close> itself, but for the hybrid backbone.\<close>
  "explicit_kwargs vit_small_patch16_224 =
     [K_patch_size (Scalar 16), K_embed_dim 768, K_depth 8, K_num_heads 8, K_mlp_ratio 3,
      K_qkv_bias False, K_norm_layer (Some (LayerNormOf (1 / 10 ^ 5) True))]"
| "explicit_kwargs vit_base_patch16_224 =
     [K_patch_size (Scalar 16), K_embed_dim 768, K_depth 12, K_num_heads 12]"
| "explicit_kwargs vit_base_patch32_224 =
     [K_patch_size (Scalar 32), K_embed_dim 768, K_depth 12, K_num_heads 12]"
| "explicit_kwargs vit_base_patch16_384 =
     [K_patch_size (Scalar 16), K_embed_dim 768, K_depth 12, K_num_heads 12]"
| "explicit_kwargs vit_base_patch32_384 =
     [K_patch_size (Scalar 32), K_embed_dim 768, K_depth 12, K_num_heads 12]"
| "explicit_kwargs vit_large_patch16_224 =
     [K_patch_size (Scalar 16), K_embed_dim 1024, K_depth 24, K_num_heads 16]"
| "explicit_kwargs vit_large_patch32_224 =
     [K_patch_size (Scalar 32), K_embed_dim 1024, K_depth 24, K_num_heads 16]"
| "explicit_kwargs vit_large_patch16_384 =
     [K_patch_size (Scalar 16), K_embed_dim 1024, K_depth 24, K_num_heads 16]"
| "explicit_kwargs vit_large_patch32_384 =
     [K_patch_size (Scalar 32), K_embed_dim 1024, K_depth 24, K_num_heads 16]"
| "explicit_kwargs vit_base_patch16_224_in21k =
     [K_patch_size (Scalar 16), K_embed_dim 768, K_depth 12, K_num_heads 12, K_representation_size (Some 768)]"
| "explicit_kwargs vit_base_patch32_224_in21k =
     [K_patch_size (Scalar 32), K_embed_dim 768, K_depth 12, K_num_heads 12, K_representation_size (Some 768)]"
| "explicit_kwargs vit_large_patch16_224_in21k =
     [K_patch_size (Scalar 16), K_embed_dim 1024, K_depth 24, K_num_heads 16, K_representation_size (Some 1024)]"
| "explicit_kwargs vit_large_patch32_224_in21k =
     [K_patch_size (Scalar 32), K_embed_dim 1024, K_depth 24, K_num_heads 16, K_representation_size (Some 1024)]"
| "explicit_kwargs vit_huge_patch14_224_in21k =
     [K_patch_size (Scalar 14), K_embed_dim 1280, K_depth 32, K_num_heads 16, K_representation_size (Some 1280)]"
| "explicit_kwargs vit_base_resnet50_224_in21k =
     [K_embed_dim 768, K_depth 12, K_num_heads 12, K_representation_size (Some 768)]"
| "explicit_kwargs vit_base_resnet50_384 =
     [K_embed_dim 768, K_depth 12, K_num_heads 12]"
| "explicit_kwargs vit_small_resnet26d_224 =
     [K_embed_dim 768, K_depth 8, K_num_heads 8, K_mlp_ratio 3]"
| "explicit_kwargs vit_small_resnet50d_s3_224 =
     [K_embed_dim 768, K_depth 8, K_num_heads 8, K_mlp_ratio 3]"
| "explicit_kwargs vit_base_resnet26d_224 =
     [K_embed_dim 768, K_depth 12, K_num_heads 12]"
| "explicit_kwargs vit_base_resnet50d_224 =
     [K_embed_dim 768, K_depth 12, K_num_heads 12]"
| "explicit_kwargs vit_deit_tiny_patch16_224 =
     [K_patch_size (Scalar 16), K_embed_dim 192, K_depth 12, K_num_heads 3]"
| "explicit_kwargs vit_deit_small_patch16_224 =
     [K_patch_size (Scalar 16), K_embed_dim 384, K_depth 12, K_num_heads 6]"
| "explicit_kwargs vit_deit_base_patch16_224 =
     [K_patch_size (Scalar 16), K_embed_dim 768, K_depth 12, K_num_heads 12]"
| "explicit_kwargs vit_deit_base_patch16_384 =
     [K_patch_size (Scalar 16), K_embed_dim 768, K_depth 12, K_num_heads 12]"
| "explicit_kwargs vit_deit_tiny_distilled_patch16_224 =
     [K_patch_size (Scalar 16), K_embed_dim 192, K_depth 12, K_num_heads 3]"
| "explicit_kwargs vit_deit_small_distilled_patch16_224 =
     [K_patch_size (Scalar 16), K_embed_dim 384, K_depth 12, K_num_heads 6]"
| "explicit_kwargs vit_deit_base_distilled_patch16_224 =
     [K_patch_size (Scalar 16), K_embed_dim 768, K_depth 12, K_num_heads 12]"
| "explicit_kwargs vit_deit_base_distilled_patch16_384 =
     [K_patch_size (Scalar 16), K_embed_dim 768, K_depth 12, K_num_heads 12]"

fun variant_of :: "factory \<Rightarrow> string" where
  \<comment> \<open>The variant name a factory passes on: its own name.\<close>
  "variant_of vit_small_patch16_224 = ''vit_small_patch16_224''"
| "variant_of vit_base_patch16_224 = ''vit_base_patch16_224''"
| "variant_of vit_base_patch32_224 = ''vit_base_patch32_224''"
| "variant_of vit_base_patch16_384 = ''vit_base_patch16_384''"
| "variant_of vit_base_patch32_384 = ''vit_base_patch32_384''"
| "variant_of vit_large_patch16_224 = ''vit_large_patch16_224''"
| "variant_of vit_large_patch32_224 = ''vit_large_patch32_224''"
| "variant_of vit_large_patch16_384 = ''vit_large_patch16_384''"
| "variant_of vit_large_patch32_384 = ''vit_large_patch32_384''"
| "variant_of vit_base_patch16_224_in21k = ''vit_base_patch16_224_in21k''"
| "variant_of vit_base_patch32_224_in21k = ''vit_base_patch32_224_in21k''"
| "variant_of vit_large_patch16_224_in21k = ''vit_large_patch16_224_in21k''"
| "variant_of vit_large_patch32_224_in21k = ''vit_large_patch32_224_in21k''"
| "variant_of vit_huge_patch14_224_in21k = ''vit_huge_patch14_224_in21k''"
| "variant_of vit_base_resnet50_224_in21k = ''vit_base_resnet50_224_in21k''"
| "variant_of vit_base_resnet50_384 = ''vit_base_resnet50_384''"
| "variant_of vit_small_resnet26d_224 = ''vit_small_resnet26d_224''"
| "variant_of vit_small_resnet50d_s3_224 = ''vit_small_resnet50d_s3_224''"
| "variant_of vit_base_resnet26d_224 = ''vit_base_resnet26d_224''"
| "variant_of vit_base_resnet50d_224 = ''vit_base_resnet50d_224''"
| "variant_of vit_deit_tiny_patch16_224 = ''vit_deit_tiny_patch16_224''"
| "variant_of vit_deit_small_patch16_224 = ''vit_deit_small_patch16_224''"
| "variant_of vit_deit_base_patch16_224 = ''vit_deit_base_patch16_224''"
| "variant_of vit_deit_base_patch16_384 = ''vit_deit_base_patch16_384''"
| "variant_of vit_deit_tiny_distilled_patch16_224 = ''vit_deit_tiny_distilled_patch16_224''"
| "variant_of vit_deit_small_distilled_patch16_224 = ''vit_deit_small_distilled_patch16_224''"
| "variant_of vit_deit_base_distilled_patch16_224 = ''vit_deit_base_distilled_patch16_224''"
| "variant_of vit_deit_base_distilled_patch16_384 = ''vit_deit_base_distilled_patch16_384''"

fun hybrid_of :: "factory \<Rightarrow> (string \<times> bool) option" where
  \<comment> \<open>The backbone constructor a hybrid factory calls, and whether it hands \<^verbatim>\<open>pretrained\<close> to it.\<close>
  "hybrid_of vit_base_resnet50_224_in21k = Some (''ResNetV2'', False)"
| "hybrid_of vit_base_resnet50_384 = Some (''ResNetV2'', False)"
| "hybrid_of vit_small_resnet26d_224 = Some (''resnet26d'', True)"
| "hybrid_of vit_small_resnet50d_s3_224 = Some (''resnet50d'', True)"
| "hybrid_of vit_base_resnet26d_224 = Some (''resnet26d'', True)"
| "hybrid_of vit_base_resnet50d_224 = Some (''resnet50d'', True)"
| "hybrid_of _ = None"

fun passes_distilled :: "factory \<Rightarrow> bool" where
  \<comment> \<open>Whether the factory passes \<^verbatim>\<open>distilled=True\<close>.\<close>
  "passes_distilled vit_deit_tiny_distilled_patch16_224 = True"
| "passes_distilled vit_deit_small_distilled_patch16_224 = True"
| "passes_distilled vit_deit_base_distilled_patch16_224 = True"
| "passes_distilled vit_deit_base_distilled_patch16_384 = True"
| "passes_distilled _ = False"

definition setdefault_qk_scale :: "real \<Rightarrow> kwarg list \<Rightarrow> kwarg list" where
  \<comment> \<open>\<^verbatim>\<open>model_kwargs.setdefault("qk_scale", v)\<close>\<close>
  "setdefault_qk_scale v kws =
     (if has_key ''qk_scale'' kws then kws else kws @ [K_qk_scale (Some v)])"

definition call_factory ::
  "module_env \<Rightarrow> factory \<Rightarrow> bool \<Rightarrow> kwarg list \<Rightarrow> vit_init \<Rightarrow> py_error + vit" where
  \<comment> \<open>A call \<^verbatim>\<open>f(pretrained=pretrained, **kwargs)\<close> of a registered function \<open>f\<close>: the
      backbone of a hybrid, the dictionary \<^verbatim>\<open>model_kwargs\<close>, then
      \<^verbatim>\<open>_create_vision_transformer(name, pretrained=pretrained, [distilled=True,]
      **model_kwargs)\<close>, whose own parameters a keyword of the dictionary must not repeat.\<close>
  "call_factory env f pretrained kwargs r =
     bnd (case hybrid_of f of
            None \<Rightarrow> Inr []
          | Some (ctor, with_pretrained) \<Rightarrow>
              bnd (env_backbone env ctor (with_pretrained \<and> pretrained) (kw_in_chans kwargs))
                (\<lambda>b. Inr [K_hybrid_backbone b])) (\<lambda>hb.
     bnd (dict_merge (explicit_kwargs f @ hb) kwargs) (\<lambda>mk0.
     let model_kwargs =
           (if f = vit_small_patch16_224 \<and> pretrained
            then setdefault_qk_scale (1 / sqrt 768) mk0 else mk0)
     in
     if has_key ''variant'' model_kwargs \<or>
        (passes_distilled f \<and> has_key ''distilled'' model_kwargs)
     then Inl (TypeError ''got multiple values for argument'')
     else create_vision_transformer env (variant_of f) pretrained
            (if passes_distilled f then True
             else (case [v. K_distilled v \<leftarrow> model_kwargs] of [] \<Rightarrow> False | v # _ \<Rightarrow> v))
            (pop_key ''distilled'' model_kwargs) r))"

definition cfg_of_url :: "string \<Rightarrow> cfg" where
  \<comment> \<open>\<^verbatim>\<open>_cfg(url)\<close>, the entries the factory reads.\<close>
  "cfg_of_url url = \<lparr>cfg_url = url, cfg_num_classes = 1000, cfg_input_size = (3, 224, 224)\<rparr>"

text \<open>
  Concrete surroundings for the evaluations below: initial draws that are all zero, a
  \<^verbatim>\<open>load_pretrained\<close> and backbone constructors that succeed, and the module completed by a
  table \<^verbatim>\<open>default_cfgs\<close> that gives every variant the configuration \<^verbatim>\<open>_cfg()\<close>.
\<close>

definition zero_linear_init :: linear_init where
  "zero_linear_init = \<lparr>init_weight = (\<lambda>oc i. 0), init_bias = (\<lambda>oc. 0)\<rparr>"

definition zero_block_init :: block_init where
  "zero_block_init =
     \<lparr>init_qkv = zero_linear_init, init_proj = zero_linear_init,
      init_fc1 = zero_linear_init, init_fc2 = zero_linear_init\<rparr>"

definition zero_init :: vit_init where
  "zero_init =
     \<lparr>r_proj_weight = const_weight 0, r_proj_bias = const_bias 0,
      r_block = (\<lambda>i. zero_block_init), r_pos_embed = (\<lambda>n d. 0), r_cls_token = (\<lambda>d. 0),
      r_linear = (\<lambda>i. zero_block_init)\<rparr>"

definition load_ok :: "vit \<Rightarrow> int \<Rightarrow> int \<Rightarrow> py_error + vit" where
  "load_ok m n c = Inr m"

definition backbone_ok :: "string \<Rightarrow> bool \<Rightarrow> int \<Rightarrow> py_error + backbone" where
  "backbone_ok name p c = Inr (Backbone name)"

definition completed_module :: module_env where
  "completed_module =
     \<lparr>env_default_cfgs = Some (\<lambda>variant. Some (cfg_of_url [])), env_distilled_cls = None,
      env_load_pretrained = load_ok, env_backbone = backbone_ok\<rparr>"


definition tiny_args :: vit_args where
  "tiny_args = default_args\<lparr>arg_img_size := Scalar 2, arg_patch_size := Scalar 1,
                 arg_embed_dim := 2, arg_depth := 1, arg_num_heads := 1\<rparr>"

section \<open>visual_embed\<close>

text \<open>
  The input of \<^verbatim>\<open>visual_embed\<close> is an image batch \<open>[B, C, H, W]\<close> or a batch of clips
  \<open>[B, T, C, H, W]\<close>. The argument \<^verbatim>\<open>max_image_len\<close> is a Python value: \<^verbatim>\<open>None\<close>, an
  integer or a float.
\<close>

record tensor5 =
  dims5 :: "nat \<times> nat \<times> nat \<times> nat \<times> nat"
  elem5 :: "nat \<Rightarrow> nat \<Rightarrow> nat \<Rightarrow> nat \<Rightarrow> nat \<Rightarrow> real"

datatype image_input = Image tensor4 | Video tensor5

datatype len_arg = LenNone | LenInt int | LenFloat real

text \<open>
  The random numbers a call consumes: the raw draws behind the \<open>i\<close>-th call of
  \<^verbatim>\<open>torch.multinomial\<close>, the two Bernoulli matrices of \<^verbatim>\<open>mask_tokens\<close>, and the entries
  that the dropout keeps.
\<close>

record draws =
  d_choice :: "nat \<Rightarrow> nat \<Rightarrow> nat"
  d_masked :: "nat \<Rightarrow> nat \<Rightarrow> bool"
  d_replaced :: "nat \<Rightarrow> nat \<Rightarrow> bool"
  d_keep :: "nat \<Rightarrow> nat \<Rightarrow> nat \<Rightarrow> bool"

record embedded =
  out_x :: tensor3
  out_mask :: mask2
  out_patch_index :: "nat \<Rightarrow> nat \<Rightarrow> nat \<times> nat"
  out_grid :: "nat \<times> nat"
  out_label :: "(nat \<Rightarrow> nat \<Rightarrow> nat \<Rightarrow> int) option"

subsection \<open>F.interpolate\<close>

definition source_index :: "bool \<Rightarrow> nat \<Rightarrow> nat \<Rightarrow> nat \<Rightarrow> real" where
  \<comment> \<open>The coordinate in an input axis of extent \<open>n_in\<close> that output index \<open>i\<close> of an axis of
      extent \<open>n_out\<close> reads, for the linear modes of \<^verbatim>\<open>F.interpolate\<close>.\<close>
  "source_index align_corners n_in n_out i =
     (if align_corners
      then (if 1 < n_out then real i * ((real n_in - 1) / (real n_out - 1)) else 0)
      else max 0 ((real i + 1 / 2) * (real n_in / real n_out) - 1 / 2))"

definition bilinear ::
  "bool \<Rightarrow> (nat \<Rightarrow> nat \<Rightarrow> real) \<Rightarrow> nat \<times> nat \<Rightarrow> nat \<times> nat \<Rightarrow> nat \<Rightarrow> nat \<Rightarrow> real" where
  \<comment> \<open>Entry \<open>(i, j)\<close> of the bilinear resampling of the grid \<open>g\<close> from \<open>in_size\<close> to
      \<open>out_size\<close>.\<close>
  "bilinear align_corners g in_size out_size i j =
     (let sh = source_index align_corners (fst in_size) (fst out_size) i;
          sw = source_index align_corners (snd in_size) (snd out_size) j;
          h0 = nat \<lfloor>sh\<rfloor>;
          w0 = nat \<lfloor>sw\<rfloor>;
          h1 = (if h0 + 1 < fst in_size then h0 + 1 else h0);
          w1 = (if w0 + 1 < snd in_size then w0 + 1 else w0);
          lh = sh - real h0;
          lw = sw - real w0
      in (1 - lh) * ((1 - lw) * g h0 w0 + lw * g h0 w1) +
         lh * ((1 - lw) * g h1 w0 + lw * g h1 w1))"

definition interpolate_bilinear ::
  "bool \<Rightarrow> (nat \<Rightarrow> nat \<Rightarrow> nat \<Rightarrow> real) \<Rightarrow> nat \<times> nat \<Rightarrow> int \<times> int \<Rightarrow>
   py_error + (nat \<Rightarrow> nat \<Rightarrow> nat \<Rightarrow> real)" where
  \<comment> \<open>\<^verbatim>\<open>F.interpolate(x, size=size, mode="bilinear", align_corners=...)\<close> on one example
      \<open>x\<close> of shape \<open>[1, C, ih, iw]\<close>, indexed by channel, row and column. An empty input or
      output grid is refused.\<close>
  "interpolate_bilinear align_corners x in_size sz =
     (if fst in_size = 0 \<or> snd in_size = 0 \<or> fst sz \<le> 0 \<or> snd sz \<le> 0 then Inl RuntimeError
      else Inr (\<lambda>c. bilinear align_corners (x c) in_size (nat (fst sz), nat (snd sz))))"

definition interpolate_nearest ::
  "(nat \<Rightarrow> nat \<Rightarrow> nat \<Rightarrow> real) \<Rightarrow> nat \<times> nat \<Rightarrow> nat \<times> nat \<Rightarrow>
   py_error + (nat \<Rightarrow> nat \<Rightarrow> nat \<Rightarrow> real)" where
  \<comment> \<open>\<^verbatim>\<open>F.interpolate(x, size=size)\<close>, the default mode, on a one-channel batch indexed by
      example, row and column.\<close>
  "interpolate_nearest x in_size sz =
     (if fst in_size = 0 \<or> snd in_size = 0 \<or> fst sz = 0 \<or> snd sz = 0 then Inl RuntimeError
      else Inr (\<lambda>b i j. x b (i * fst in_size div fst sz) (j * snd in_size div snd sz)))"

definition F_pad ::
  "(nat \<Rightarrow> nat \<Rightarrow> nat \<Rightarrow> real) \<Rightarrow> int \<times> int \<Rightarrow> nat \<Rightarrow> nat \<Rightarrow> nat \<Rightarrow> real" where
  \<comment> \<open>\<^verbatim>\<open>F.pad(x, (0, W - w, 0, H - h))\<close> on an example of extent \<open>(h, w)\<close>: zeros to the
      right of column \<open>w\<close> and below row \<open>h\<close>.\<close>
  "F_pad x sz c i j = (if int i < fst sz \<and> int j < snd sz then x c i j else 0)"

subsection \<open>The sampler\<close>

fun pick_distinct :: "nat list \<Rightarrow> nat \<Rightarrow> (nat \<Rightarrow> nat) \<Rightarrow> nat list" where
  \<comment> \<open>Drawing \<open>k\<close> elements of a pool without replacement: each raw draw selects one of the
      elements that are left.\<close>
  "pick_distinct pool 0 rs = []"
| "pick_distinct pool (Suc k) rs =
     (if pool = [] then []
      else pool ! (rs 0 mod length pool) #
           pick_distinct (take (rs 0 mod length pool) pool @
                          drop (Suc (rs 0 mod length pool)) pool) k (\<lambda>n. rs (Suc n)))"

definition multinomial :: "nat \<Rightarrow> int \<Rightarrow> bool \<Rightarrow> (nat \<Rightarrow> nat) \<Rightarrow> py_error + nat list" where
  \<comment> \<open>\<^verbatim>\<open>torch.multinomial(torch.ones(n).float(), num_samples, replacement)\<close>: the indices
      drawn. PyTorch refuses \<open>num_samples \<le> 0\<close>, no category, more than \<open>2 ^ 24\<close>
      categories, and more samples than categories without replacement.\<close>
  "multinomial n num_samples replacement rs =
     (if num_samples \<le> 0 \<or> n = 0 \<or> 2 ^ 24 < n \<or> (\<not> replacement \<and> int n < num_samples)
      then Inl RuntimeError
      else if replacement then Inr (map (\<lambda>i. rs i mod n) [0..<nat num_samples])
      else Inr (pick_distinct [0..<n] (nat num_samples) rs))"

definition select_row ::
  "(nat \<Rightarrow> int) \<Rightarrow> nat \<Rightarrow> int \<Rightarrow> (nat \<Rightarrow> nat) \<Rightarrow> py_error + nat list" where
  \<comment> \<open>One round of the loop over the examples: \<open>row\<close> is the example's flattened mask of
      \<open>N\<close> entries, the result the patch positions selected for it.\<close>
  "select_row row N max_image_len rs =
     (let valid_row_idx = filter (\<lambda>n. row n \<noteq> 0) [0..<N];
          non_valid_row_idx = filter (\<lambda>n. 1 - row n \<noteq> 0) [0..<N];
          v = length valid_row_idx;
          nv = length non_valid_row_idx;
          p = max_image_len - int v
      in if p \<le> 0
         then bnd (multinomial v max_image_len False rs) (\<lambda>valid_choice.
              Inr (map (\<lambda>c. valid_row_idx ! c) valid_choice))
         else bnd (multinomial nv p True rs) (\<lambda>pad_choice.
              Inr (valid_row_idx @ map (\<lambda>c. non_valid_row_idx ! c) pad_choice)))"

definition sampler ::
  "(nat \<Rightarrow> nat \<Rightarrow> int) \<Rightarrow> nat \<Rightarrow> nat \<Rightarrow> int \<Rightarrow> (nat \<Rightarrow> nat \<Rightarrow> nat) \<Rightarrow>
   py_error + (nat \<times> nat) list" where
  \<comment> \<open>From \<^verbatim>\<open>valid_idx = x_mask.nonzero()\<close> to \<^verbatim>\<open>select = torch.cat(select, dim=0)\<close>:
      the rows of \<^verbatim>\<open>select\<close>, pairs of an example and a patch position. Only an example
      with a valid patch is a unique row; \<^verbatim>\<open>torch.cat\<close> refuses an empty list.\<close>
  "sampler x_mask B N max_image_len rs =
     (let unique_rows = filter (\<lambda>b. list_ex (\<lambda>n. x_mask b n \<noteq> 0) [0..<N]) [0..<B] in
      bnd (sequence (map (\<lambda>i. bnd (select_row (x_mask (unique_rows ! i)) N max_image_len (rs i))
                              (\<lambda>ns. Inr (map (\<lambda>n. (unique_rows ! i, n)) ns)))
                      [0..<length unique_rows])) (\<lambda>sel.
      if sel = [] then Inl RuntimeError else Inr (concat sel)))"

definition view_rows :: "nat \<Rightarrow> nat \<Rightarrow> nat \<Rightarrow> py_error + nat" where
  \<comment> \<open>\<^verbatim>\<open>t.view(B, -1, C)\<close> on \<open>n\<close> rows of \<open>C\<close> entries: the extent that \<open>-1\<close> stands
      for.\<close>
  "view_rows n B C =
     (if B * C = 0 \<or> n mod B \<noteq> 0 then Inl RuntimeError else Inr (n div B))"

definition budget :: "len_arg \<Rightarrow> int list \<Rightarrow> py_error + int" where
  \<comment> \<open>The new value of \<^verbatim>\<open>max_image_len\<close>; \<open>eff\<close> is \<^verbatim>\<open>x_h * x_w\<close>. \<^verbatim>\<open>None < 0\<close> is a
      TypeError, and the maximum of an empty tensor a RuntimeError. \<^verbatim>\<open>min\<close> compares the
      integer with an int64 tensor, which refuses an integer of \<open>2 ^ 63\<close> or more.\<close>
  "budget max_image_len eff =
     (case max_image_len of
        LenNone \<Rightarrow> Inl (TypeError ''< not supported between NoneType and int'')
      | LenFloat r \<Rightarrow> if eff = [] then Inl RuntimeError else Inr (Max (set eff))
      | LenInt n \<Rightarrow>
          if eff = [] then Inl RuntimeError
          else if n < 0 then Inr (Max (set eff))
          else if 2 ^ 63 \<le> n then Inl RuntimeError
          else Inr (min (Max (set eff)) n))"

subsection \<open>mask_tokens\<close>

definition patch_average :: "tensor4 \<Rightarrow> int \<times> int \<Rightarrow> nat \<Rightarrow> nat \<Rightarrow> nat \<Rightarrow> nat \<Rightarrow> real" where
  \<comment> \<open>The grouped convolution of \<^verbatim>\<open>mask_tokens\<close>: weight \<open>1 / (ph * pw)\<close>, stride
      \<open>(ph, pw)\<close>, one group per channel, on the image \<^verbatim>\<open>orig_image * 0.5 + 0.5\<close>.\<close>
  "patch_average orig_image patch b c i j =
     (\<Sum>u \<leftarrow> [0..<nat (fst patch)]. \<Sum>v \<leftarrow> [0..<nat (snd patch)].
        1 / real_of_int (fst patch * snd patch) *
        (elem orig_image b c (i * nat (fst patch) + u) (j * nat (snd patch) + v) * (1 / 2)
           + 1 / 2))"

definition mask_tokens ::
  "vit \<Rightarrow> tensor4 \<Rightarrow> (nat \<Rightarrow> nat \<Rightarrow> nat \<Rightarrow> real) \<Rightarrow> draws \<Rightarrow>
   py_error + (nat \<Rightarrow> nat \<Rightarrow> nat \<Rightarrow> real) \<times> (nat \<Rightarrow> nat \<Rightarrow> nat \<Rightarrow> int)" where
  \<comment> \<open>\<^verbatim>\<open>mask_tokens(orig_image, feats)\<close>. The convolution has three groups, so it refuses
      an image without three channels. The right-hand side of the last assignment reads
      \<^verbatim>\<open>self.mask_token\<close>.\<close>
  "mask_tokens m orig_image feats dr =
     (case kernel_size (pe_proj (vit_patch_embed m)) of (ph, pw) \<Rightarrow>
      case dims orig_image of (B, C, H, W) \<Rightarrow>
        if C \<noteq> 3 then Inl RuntimeError
        else bnd (conv_out_size H ph ph 0) (\<lambda>H'.
             bnd (conv_out_size W pw pw 0) (\<lambda>W'.
             let labels = (\<lambda>b n c.
                   if d_masked dr b n
                   then py_int (patch_average orig_image (ph, pw) b c (n div W') (n mod W') * 255)
                   else - 100);
                 indices_replaced = (\<lambda>b n. d_replaced dr b n \<and> d_masked dr b n)
             in case vit_mask_token m of
                  None \<Rightarrow> Inl (AttributeError ''mask_token'')
                | Some mask_token \<Rightarrow>
                    Inr (\<lambda>b n c. if indices_replaced b n then mask_token c else feats b n c,
                         labels))))"

subsection \<open>The token sequence\<close>

definition spatial_pos :: "vit \<Rightarrow> nat \<Rightarrow> py_error + (nat \<Rightarrow> nat \<Rightarrow> nat \<Rightarrow> real)" where
  \<comment> \<open>\<^verbatim>\<open>self.pos_embed[:, 1:, :].transpose(1, 2).view(1, C, self.patch_dim, self.patch_dim)\<close>
      at channel, row and column. The table has \<open>total_output_patch\<close> rows of \<open>embed_dim\<close>
      entries; the view of its transpose splits the row axis, so \<open>C\<close> is the table's width
      and the grid holds the rows after the first.\<close>
  "spatial_pos m C =
     (if vit_patch_dim m < 0 \<or> int C \<noteq> vit_embed_dim m \<or>
         vit_total_output_patch m - 1 \<noteq> vit_patch_dim m * vit_patch_dim m
      then Inl RuntimeError
      else Inr (\<lambda>c i j. vit_pos_embed m (1 + i * nat (vit_patch_dim m) + j) c))"

definition nonzero_pixels :: "tensor4 \<Rightarrow> nat \<Rightarrow> nat \<Rightarrow> nat \<Rightarrow> bool" where
  \<comment> \<open>\<^verbatim>\<open>_x.sum(dim=1) != 0\<close>: the pixels whose channels do not sum to zero.\<close>
  "nonzero_pixels x0 b r c =
     (case dims x0 of (B, C, H, W) \<Rightarrow> (\<Sum>ch \<leftarrow> [0..<C]. elem x0 b ch r c) \<noteq> 0)"

definition ones_like :: "(nat \<Rightarrow> nat \<Rightarrow> nat \<Rightarrow> bool) \<Rightarrow> nat \<Rightarrow> nat \<Rightarrow> nat \<Rightarrow> bool" where
  \<comment> \<open>\<^verbatim>\<open>torch.ones_like\<close> on a Boolean tensor: true at every index, whatever the tensor
      holds.\<close>
  "ones_like t b r c = True"

definition valid_mask :: "tensor4 \<Rightarrow> nat \<times> nat \<Rightarrow> py_error + (nat \<Rightarrow> nat \<Rightarrow> nat \<Rightarrow> int)" where
  \<comment> \<open>\<^verbatim>\<open>x_mask\<close> on the patch grid: \<^verbatim>\<open>torch.ones_like(_x.sum(dim=1) != 0).float()\<close>,
      resampled to the grid and cast to integers.\<close>
  "valid_mask x0 grid =
     (case dims x0 of (B, C, H, W) \<Rightarrow>
        bnd (interpolate_nearest
               (\<lambda>b r c. if ones_like (nonzero_pixels x0) b r c then 1 else 0) (H, W) grid) (\<lambda>xm.
        Inr (\<lambda>b i j. py_int (xm b i j))))"

definition x_h :: "(nat \<Rightarrow> nat \<Rightarrow> nat \<Rightarrow> int) \<Rightarrow> nat \<Rightarrow> nat \<Rightarrow> int" where
  \<comment> \<open>\<^verbatim>\<open>x_h = x_mask[:, 0].sum(dim=1)[:, 0]\<close>: the sum of column 0 of the example's mask.\<close>
  "x_h x_mask H b = (\<Sum>i \<leftarrow> [0..<H]. x_mask b i 0)"

definition x_w :: "(nat \<Rightarrow> nat \<Rightarrow> nat \<Rightarrow> int) \<Rightarrow> nat \<Rightarrow> nat \<Rightarrow> int" where
  \<comment> \<open>\<^verbatim>\<open>x_w = x_mask[:, 0].sum(dim=2)[:, 0]\<close>: the sum of row 0 of the example's mask.\<close>
  "x_w x_mask W b = (\<Sum>j \<leftarrow> [0..<W]. x_mask b 0 j)"

definition position_embeddings ::
  "vit \<Rightarrow> (nat \<Rightarrow> nat \<Rightarrow> nat \<Rightarrow> int) \<Rightarrow> nat \<Rightarrow> nat \<Rightarrow> nat \<Rightarrow> nat \<Rightarrow>
   py_error + (nat \<Rightarrow> nat \<Rightarrow> nat \<Rightarrow> real)" where
  \<comment> \<open>From \<^verbatim>\<open>spatial_pos = ...\<close> to \<^verbatim>\<open>pos_embed = pos_embed.flatten(2).transpose(1, 2)\<close>:
      the table of shape \<open>[B, H * W, C]\<close>. \<^verbatim>\<open>torch.cat\<close> refuses the empty list of an empty
      batch.\<close>
  "position_embeddings m x_mask B C H W =
     bnd (spatial_pos m C) (\<lambda>sp.
     bnd (sequence (map (\<lambda>b.
            bnd (interpolate_bilinear True sp (nat (vit_patch_dim m), nat (vit_patch_dim m))
                   (x_h x_mask H b, x_w x_mask W b)) (\<lambda>p.
            Inr (F_pad p (x_h x_mask H b, x_w x_mask W b)))) [0..<B])) (\<lambda>pos_list.
     if pos_list = [] then Inl RuntimeError
     else Inr (\<lambda>b n c. (pos_list ! b) c (n div W) (n mod W))))"

definition gather_tokens ::
  "vit \<Rightarrow> (nat \<times> nat) list \<Rightarrow> nat \<Rightarrow> nat \<times> nat \<times> nat \<times> nat \<Rightarrow>
   (nat \<Rightarrow> nat \<Rightarrow> nat \<Rightarrow> real) \<Rightarrow> (nat \<Rightarrow> nat \<Rightarrow> int) \<Rightarrow> (nat \<Rightarrow> nat \<Rightarrow> nat \<Rightarrow> real) \<Rightarrow>
   (nat \<Rightarrow> nat \<Rightarrow> nat \<Rightarrow> int) option \<Rightarrow> embedded" where
  \<comment> \<open>From \<^verbatim>\<open>x = x[select[:, 0], select[:, 1]].view(B, -1, C)\<close> to \<^verbatim>\<open>x = x + pos_embed\<close>;
      \<open>k\<close> is the extent that the views infer. The mask of the result is the gathered
      \<^verbatim>\<open>x_mask\<close>, without the column of the class token.\<close>
  "gather_tokens m sel k shp x x_mask pos_embed label =
     (case shp of (B, C, H, W) \<Rightarrow>
      let chosen = (\<lambda>b j. sel ! (b * k + j));
          x2 = (\<lambda>b j c. x (fst (chosen b j)) (snd (chosen b j)) c);
          x_mask2 = (\<lambda>b j. x_mask (fst (chosen b j)) (snd (chosen b j)));
          patch_index2 = (\<lambda>b j. (snd (chosen b j) div W, snd (chosen b j) mod W));
          pos_embed2 = (\<lambda>b j c. pos_embed (fst (chosen b j)) (snd (chosen b j)) c);
          label2 = map_option (\<lambda>l b j c.
                     if j = 0 then - 100
                     else if x_mask2 b (j - 1) = 0 then - 100
                     else l (fst (chosen b (j - 1))) (snd (chosen b (j - 1))) c) label;
          x3 = (\<lambda>b j c. if j = 0 then vit_cls_token m c else x2 b (j - 1) c);
          pos_embed3 = (\<lambda>b j c. if j = 0 then vit_pos_embed m 0 c else pos_embed2 b (j - 1) c)
      in
      \<lparr>out_x = \<lparr>dims3 = (B, k + 1, C), elem3 = (\<lambda>b j c. x3 b j c + pos_embed3 b j c)\<rparr>,
       out_mask = \<lparr>mdims = (B, k), melem = x_mask2\<rparr>,
       out_patch_index = patch_index2,
       out_grid = (H, W),
       out_label = label2\<rparr>)"

definition embed_tokens ::
  "vit \<Rightarrow> tensor4 \<Rightarrow> len_arg \<Rightarrow> bool \<Rightarrow> draws \<Rightarrow> py_error + embedded" where
  \<comment> \<open>\<^verbatim>\<open>visual_embed\<close> from \<^verbatim>\<open>x = self.patch_embed(_x)\<close> to \<^verbatim>\<open>x = x + pos_embed\<close>, on the
      batch of images \<open>x0\<close>. Patch \<open>(i, j)\<close> of the grid is position \<open>i * W + j\<close> of the
      flattened tensors, \<^verbatim>\<open>patch_index\<close> its inverse.\<close>
  "embed_tokens m x0 max_image_len mask_it dr =
     bnd (PatchEmbed_forward (vit_patch_embed m) x0) (\<lambda>x.
     case dims x of (B, C, H, W) \<Rightarrow>
     bnd (valid_mask x0 (H, W)) (\<lambda>x_mask.
     bnd (position_embeddings m x_mask B C H W) (\<lambda>pos_embed.
     let x_flat = (\<lambda>b n c. elem x b c (n div W) (n mod W));
         x_mask_flat = (\<lambda>b n. x_mask b (n div W) (n mod W))
     in
     bnd (if mask_it
          then bnd (mask_tokens m x0 x_flat dr) (\<lambda>(feats, labels). Inr (feats, Some labels))
          else Inr (x_flat, None)) (\<lambda>(x1, label).
     bnd (budget max_image_len (map (\<lambda>b. x_h x_mask H b * x_w x_mask W b) [0..<B])) (\<lambda>L.
     bnd (sampler x_mask_flat B (H * W) L (d_choice dr)) (\<lambda>sel.
     bnd (view_rows (length sel) B C) (\<lambda>k.
     Inr (gather_tokens m sel k (B, C, H, W) x1 x_mask_flat pos_embed label))))))))"

subsection \<open>Clips, dropout and the norm\<close>

definition flatten_video :: "tensor5 \<Rightarrow> py_error + tensor4 \<times> (nat \<Rightarrow> nat \<Rightarrow> bool)" where
  \<comment> \<open>The first branch of \<^verbatim>\<open>visual_embed\<close>: the frames as a batch of images, and
      \<^verbatim>\<open>video_mask\<close>, which marks the frames whose mean is zero. \<^verbatim>\<open>reshape\<close> cannot infer
      the extent \<open>-1\<close> when \<open>B * T = 0\<close>; the mean of no entry is not a number.\<close>
  "flatten_video v =
     (case dims5 v of (B, T, C, H, W) \<Rightarrow>
        if B * T = 0 then Inl RuntimeError
        else Inr (\<lparr>dims = (B * T, C, H, W), elem = (\<lambda>n. elem5 v (n div T) (n mod T))\<rparr>,
                  (\<lambda>b t. C * H * W \<noteq> 0 \<and>
                     (\<Sum>c \<leftarrow> [0..<C]. \<Sum>h \<leftarrow> [0..<H]. \<Sum>w \<leftarrow> [0..<W]. elem5 v b t c h w)
                       / real (C * H * W) = 0)))"

definition image_mask :: "embedded \<Rightarrow> embedded" where
  \<comment> \<open>\<^verbatim>\<open>x_mask = torch.cat([torch.ones(x_mask.shape[0], 1).to(x_mask), x_mask], dim=1)\<close>\<close>
  "image_mask s =
     (case mdims (out_mask s) of (B, k) \<Rightarrow>
        s\<lparr>out_mask := \<lparr>mdims = (B, k + 1),
                        melem = (\<lambda>b j. if j = 0 then 1 else melem (out_mask s) b (j - 1))\<rparr>\<rparr>)"

definition slice_len :: "nat \<Rightarrow> int \<Rightarrow> nat" where
  \<comment> \<open>The length of the Python slice \<^verbatim>\<open>t[:stop]\<close> of \<open>n\<close> elements.\<close>
  "slice_len n stop = (if 0 \<le> stop then min n (nat stop) else nat (int n + stop))"

definition video_mask_and_temporal ::
  "vit \<Rightarrow> nat \<Rightarrow> nat \<Rightarrow> (nat \<Rightarrow> nat \<Rightarrow> bool) \<Rightarrow> embedded \<Rightarrow> py_error + embedded" where
  \<comment> \<open>The branch \<^verbatim>\<open>if use_video:\<close> for clips of shape \<open>[B0, T, ...]\<close>. The module has the
      attributes \<^verbatim>\<open>temporal_embed\<close> and \<^verbatim>\<open>max_frames\<close> only if it was built with
      \<^verbatim>\<open>use_video=True\<close>. The in-place addition broadcasts the repeated table to \<open>x\<close>: its
      \<open>rows * reps\<close> rows must be the \<open>T * (k + 1)\<close> rows of \<open>x\<close>, or one row.\<close>
  "video_mask_and_temporal m B0 T video_mask s =
     (case dims3 (out_x s) of (B, k1, C) \<Rightarrow>
      let x_mask = (\<lambda>b q. if video_mask b (q div k1) then 0
                           else if q mod k1 = 0 then 1
                           else melem (out_mask s) (b * T + q div k1) (q mod k1 - 1));
          x = (\<lambda>b q c. elem3 (out_x s) (b * T + q div k1) (q mod k1) c)
      in
      case vit_temporal_embed m of
        None \<Rightarrow> Inl (AttributeError ''temporal_embed'')
      | Some temporal_embed \<Rightarrow>
      case vit_max_frames m of
        None \<Rightarrow> Inl (AttributeError ''max_frames'')
      | Some max_frames \<Rightarrow>
          bnd (floordiv (int (T * k1)) (int T)) (\<lambda>reps.
          let n_rows = slice_len 64 max_frames * nat reps in
          if n_rows \<noteq> T * k1 \<and> n_rows \<noteq> 1 then Inl RuntimeError
          else Inr (s\<lparr>out_x := \<lparr>dims3 = (B0, T * k1, C),
                                elem3 = (\<lambda>b q c. x b q c +
                                  temporal_embed ((if n_rows = 1 then 0 else q) div nat reps) c)\<rparr>,
                      out_mask := \<lparr>mdims = (B0, T * k1), melem = x_mask\<rparr>\<rparr>)))"

definition dropout_forward ::
  "real \<Rightarrow> bool \<Rightarrow> (nat \<Rightarrow> nat \<Rightarrow> nat \<Rightarrow> bool) \<Rightarrow> tensor3 \<Rightarrow> tensor3" where
  \<comment> \<open>\<^verbatim>\<open>nn.Dropout(p)(x)\<close>: the identity in evaluation mode and for \<open>p = 0\<close>; otherwise the
      entries that are kept are divided by \<open>1 - p\<close>, the others are zero.\<close>
  "dropout_forward p training keep x =
     (if training \<and> 0 < p
      then x\<lparr>elem3 := (\<lambda>b n c. if p < 1 \<and> keep b n c then elem3 x b n c / (1 - p) else 0)\<rparr>
      else x)"

definition layer_norm_forward :: "layer_norm \<Rightarrow> tensor3 \<Rightarrow> py_error + tensor3" where
  \<comment> \<open>\<^verbatim>\<open>nn.LayerNorm\<close> over the last axis; a layer without affine parameters only
      normalises.\<close>
  "layer_norm_forward lnorm x =
     (case dims3 x of (B, N, C) \<Rightarrow>
        if int C \<noteq> ln_shape lnorm then Inl RuntimeError
        else Inr (x\<lparr>elem3 := (\<lambda>b n c.
               let mu = (\<Sum>i \<leftarrow> [0..<C]. elem3 x b n i) / real C;
                   vr = (\<Sum>i \<leftarrow> [0..<C]. (elem3 x b n i - mu) ^ 2) / real C
               in (elem3 x b n c - mu) / sqrt (vr + ln_eps lnorm) *
                  (case ln_weight lnorm of None \<Rightarrow> 1 | Some w \<Rightarrow> w c) +
                  (case ln_bias lnorm of None \<Rightarrow> 0 | Some bs \<Rightarrow> bs c))\<rparr>))"

definition drop_and_norm :: "vit \<Rightarrow> draws \<Rightarrow> embedded \<Rightarrow> py_error + embedded" where
  \<comment> \<open>\<^verbatim>\<open>x = self.pos_drop(x)\<close>, then \<^verbatim>\<open>self.pre_norm\<close> if the module was built with
      \<^verbatim>\<open>add_norm_before_transformer\<close>.\<close>
  "drop_and_norm m dr s =
     (let x = dropout_forward (vit_pos_drop m) (vit_training m) (d_keep dr) (out_x s) in
      if vit_add_norm_before_transformer m
      then (case vit_pre_norm m of
              None \<Rightarrow> Inl (AttributeError ''pre_norm'')
            | Some lnorm \<Rightarrow> bnd (layer_norm_forward lnorm x) (\<lambda>y. Inr (s\<lparr>out_x := y\<rparr>)))
      else Inr (s\<lparr>out_x := x\<rparr>))"

definition visual_embed ::
  "vit \<Rightarrow> image_input \<Rightarrow> len_arg \<Rightarrow> bool \<Rightarrow> draws \<Rightarrow> py_error + embedded" where
  \<comment> \<open>\<^verbatim>\<open>visual_embed(_x, max_image_len, mask_it)\<close>; the result stands for the tuple
      \<^verbatim>\<open>(x, x_mask, (patch_index, (H, W)), label, None)\<close>.\<close>
  "visual_embed m inp max_image_len mask_it dr =
     (case inp of
        Image x0 \<Rightarrow>
          bnd (embed_tokens m x0 max_image_len mask_it dr) (\<lambda>s.
          drop_and_norm m dr (image_mask s))
      | Video v \<Rightarrow>
          bnd (flatten_video v) (\<lambda>(x0, video_mask).
          bnd (embed_tokens m x0 max_image_len mask_it dr) (\<lambda>s.
          bnd (video_mask_and_temporal m (fst (dims5 v)) (fst (snd (dims5 v))) video_mask s)
            (drop_and_norm m dr))))"

text \<open>
  A small module and small inputs for the evaluations below: images of two by two pixels with
  patches of one pixel, an embedding of width two, and draws that are all zero.
\<close>

definition tiny_vit :: vit where
  "tiny_vit = projr (PerceiverVisionTransformer tiny_args zero_init)"

definition tiny_video_vit :: vit where
  "tiny_video_vit =
     projr (PerceiverVisionTransformer (tiny_args\<lparr>arg_use_video := True, arg_max_frames := 2\<rparr>)
              zero_init)"

definition tiny_image :: tensor4 where
  "tiny_image = const_tensor4 (1, 3, 2, 2) 1"

definition zero_draws :: draws where
  "zero_draws = \<lparr>d_choice = (\<lambda>i n. 0), d_masked = (\<lambda>b n. True), d_replaced = (\<lambda>b n. True),
                  d_keep = (\<lambda>b n c. True)\<rparr>"

definition zero_image :: tensor4 where
  "zero_image = const_tensor4 (1, 3, 2, 2) 0"

definition const_tensor5 :: "nat \<times> nat \<times> nat \<times> nat \<times> nat \<Rightarrow> real \<Rightarrow> tensor5" where
  "const_tensor5 shp v = \<lparr>dims5 = shp, elem5 = (\<lambda>b t c i j. v)\<rparr>"

definition tiny_clip :: tensor5 where
  "tiny_clip = const_tensor5 (1, 2, 3, 2, 2) 1"

definition long_clip :: tensor5 where
  "long_clip = const_tensor5 (1, 3, 3, 2, 2) 1"

definition frame_table :: "nat \<Rightarrow> nat \<Rightarrow> real" where
  "frame_table f d = real f + 1"

definition ramp_init :: vit_init where
  "ramp_init = zero_init\<lparr>r_pos_embed := (\<lambda>n d. real n)\<rparr>"

definition ramp_vit :: vit where
  "ramp_vit = projr (PerceiverVisionTransformer tiny_args ramp_init)"

section \<open>Patch embedding: lemmas\<close>

lemma bnd_Inr [simp]: "bnd (Inr v) f = f v"
  by (simp add: bnd_def)

lemma bnd_Inl [simp]: "bnd (Inl e) f = Inl e"
  by (simp add: bnd_def)

lemma bnd_eq_Inr_iff: "bnd r f = Inr y \<longleftrightarrow> (\<exists>v. r = Inr v \<and> f v = Inr y)"
  by (cases r) simp_all

lemma conv_out_size_patch:
  assumes "0 < k" and "k \<le> int n"
  shows "conv_out_size n k k 0 = Inr (nat (int n div k))"
proof -
  have "int n div k = ((int n - k) + k) div k" by simp
  also have "\<dots> = (int n - k) div k + 1"
    using assms(1) by (subst div_add_self2) simp_all
  finally show ?thesis using assms by (simp add: conv_out_size_def)
qed

lemma conv_out_size_Inl: "conv_out_size n k s p = Inl e \<Longrightarrow> e = RuntimeError"
  by (auto simp: conv_out_size_def split: if_splits)

lemma PatchEmbed_Inr:
  assumes "PatchEmbed img_size patch_size in_chans embed_dim nb w0 b0 = Inr pe"
    and "to_2tuple patch_size = (ph, pw)" and "to_2tuple img_size = (ih, iw)"
  shows "0 < ph" and "0 < pw" and "0 \<le> in_chans" and "0 \<le> embed_dim"
    and "pe = \<lparr>pe_img_size = (ih, iw), pe_patch_size = (ph, pw),
                 pe_num_patches = (iw div pw) * (ih div ph),
                 pe_proj = \<lparr>in_channels = in_chans, out_channels = embed_dim,
                   kernel_size = (ph, pw), stride = (ph, pw), padding = (0, 0),
                   has_bias = (\<not> nb), weight = w0, bias = b0\<rparr>\<rparr>"
  using assms
  by (auto simp: PatchEmbed_def Let_def floordiv_def Conv2d_def bnd_eq_Inr_iff
      split: if_splits)

lemma conv2d_value_same_patch:
  assumes "dims x' = dims x" and "same_patch (ph, pw) b i j x x'"
    and "kernel_size cv = (ph, pw)" and "stride cv = (ph, pw)" and "padding cv = (0, 0)"
  shows "conv2d_value cv x b oc i j = conv2d_value cv x' b oc i j"
proof -
  have eq: "padded_elem x (0, 0) b ch (int i * ph + int u) (int j * pw + int v) =
            padded_elem x' (0, 0) b ch (int i * ph + int u) (int j * pw + int v)"
    if "u < nat ph" and "v < nat pw" for ch u v
  proof -
    obtain B C H W where d: "dims x = (B, C, H, W)" by (cases "dims x") auto
    have r: "int i * ph \<le> int (nat (int i * ph + int u))"
      "int (nat (int i * ph + int u)) < (int i + 1) * ph"
      "int j * pw \<le> int (nat (int j * pw + int v))"
      "int (nat (int j * pw + int v)) < (int j + 1) * pw"
      using that by (auto simp: algebra_simps)
    have "elem x b ch (nat (int i * ph + int u)) (nat (int j * pw + int v)) =
          elem x' b ch (nat (int i * ph + int u)) (nat (int j * pw + int v))"
      using assms(2) r unfolding same_patch_def by simp
    then show ?thesis using d assms(1) by (simp add: padded_elem_def)
  qed
  show ?thesis
    unfolding conv2d_value_def assms(3,4,5) fst_conv snd_conv
    by (intro arg_cong2[where f="(+)"] refl arg_cong[where f=sum_list] map_cong
        arg_cong2[where f="(*)"] eq) simp_all
qed

text \<open>
  C8 (amended). A PatchEmbed that was built with a positive number of input channels and a
  positive \<open>embed_dim\<close> has a projection whose kernel and stride are the patch size and whose
  padding is zero, and stores \<open>num_patches = (ih div ph) * (iw div pw)\<close>. On every input with
  the configured channel count that is at least one patch high and wide, it returns a grid of
  \<open>H div ph\<close> by \<open>W div pw\<close> positions with \<open>embed_dim\<close> features each, and the features at
  position \<open>(i, j)\<close> are determined by the pixels of patch \<open>(i, j)\<close> alone: the patches do not
  overlap. Every input that is lower or narrower than one patch is refused with a
  RuntimeError.
\<close>

theorem PatchEmbed_grid:
  assumes "PatchEmbed img_size patch_size in_chans embed_dim nb w0 b0 = Inr pe"
    and "to_2tuple patch_size = (ph, pw)" and "to_2tuple img_size = (ih, iw)"
    and "0 < in_chans" and "0 < embed_dim"
  shows "kernel_size (pe_proj pe) = (ph, pw) \<and> stride (pe_proj pe) = (ph, pw) \<and>
         padding (pe_proj pe) = (0, 0) \<and> out_channels (pe_proj pe) = embed_dim \<and>
         pe_num_patches pe = (ih div ph) * (iw div pw) \<and>
         (\<forall>x B C H W. dims x = (B, C, H, W) \<and> int C = in_chans \<and> ph \<le> int H \<and> pw \<le> int W \<longrightarrow>
            (\<exists>y. PatchEmbed_forward pe x = Inr y \<and>
                 dims y = (B, nat embed_dim, nat (int H div ph), nat (int W div pw)) \<and>
                 (\<forall>x' y' b oc i j. dims x' = dims x \<and> same_patch (ph, pw) b i j x x' \<and>
                     PatchEmbed_forward pe x' = Inr y' \<longrightarrow>
                     elem y' b oc i j = elem y b oc i j))) \<and>
         (\<forall>x B C H W. dims x = (B, C, H, W) \<and> (int H < ph \<or> int W < pw) \<longrightarrow>
            PatchEmbed_forward pe x = Inl RuntimeError)"
proof -
  note pe = PatchEmbed_Inr[OF assms(1-3)]
  note ic = assms(4) and ed = assms(5)
  have cv: "kernel_size (pe_proj pe) = (ph, pw)" "stride (pe_proj pe) = (ph, pw)"
    "padding (pe_proj pe) = (0, 0)" "out_channels (pe_proj pe) = embed_dim"
    "in_channels (pe_proj pe) = in_chans"
    by (simp_all add: pe(5))
  have np: "pe_num_patches pe = (ih div ph) * (iw div pw)"
    by (simp add: pe(5) mult.commute)
  have fw: "\<exists>y. PatchEmbed_forward pe x = Inr y \<and>
                 dims y = (B, nat embed_dim, nat (int H div ph), nat (int W div pw)) \<and>
                 (\<forall>x' y' b oc i j. dims x' = dims x \<and> same_patch (ph, pw) b i j x x' \<and>
                     PatchEmbed_forward pe x' = Inr y' \<longrightarrow>
                     elem y' b oc i j = elem y b oc i j)"
    if d: "dims x = (B, C, H, W)" and c: "int C = in_chans" and h: "ph \<le> int H" and w: "pw \<le> int W"
    for x B C H W
  proof -
    let ?y = "\<lparr>dims = (B, nat embed_dim, nat (int H div ph), nat (int W div pw)),
                elem = conv2d_value (pe_proj pe) x\<rparr>"
    have run: "PatchEmbed_forward pe x' = Inr \<lparr>dims = (B, nat embed_dim, nat (int H div ph), nat (int W div pw)),
                elem = conv2d_value (pe_proj pe) x'\<rparr>" if "dims x' = dims x" for x'
      using that d c ic ed conv_out_size_patch[OF pe(1) h] conv_out_size_patch[OF pe(2) w]
      by (auto simp: PatchEmbed_forward_def conv2d_forward_def cv)
    have "PatchEmbed_forward pe x = Inr ?y" by (rule run) simp
    moreover have "elem y' b oc i j = elem ?y b oc i j"
      if "dims x' = dims x" "same_patch (ph, pw) b i j x x'" "PatchEmbed_forward pe x' = Inr y'"
      for x' y' b oc i j
      using that run[OF that(1)] conv2d_value_same_patch[OF that(1,2) cv(1,2,3), of oc]
      by auto
    ultimately show ?thesis by (intro exI[of _ ?y]) auto
  qed
  have small: "PatchEmbed_forward pe x = Inl RuntimeError"
    if d: "dims x = (B, C, H, W)" and hw: "int H < ph \<or> int W < pw" for x B C H W
  proof (cases "int H < ph")
    case True
    then have "conv_out_size H ph ph 0 = Inl RuntimeError"
      by (simp add: conv_out_size_def)
    then show ?thesis using d by (simp add: PatchEmbed_forward_def conv2d_forward_def cv)
  next
    case False
    with hw have "int W < pw" by simp
    then have "conv_out_size W pw pw 0 = Inl RuntimeError"
      by (simp add: conv_out_size_def)
    then show ?thesis
      using d by (cases "conv_out_size H ph ph 0")
        (auto simp: PatchEmbed_forward_def conv2d_forward_def cv dest: conv_out_size_Inl)
  qed
  have 1: "\<forall>x B C H W. dims x = (B, C, H, W) \<and> int C = in_chans \<and> ph \<le> int H \<and> pw \<le> int W \<longrightarrow>
            (\<exists>y. PatchEmbed_forward pe x = Inr y \<and>
                 dims y = (B, nat embed_dim, nat (int H div ph), nat (int W div pw)) \<and>
                 (\<forall>x' y' b oc i j. dims x' = dims x \<and> same_patch (ph, pw) b i j x x' \<and>
                     PatchEmbed_forward pe x' = Inr y' \<longrightarrow>
                     elem y' b oc i j = elem y b oc i j))"
    using fw by blast
  have 2: "\<forall>x B C H W. dims x = (B, C, H, W) \<and> (int H < ph \<or> int W < pw) \<longrightarrow>
            PatchEmbed_forward pe x = Inl RuntimeError"
    using small by blast
  show ?thesis
    apply (intro conjI)
          apply (rule cv(1))
         apply (rule cv(2))
        apply (rule cv(3))
       apply (rule cv(4))
      apply (rule np)
     apply (rule 1)
    apply (rule 2)
    done
qed

theorem PatchEmbed_grid_witness:
  "PatchEmbed (Scalar 4) (Scalar 2) 3 5 False (const_weight 1) (const_bias 0) =
     Inr \<lparr>pe_img_size = (4, 4), pe_patch_size = (2, 2), pe_num_patches = 4,
          pe_proj = \<lparr>in_channels = 3, out_channels = 5, kernel_size = (2, 2),
            stride = (2, 2), padding = (0, 0), has_bias = True,
            weight = const_weight 1, bias = const_bias 0\<rparr>\<rparr> \<and>
   (\<exists>y. PatchEmbed_call (Scalar 4) (Scalar 2) 3 5 False (const_weight 1) (const_bias 0)
          (const_tensor4 (1, 3, 5, 4) 1) = Inr y \<and> dims y = (1, 5, 2, 2) \<and>
        elem y 0 0 0 0 = 12)"
proof -
  let ?pe = "\<lparr>pe_img_size = (4, 4), pe_patch_size = (2, 2), pe_num_patches = 4,
          pe_proj = \<lparr>in_channels = 3, out_channels = 5, kernel_size = (2, 2),
            stride = (2, 2), padding = (0, 0), has_bias = True,
            weight = const_weight 1, bias = const_bias 0\<rparr>\<rparr>"
  have b: "PatchEmbed (Scalar 4) (Scalar 2) 3 5 False (const_weight 1) (const_bias 0) = Inr ?pe"
    by (simp add: PatchEmbed_def floordiv_def Conv2d_def Let_def)
  have t2: "to_2tuple (Scalar 2) = (2, 2)" and t4: "to_2tuple (Scalar 4) = (4, 4)"
    by simp_all
  have pre: "dims (const_tensor4 (1, 3, 5, 4) 1) = (1, 3, 5, 4) \<and> int 3 = 3 \<and>
             (2::int) \<le> int 5 \<and> (2::int) \<le> int 4"
    by (simp add: const_tensor4_def)
  have ic: "(0::int) < 3" and ed: "(0::int) < 5" by simp_all
  from PatchEmbed_grid[OF b t2 t4 ic ed, THEN conjunct2, THEN conjunct2, THEN conjunct2,
      THEN conjunct2, THEN conjunct2, THEN conjunct1, rule_format, OF pre]
  obtain y where "PatchEmbed_forward ?pe (const_tensor4 (1, 3, 5, 4) 1) = Inr y"
    and "dims y = (1, nat 5, nat (int 5 div 2), nat (int 4 div 2))"
    by blast
  then have y: "PatchEmbed_forward ?pe (const_tensor4 (1, 3, 5, 4) 1) = Inr y"
    "dims y = (1, 5, 2, 2)" by simp_all
  have "elem y 0 0 0 0 = 12"
    using y(1)
    by (auto simp: PatchEmbed_forward_def conv2d_forward_def conv_out_size_def
        const_tensor4_def conv2d_value_def padded_elem_def const_weight_def const_bias_def
        bnd_eq_Inr_iff upt_rec)
  with b y show ?thesis by (simp add: PatchEmbed_call_def)
qed

theorem PatchEmbed_small_input_counterexample:
  "PatchEmbed_call (Scalar 224) (Scalar 16) 3 768 False (const_weight 0) (const_bias 0)
     (const_tensor4 (1, 3, 8, 8) 0) = Inl RuntimeError"
  by (simp add: PatchEmbed_call_def PatchEmbed_def floordiv_def Conv2d_def Let_def
      PatchEmbed_forward_def conv2d_forward_def conv_out_size_def const_tensor4_def)

section \<open>Attention: masked keys\<close>











section \<open>The constructor and pretrained weights\<close>











lemma create_this_module:
  "create_vision_transformer (this_module lp bk) v p d kw r = Inl (NameError ''default_cfgs'')"
  by (simp add: create_vision_transformer_def this_module_def)


subsection \<open>Evaluating the constructor\<close>

lemma round_half_even_of_int: "round_half_even (of_int k) = k"
  by (simp add: round_half_even_def)

lemma float_round_power_of_two:
  assumes "0 < p" and "emin \<le> int n"
  shows "float_round p emin (2 ^ n) = 2 ^ n"
proof -
  have lg: "\<lfloor>log 2 \<bar>(2::real) ^ n\<bar>\<rfloor> = int n" by simp
  have mx: "max (int n) emin = int n" using assms(2) by simp
  let ?u = "2 powr (of_int (int n) - (real p - 1))"
  have q: "(2::real) ^ n / ?u = of_int (2 ^ (p - 1))"
  proof -
    have "(2::real) ^ n = 2 powr (real n)" by (simp add: powr_realpow)
    then have "(2::real) ^ n / ?u = 2 powr (real n - (real n - (real p - 1)))"
      by (simp add: powr_diff)
    also have "\<dots> = 2 powr (real (p - 1))" using assms(1) by (simp add: of_nat_diff)
    also have "\<dots> = 2 ^ (p - 1)" by (simp add: powr_realpow)
    finally show ?thesis by simp
  qed
  have "of_int (2 ^ (p - 1)) * ?u = (2::real) ^ n"
    using q by (simp add: field_simps)
  then show ?thesis
    unfolding float_round_def lg mx q round_half_even_of_int by simp
qed

lemma double_round_2: "double_round 2 = 2"
  using float_round_power_of_two[of 53 "- 1022" 1] by (simp add: double_round_def)

lemma double_round_8: "double_round 8 = 8"
  using float_round_power_of_two[of 53 "- 1022" 3] by (simp add: double_round_def)

lemma mlp_hidden_dim_tiny: "mlp_hidden_dim 2 4 = Inr 8"
proof -
  have "\<not> (2::real) ^ 1024 \<le> 2" "\<not> (2::real) ^ 1024 \<le> 8" by simp_all
  then show ?thesis
    by (simp add: mlp_hidden_dim_def double_round_2 double_round_8 py_int_def)
qed

lemma linspace_zero_one: "linspace 0 0 1 = Inr (\<lambda>i. 0)"
  by (simp add: linspace_def f32_def float_round_def)

lemmas ctor_defs = PerceiverVisionTransformer_def build_modules_def init_weights_def
  init_block_def init_layer_norm_def init_linear_def tiny_args_def default_args_def Let_def
  PatchEmbed_def floordiv_def Conv2d_def torch_zeros_def Dropout_def linspace_zero_one
  Block_def Attention_def truthy_def pow_neg_half_def Linear_def Mlp_def
  mlp_hidden_dim_tiny zero_init_def





section \<open>The registered factories\<close>

lemma isl_bnd: "(\<And>v. isl (f v)) \<Longrightarrow> isl (bnd r f)"
  by (cases r) simp_all

lemma isl_bnd_left: "isl r \<Longrightarrow> isl (bnd r f)"
  by (cases r) simp_all

lemma call_factory_this_module: "isl (call_factory (this_module lp bk) f p kw r)"
  unfolding call_factory_def Let_def
  by (intro isl_bnd) (simp add: create_this_module)

lemma bind_kwargs_hybrid:
  "K_hybrid_backbone b \<in> set ks \<Longrightarrow> isl (bind_kwargs ks a)"
proof (induction ks arbitrary: a)
  case Nil
  then show ?case by simp
next
  case (Cons k ks)
  show ?case
  proof (cases "k = K_hybrid_backbone b")
    case True
    then show ?thesis by simp
  next
    case False
    with Cons.prems have "K_hybrid_backbone b \<in> set ks" by simp
    then have "isl (bind_kwargs ks a')" for a' by (rule Cons.IH)
    then show ?thesis by (simp add: isl_bnd)
  qed
qed

lemma create_without_distilled_class:
  assumes "env_distilled_cls env = None"
    and "d \<or> K_hybrid_backbone b \<in> set kw"
  shows "isl (create_vision_transformer env v p d kw r)"
proof (cases "env_default_cfgs env")
  case None
  then show ?thesis by (simp add: create_vision_transformer_def)
next
  case (Some tbl)
  show ?thesis
  proof (cases "tbl v")
    case None
    with Some show ?thesis by (simp add: create_vision_transformer_def)
  next
    case c: (Some c)
    show ?thesis
    proof (cases d)
      case True
      with Some c assms(1) show ?thesis
        by (simp add: create_vision_transformer_def Let_def)
    next
      case False
      with assms(2) have "K_hybrid_backbone b \<in> set kw" by simp
      then have "K_hybrid_backbone b \<in> set (x1 # x2 # x3 #
          pop_key ''representation_size'' (pop_key ''img_size'' (pop_key ''num_classes'' kw)))"
        for x1 x2 x3
        by (simp add: pop_key_def)
      then have "isl (bind_kwargs (x1 # x2 # x3 #
          pop_key ''representation_size'' (pop_key ''img_size'' (pop_key ''num_classes'' kw))) a)"
        for x1 x2 x3 a
        by (rule bind_kwargs_hybrid)
      with Some c False show ?thesis
        unfolding create_vision_transformer_def Let_def
        by (simp add: isl_bnd_left del: bind_kwargs.simps)
    qed
  qed
qed

lemma call_hybrid_factory:
  "isl (call_factory (env\<lparr>env_distilled_cls := None\<rparr>) vit_base_resnet50_384 p kw r)"
proof (cases "env_backbone env ''ResNetV2'' False (kw_in_chans kw)")
  case (Inl e)
  then show ?thesis by (simp add: call_factory_def)
next
  case b: (Inr b)
  show ?thesis
  proof (cases "dict_merge [K_embed_dim 768, K_depth 12, K_num_heads 12, K_hybrid_backbone b] kw")
    case (Inl e)
    with b show ?thesis by (simp add: call_factory_def)
  next
    case mk: (Inr mk0)
    then have "mk0 = [K_embed_dim 768, K_depth 12, K_num_heads 12, K_hybrid_backbone b] @ kw"
      by (simp add: dict_merge_def split: if_splits)
    then have "K_hybrid_backbone b \<in> set (pop_key ''distilled'' mk0)"
      by (simp add: pop_key_def)
    then have "isl (create_vision_transformer (env\<lparr>env_distilled_cls := None\<rparr>) v p d
                 (pop_key ''distilled'' mk0) r)" for v d
      by (intro create_without_distilled_class[where b = b]) simp_all
    with b mk show ?thesis by (simp add: call_factory_def Let_def)
  qed
qed

lemma call_distilled_factory:
  "isl (call_factory (env\<lparr>env_distilled_cls := None\<rparr>) vit_deit_tiny_distilled_patch16_224
          p kw r)"
proof -
  have "isl (create_vision_transformer (env\<lparr>env_distilled_cls := None\<rparr>) v p True kw' r)"
    for v kw'
    by (rule create_without_distilled_class[where b = undefined]) simp_all
  then show ?thesis
    unfolding call_factory_def Let_def
    by (intro isl_bnd) simp
qed

text \<open>
  C3 (the code fails it). In the module as it is written no call of a registered factory
  returns a model: \<^verbatim>\<open>_create_vision_transformer\<close> reads \<^verbatim>\<open>default_cfgs\<close>, which the module
  never binds. Were the table bound, the hybrid factories would still fail, as they pass
  \<^verbatim>\<open>hybrid_backbone\<close> to a constructor without that parameter, and so would the distilled ones,
  as they need the unbound class \<^verbatim>\<open>DistilledPerceiverVisionTransformer\<close>. The last two lines
  evaluate the two factories the claim cites, with \<^verbatim>\<open>pretrained=False\<close> and no keyword, in
  the module completed by a table.
\<close>

theorem registered_factories_raise:
  "isl (call_factory (this_module lp bk) f pretrained kwargs r) \<and>
   call_factory (this_module lp bk) vit_base_patch16_224 False [] r
     = Inl (NameError ''default_cfgs'') \<and>
   isl (call_factory (env\<lparr>env_distilled_cls := None\<rparr>) vit_base_resnet50_384
          pretrained kwargs r) \<and>
   isl (call_factory (env\<lparr>env_distilled_cls := None\<rparr>) vit_deit_tiny_distilled_patch16_224
          pretrained kwargs r) \<and>
   call_factory completed_module vit_base_resnet50_384 False [] zero_init
     = Inl (TypeError ''__init__() got an unexpected keyword argument'') \<and>
   call_factory completed_module vit_deit_tiny_distilled_patch16_224 False [] zero_init
     = Inl (NameError ''DistilledPerceiverVisionTransformer'')"
proof (intro conjI)
  show "isl (call_factory (this_module lp bk) f pretrained kwargs r)"
    by (rule call_factory_this_module)
  show "call_factory (this_module lp bk) vit_base_patch16_224 False [] r
     = Inl (NameError ''default_cfgs'')"
    by (simp add: call_factory_def dict_merge_def has_key_def create_this_module)
  show "isl (call_factory (env\<lparr>env_distilled_cls := None\<rparr>) vit_base_resnet50_384
          pretrained kwargs r)"
    by (rule call_hybrid_factory)
  show "isl (call_factory (env\<lparr>env_distilled_cls := None\<rparr>) vit_deit_tiny_distilled_patch16_224
          pretrained kwargs r)"
    by (rule call_distilled_factory)
  show "call_factory completed_module vit_base_resnet50_384 False [] zero_init
     = Inl (TypeError ''__init__() got an unexpected keyword argument'')"
    by (simp add: call_factory_def dict_merge_def has_key_def pop_key_def kw_in_chans_def
        completed_module_def backbone_ok_def create_vision_transformer_def cfg_of_url_def)
  show "call_factory completed_module vit_deit_tiny_distilled_patch16_224 False [] zero_init
     = Inl (NameError ''DistilledPerceiverVisionTransformer'')"
    by (simp add: call_factory_def dict_merge_def has_key_def pop_key_def kw_in_chans_def
        completed_module_def create_vision_transformer_def cfg_of_url_def)
qed

section \<open>visual_embed: lemmas\<close>

lemma sum_list_ones: "(\<Sum>i \<leftarrow> [0..<H]. (1::int)) = int H"
  by (simp add: sum_list_triv)

lemma sequence_Inr_iff:
  "sequence rs = Inr ys \<longleftrightarrow> rs = map Inr ys"
proof (induction rs arbitrary: ys)
  case Nil
  then show ?case by auto
next
  case (Cons r rs)
  show ?case
  proof (cases r)
    case (Inl e)
    then show ?thesis by auto
  next
    case (Inr v)
    then show ?thesis
      by (cases ys) (auto simp: bnd_eq_Inr_iff Cons.IH)
  qed
qed

lemma sequence_map_Inr:
  "sequence (map g xs) = Inr ys \<longleftrightarrow>
     length ys = length xs \<and> (\<forall>i < length xs. g (xs ! i) = Inr (ys ! i))"
  by (auto simp: sequence_Inr_iff list_eq_iff_nth_eq)

lemma concat_uniform_length:
  "(\<And>xs. xs \<in> set xss \<Longrightarrow> length xs = k) \<Longrightarrow> length (concat xss) = length xss * k"
  by (induction xss) simp_all

lemma concat_uniform_nth:
  assumes "\<And>xs. xs \<in> set xss \<Longrightarrow> length xs = k" and "b < length xss" and "j < k"
  shows "concat xss ! (b * k + j) = xss ! b ! j"
  using assms
proof (induction xss arbitrary: b)
  case Nil
  then show ?case by simp
next
  case (Cons xs xss)
  have l: "length xs = k" using Cons.prems(1) by simp
  show ?case
  proof (cases b)
    case 0
    with l Cons.prems(3) show ?thesis by (simp add: nth_append)
  next
    case (Suc b')
    with Cons.prems have "concat xss ! (b' * k + j) = xss ! b' ! j"
      by (intro Cons.IH) auto
    with l Suc show ?thesis by (simp add: nth_append)
  qed
qed

lemma pick_distinct_length:
  "k \<le> length pool \<Longrightarrow> length (pick_distinct pool k rs) = k"
proof (induction k arbitrary: pool rs)
  case 0
  then show ?case by simp
next
  case (Suc k)
  then have ne: "pool \<noteq> []" by auto
  let ?i = "rs 0 mod length pool"
  have "?i < length pool" using ne by simp
  then have "k \<le> length (take ?i pool @ drop (Suc ?i) pool)"
    using Suc.prems by simp
  then show ?case using ne Suc.IH by simp
qed

lemma pick_distinct_set:
  "set (pick_distinct pool k rs) \<subseteq> set pool"
proof (induction k arbitrary: pool rs)
  case 0
  then show ?case by simp
next
  case (Suc k)
  show ?case
  proof (cases "pool = []")
    case True
    then show ?thesis by simp
  next
    case False
    let ?i = "rs 0 mod length pool"
    have i: "?i < length pool" using False by simp
    have "set (take ?i pool @ drop (Suc ?i) pool) \<subseteq> set pool"
      by (auto dest: in_set_takeD in_set_dropD)
    with Suc.IH[of "take ?i pool @ drop (Suc ?i) pool" "\<lambda>n. rs (Suc n)"] i False
    show ?thesis by auto
  qed
qed

lemma pick_distinct_distinct:
  "distinct pool \<Longrightarrow> distinct (pick_distinct pool k rs)"
proof (induction k arbitrary: pool rs)
  case 0
  then show ?case by simp
next
  case (Suc k)
  show ?case
  proof (cases "pool = []")
    case True
    then show ?thesis by simp
  next
    case False
    let ?i = "rs 0 mod length pool"
    let ?rest = "take ?i pool @ drop (Suc ?i) pool"
    have i: "?i < length pool" using False by simp
    have pool: "pool = take ?i pool @ pool ! ?i # drop (Suc ?i) pool"
      using i by (rule id_take_nth_drop)
    have d: "distinct (take ?i pool @ pool ! ?i # drop (Suc ?i) pool)"
      using Suc.prems pool by simp
    then have dr: "distinct ?rest" and ni: "pool ! ?i \<notin> set ?rest"
      by auto
    have "set (pick_distinct ?rest k (\<lambda>n. rs (Suc n))) \<subseteq> set ?rest"
      by (rule pick_distinct_set)
    with ni have "pool ! ?i \<notin> set (pick_distinct ?rest k (\<lambda>n. rs (Suc n)))" by blast
    moreover have "distinct (pick_distinct ?rest k (\<lambda>n. rs (Suc n)))"
      using dr by (rule Suc.IH)
    ultimately show ?thesis using False by simp
  qed
qed

lemma multinomial_Inr:
  assumes "multinomial n k repl rs = Inr ch"
  shows "0 < k \<and> 0 < n \<and> length ch = nat k \<and> set ch \<subseteq> {..<n} \<and>
         (\<not> repl \<longrightarrow> k \<le> int n \<and> distinct ch)"
proof -
  from assms have g: "0 < k" "0 < n" "repl \<or> k \<le> int n" and cap: "\<not> 2 ^ 24 < n"
    by (auto simp: multinomial_def split: if_splits)
  show ?thesis
  proof (cases repl)
    case True
    with assms g cap have "ch = map (\<lambda>i. rs i mod n) [0..<nat k]"
      by (simp add: multinomial_def)
    with g True show ?thesis by auto
  next
    case False
    with assms g cap have ch: "ch = pick_distinct [0..<n] (nat k) rs"
      by (simp add: multinomial_def)
    from False g have kn: "nat k \<le> length [0..<n]" by simp
    have "length ch = nat k" unfolding ch using kn by (rule pick_distinct_length)
    moreover have "set ch \<subseteq> {..<n}"
      unfolding ch using pick_distinct_set[of "[0..<n]" "nat k" rs] by auto
    moreover have "distinct ch" unfolding ch by (rule pick_distinct_distinct) simp
    ultimately show ?thesis using g False by simp
  qed
qed

lemma multinomial_returns:
  "0 < k \<Longrightarrow> 0 < n \<Longrightarrow> n \<le> 2 ^ 24 \<Longrightarrow> repl \<or> k \<le> int n \<Longrightarrow>
   \<exists>ch. multinomial n k repl rs = Inr ch"
  by (auto simp: multinomial_def)

lemma multinomial_nonpositive: "k \<le> 0 \<Longrightarrow> multinomial n k repl rs = Inl RuntimeError"
  by (simp add: multinomial_def)

lemma select_row_truncate:
  assumes "0 < L" and "L \<le> int (length (filter (\<lambda>n. row n \<noteq> 0) [0..<N]))"
    and "N \<le> 2 ^ 24"
  shows "\<exists>ns. select_row row N L rs = Inr ns \<and> length ns = nat L \<and> distinct ns \<and>
              set ns \<subseteq> {n. n < N \<and> row n \<noteq> 0}"
proof -
  let ?valid = "filter (\<lambda>n. row n \<noteq> 0) [0..<N]"
  from assms have "0 < length ?valid" by linarith
  moreover have "length ?valid \<le> 2 ^ 24"
    using length_filter_le[of "\<lambda>n. row n \<noteq> 0" "[0..<N]"] assms(3) by simp
  ultimately obtain ch where ch: "multinomial (length ?valid) L False rs = Inr ch"
    using multinomial_returns[of L "length ?valid" False rs] assms(1,2) by auto
  from multinomial_Inr[OF ch] have
    l: "length ch = nat L" and sub: "set ch \<subseteq> {..<length ?valid}" and d: "distinct ch"
    by auto
  have sr: "select_row row N L rs = Inr (map (\<lambda>c. ?valid ! c) ch)"
    using assms(1,2) ch by (simp add: select_row_def Let_def)
  have "inj_on (\<lambda>c. ?valid ! c) (set ch)"
    using sub by (intro inj_on_nth) auto
  with d have "distinct (map (\<lambda>c. ?valid ! c) ch)" by (simp add: distinct_map)
  moreover have "set (map (\<lambda>c. ?valid ! c) ch) \<subseteq> {n. n < N \<and> row n \<noteq> 0}"
  proof
    fix n assume "n \<in> set (map (\<lambda>c. ?valid ! c) ch)"
    then obtain c where c: "c \<in> set ch" "n = ?valid ! c" by auto
    with sub have "c < length ?valid" by auto
    then have "?valid ! c \<in> set ?valid" by (rule nth_mem)
    with c show "n \<in> {n. n < N \<and> row n \<noteq> 0}" by simp
  qed
  ultimately show ?thesis using sr l by simp
qed

lemma select_row_pad:
  assumes "int (length (filter (\<lambda>n. row n \<noteq> 0) [0..<N])) < L"
    and "\<exists>n < N. row n \<noteq> 1"
    and "N \<le> 2 ^ 24"
  shows "\<exists>pads. select_row row N L rs = Inr (filter (\<lambda>n. row n \<noteq> 0) [0..<N] @ pads) \<and>
           length pads = nat (L - int (length (filter (\<lambda>n. row n \<noteq> 0) [0..<N]))) \<and>
           set pads \<subseteq> {n. n < N \<and> row n \<noteq> 1}"
proof -
  let ?valid = "filter (\<lambda>n. row n \<noteq> 0) [0..<N]"
  let ?non_valid = "filter (\<lambda>n. 1 - row n \<noteq> 0) [0..<N]"
  let ?p = "L - int (length ?valid)"
  from assms(2) obtain n where "n < N" "row n \<noteq> 1" by blast
  then have "n \<in> set ?non_valid" by simp
  then have "0 < length ?non_valid" by (rule length_pos_if_in_set)
  moreover have "length ?non_valid \<le> 2 ^ 24"
    using length_filter_le[of "\<lambda>n. 1 - row n \<noteq> 0" "[0..<N]"] assms(3) by simp
  ultimately obtain ch where ch: "multinomial (length ?non_valid) ?p True rs = Inr ch"
    using multinomial_returns[of ?p "length ?non_valid" True rs] assms(1) by auto
  from multinomial_Inr[OF ch] have
    l: "length ch = nat ?p" and sub: "set ch \<subseteq> {..<length ?non_valid}"
    by auto
  have sr: "select_row row N L rs = Inr (?valid @ map (\<lambda>c. ?non_valid ! c) ch)"
    using assms(1) ch by (simp add: select_row_def Let_def)
  have "set (map (\<lambda>c. ?non_valid ! c) ch) \<subseteq> {n. n < N \<and> row n \<noteq> 1}"
  proof
    fix n assume "n \<in> set (map (\<lambda>c. ?non_valid ! c) ch)"
    then obtain c where c: "c \<in> set ch" "n = ?non_valid ! c" by auto
    with sub have "c < length ?non_valid" by auto
    then have "?non_valid ! c \<in> set ?non_valid" by (rule nth_mem)
    with c show "n \<in> {n. n < N \<and> row n \<noteq> 1}" by simp
  qed
  with sr l show ?thesis by auto
qed

lemma select_row_nonpositive: "L \<le> 0 \<Longrightarrow> select_row row N L rs = Inl RuntimeError"
  by (simp add: select_row_def Let_def multinomial_def)

lemma select_row_ones_Inr:
  assumes "select_row (\<lambda>n. 1) N L rs = Inr ns"
  shows "0 < L \<and> L \<le> int N \<and> length ns = nat L \<and> distinct ns \<and> set ns \<subseteq> {..<N}"
proof -
  have v: "filter (\<lambda>n. (1::int) \<noteq> 0) [0..<N] = [0..<N]" by simp
  have nv: "filter (\<lambda>n. 1 - (1::int) \<noteq> 0) [0..<N] = []" by simp
  show ?thesis
  proof (cases "L - int N \<le> 0")
    case True
    with assms obtain ch where ch: "multinomial N L False rs = Inr ch"
      and ns: "ns = map (\<lambda>c. [0..<N] ! c) ch"
      unfolding select_row_def Let_def v nv by (auto simp: bnd_eq_Inr_iff)
    from multinomial_Inr[OF ch] have
      g: "0 < L" "L \<le> int N" "length ch = nat L" "set ch \<subseteq> {..<N}" "distinct ch"
      by auto
    have "ns = ch" unfolding ns using g(4) by (intro map_idI) auto
    with g show ?thesis by simp
  next
    case False
    with assms have "\<exists>ch. multinomial 0 (L - int N) True rs = Inr ch"
      unfolding select_row_def Let_def v nv by (auto simp: bnd_eq_Inr_iff)
    then show ?thesis by (simp add: multinomial_def)
  qed
qed

lemma select_row_ones_returns:
  assumes "0 < L" "L \<le> int N" "N \<le> 2 ^ 24"
  shows "\<exists>ns. select_row (\<lambda>n. 1) N L rs = Inr ns"
  using select_row_truncate[of L "\<lambda>n. 1" N rs] assms by auto

lemma unique_rows_ones:
  "filter (\<lambda>b. list_ex (\<lambda>n. (1::int) \<noteq> 0) [0..<N]) [0..<B] = (if N = 0 then [] else [0..<B])"
proof -
  have "list_ex (\<lambda>n. (1::int) \<noteq> 0) [0..<N] \<longleftrightarrow> N \<noteq> 0"
    by (auto simp: list_ex_iff)
  then show ?thesis by simp
qed

lemma sampler_ones_Inr:
  assumes "sampler (\<lambda>b n. 1) B N L rs = Inr sel"
  shows "0 < B \<and> 0 < L \<and> L \<le> int N \<and> length sel = B * nat L \<and>
         (\<forall>b < B. \<forall>j < nat L. fst (sel ! (b * nat L + j)) = b \<and>
                                  snd (sel ! (b * nat L + j)) < N) \<and>
         (\<forall>b < B. inj_on (\<lambda>j. snd (sel ! (b * nat L + j))) {..<nat L})"
proof -
  let ?g = "\<lambda>i. bnd (select_row (\<lambda>n. 1) N L (rs i)) (\<lambda>ns. Inr (map (\<lambda>n. (i, n)) ns))"
  have N: "N \<noteq> 0"
  proof
    assume "N = 0"
    with assms show False unfolding sampler_def Let_def unique_rows_ones by simp
  qed
  have ur: "filter (\<lambda>b. list_ex (\<lambda>n. (1::int) \<noteq> 0) [0..<N]) [0..<B] = [0..<B]"
    unfolding unique_rows_ones using N by simp
  have mp: "map (\<lambda>i. bnd (select_row (\<lambda>n. 1) N L (rs i))
                        (\<lambda>ns. Inr (map (\<lambda>n. ([0..<B] ! i, n)) ns))) [0..<length [0..<B]]
            = map ?g [0..<B]"
    by (intro map_cong) auto
  from assms obtain ss where ss: "sequence (map ?g [0..<B]) = Inr ss"
    and ne: "ss \<noteq> []" and sel: "sel = concat ss"
    unfolding sampler_def Let_def ur mp by (auto simp: bnd_eq_Inr_iff split: if_splits)
  from ss have len: "length ss = B" and each: "\<And>i. i < B \<Longrightarrow> ?g i = Inr (ss ! i)"
    by (auto simp: sequence_map_Inr)
  from ne len have B: "0 < B" by auto
  have row: "\<exists>ns. select_row (\<lambda>n. 1) N L (rs i) = Inr ns \<and> ss ! i = map (\<lambda>n. (i, n)) ns"
    if "i < B" for i
    using each[OF that] by (auto simp: bnd_eq_Inr_iff)
  from row[OF B] obtain ns0 where "select_row (\<lambda>n. 1) N L (rs 0) = Inr ns0" by blast
  from select_row_ones_Inr[OF this] have L: "0 < L" "L \<le> int N" by auto
  have lens: "length xs = nat L" if "xs \<in> set ss" for xs
  proof -
    from that obtain i where i: "i < B" "xs = ss ! i" using len by (auto simp: in_set_conv_nth)
    from row[OF i(1)] obtain ns where
      "select_row (\<lambda>n. 1) N L (rs i) = Inr ns" "ss ! i = map (\<lambda>n. (i, n)) ns" by blast
    with select_row_ones_Inr[of N L "rs i" ns] i show ?thesis by simp
  qed
  have nth: "sel ! (b * nat L + j) = ss ! b ! j" if "b < B" "j < nat L" for b j
    unfolding sel using lens that len by (intro concat_uniform_nth) auto
  have p1: "fst (sel ! (b * nat L + j)) = b \<and> snd (sel ! (b * nat L + j)) < N"
    if "b < B" "j < nat L" for b j
  proof -
    from row[OF that(1)] obtain ns where
      ns: "select_row (\<lambda>n. 1) N L (rs b) = Inr ns" "ss ! b = map (\<lambda>n. (b, n)) ns" by blast
    from select_row_ones_Inr[OF ns(1)] have "length ns = nat L" "set ns \<subseteq> {..<N}" by auto
    with that have "ns ! j < N" by (metis lessThan_iff nth_mem subsetD)
    with nth[OF that] ns(2) \<open>length ns = nat L\<close> that show ?thesis by simp
  qed
  have p2: "inj_on (\<lambda>j. snd (sel ! (b * nat L + j))) {..<nat L}" if "b < B" for b
  proof -
    from row[OF that] obtain ns where
      ns: "select_row (\<lambda>n. 1) N L (rs b) = Inr ns" "ss ! b = map (\<lambda>n. (b, n)) ns" by blast
    from select_row_ones_Inr[OF ns(1)] have l: "length ns = nat L" and d: "distinct ns" by auto
    have "snd (sel ! (b * nat L + j)) = ns ! j" if "j < nat L" for j
      using nth[OF \<open>b < B\<close> that] ns(2) l that by simp
    moreover have "inj_on (\<lambda>j. ns ! j) {..<nat L}"
      using d l by (intro inj_on_nth) auto
    ultimately show ?thesis by (simp add: inj_on_def)
  qed
  have "length sel = B * nat L"
    unfolding sel using lens len concat_uniform_length[of ss "nat L"] by simp
  with B L p1 p2 show ?thesis by blast
qed

lemma sampler_ones_returns:
  assumes "0 < B" "0 < L" "L \<le> int N" "N \<le> 2 ^ 24"
  shows "\<exists>sel. sampler (\<lambda>b n. 1) B N L rs = Inr sel"
proof -
  let ?g = "\<lambda>i. bnd (select_row (\<lambda>n. 1) N L (rs i)) (\<lambda>ns. Inr (map (\<lambda>n. (i, n)) ns))"
  from assms have N: "N \<noteq> 0" by auto
  have ur: "filter (\<lambda>b. list_ex (\<lambda>n. (1::int) \<noteq> 0) [0..<N]) [0..<B] = [0..<B]"
    unfolding unique_rows_ones using N by simp
  have mp: "map (\<lambda>i. bnd (select_row (\<lambda>n. 1) N L (rs i))
                        (\<lambda>ns. Inr (map (\<lambda>n. ([0..<B] ! i, n)) ns))) [0..<length [0..<B]]
            = map ?g [0..<B]"
    by (intro map_cong) auto
  have "\<exists>v. ?g i = Inr v" for i
    using select_row_ones_returns[OF assms(2,3,4), of "rs i"] by auto
  then obtain f where f: "\<And>i. ?g i = Inr (f i)" by metis
  have "sequence (map ?g [0..<B]) = Inr (map f [0..<B])"
    by (simp add: sequence_map_Inr f)
  moreover have "map f [0..<B] \<noteq> []" using assms(1) by simp
  ultimately show ?thesis
    unfolding sampler_def Let_def ur mp by simp
qed

lemma view_rows_uniform: "B * C \<noteq> 0 \<Longrightarrow> view_rows (B * k) B C = Inr k"
  by (simp add: view_rows_def)

lemma view_rows_Inr: "view_rows n B C = Inr k \<Longrightarrow> 0 < B \<and> 0 < C \<and> n = B * k"
  by (auto simp: view_rows_def split: if_splits)

lemma valid_mask_Inr:
  assumes "valid_mask x0 grid = Inr xm"
  shows "xm = (\<lambda>b i j. 1)"
  using assms
  by (auto simp: valid_mask_def interpolate_nearest_def bnd_eq_Inr_iff py_int_def ones_like_def
      split: prod.splits if_splits)

lemma valid_mask_returns:
  assumes "dims x0 = (B, C, H, W)" "0 < H" "0 < W" "0 < fst grid" "0 < snd grid"
  shows "valid_mask x0 grid = Inr (\<lambda>b i j. 1)"
  using assms by (simp add: valid_mask_def interpolate_nearest_def py_int_def ones_like_def)

lemma x_h_ones: "x_h (\<lambda>b i j. 1) H b = int H"
  by (simp add: x_h_def sum_list_triv)

lemma x_w_ones: "x_w (\<lambda>b i j. 1) W b = int W"
  by (simp add: x_w_def sum_list_triv)

lemma spatial_pos_Inr_iff:
  "spatial_pos m C = Inr sp \<longleftrightarrow>
     0 \<le> vit_patch_dim m \<and> int C = vit_embed_dim m \<and>
     vit_total_output_patch m - 1 = vit_patch_dim m * vit_patch_dim m \<and>
     sp = (\<lambda>c i j. vit_pos_embed m (1 + i * nat (vit_patch_dim m) + j) c)"
  by (auto simp: spatial_pos_def)

lemma position_embeddings_ones_Inr:
  assumes "position_embeddings m (\<lambda>b i j. 1) B C H W = Inr pe"
  shows "0 < B \<and> 0 < H \<and> 0 < W \<and> 0 < vit_patch_dim m \<and>
         (\<exists>sp. spatial_pos m C = Inr sp \<and>
            (\<forall>b < B. \<forall>n c. pe b n c =
               F_pad (\<lambda>c. bilinear True (sp c) (nat (vit_patch_dim m), nat (vit_patch_dim m))
                            (H, W)) (int H, int W) c (n div W) (n mod W)))"
proof -
  let ?pd = "nat (vit_patch_dim m)"
  let ?g = "\<lambda>sp (b::nat). bnd (interpolate_bilinear True sp (?pd, ?pd) (int H, int W))
                       (\<lambda>p. Inr (F_pad p (int H, int W)))"
  from assms obtain sp pos_list where sp: "spatial_pos m C = Inr sp"
    and sq: "sequence (map (?g sp) [0..<B]) = Inr pos_list"
    and ne: "pos_list \<noteq> []"
    and pe: "pe = (\<lambda>b n c. (pos_list ! b) c (n div W) (n mod W))"
    unfolding position_embeddings_def x_h_ones x_w_ones
    by (auto simp: bnd_eq_Inr_iff split: if_splits)
  from sq have len: "length pos_list = B" and each: "\<And>b. b < B \<Longrightarrow> ?g sp b = Inr (pos_list ! b)"
    by (auto simp: sequence_map_Inr)
  from ne len have B: "0 < B" by auto
  from each[OF B] obtain p where p: "interpolate_bilinear True sp (?pd, ?pd) (int H, int W) = Inr p"
    by (auto simp: bnd_eq_Inr_iff)
  then have g: "0 < ?pd" "0 < H" "0 < W"
    and pv: "p = (\<lambda>c. bilinear True (sp c) (?pd, ?pd) (H, W))"
    by (auto simp: interpolate_bilinear_def split: if_splits)
  have "pos_list ! b = F_pad p (int H, int W)" if "b < B" for b
    using each[OF that] p by simp
  with pe pv have "\<forall>b < B. \<forall>n c. pe b n c =
      F_pad (\<lambda>c. bilinear True (sp c) (?pd, ?pd) (H, W)) (int H, int W) c (n div W) (n mod W)"
    by simp
  with B g sp show ?thesis by auto
qed

lemma position_embeddings_ones_returns:
  assumes "spatial_pos m C = Inr sp" "0 < B" "0 < H" "0 < W" "0 < vit_patch_dim m"
  shows "\<exists>pe. position_embeddings m (\<lambda>b i j. 1) B C H W = Inr pe"
proof -
  let ?pd = "nat (vit_patch_dim m)"
  let ?P = "F_pad (\<lambda>c. bilinear True (sp c) (?pd, ?pd) (H, W)) (int H, int W)"
  have "sequence (map (\<lambda>b. bnd (interpolate_bilinear True sp (?pd, ?pd) (int H, int W))
                       (\<lambda>p. Inr (F_pad p (int H, int W)))) [0..<B]) = Inr (map (\<lambda>b. ?P) [0..<B])"
    using assms by (simp add: sequence_map_Inr interpolate_bilinear_def)
  moreover have "map (\<lambda>b. ?P) [0..<B] \<noteq> []" using assms by simp
  ultimately show ?thesis
    unfolding position_embeddings_def x_h_ones x_w_ones using assms(1) by simp
qed

lemma Max_const_upt: "0 < B \<Longrightarrow> Max (set (map (\<lambda>b. c) [0..<B])) = (c::int)"
proof -
  assume "0 < B"
  then have "set (map (\<lambda>b. c) [0..<B]) = {c}" by auto
  then show ?thesis by simp
qed

lemma budget_ones:
  assumes "0 < B" and "n < 2 ^ 63"
  shows "budget (LenInt n) (map (\<lambda>b. c) [0..<B]) = Inr (if n < 0 then c else min c n)"
  using assms by (simp add: budget_def Max_const_upt)

lemma budget_ones_Inr:
  assumes "0 < B" and "budget (LenInt n) (map (\<lambda>b. c) [0..<B]) = Inr L"
  shows "n < 2 ^ 63 \<and> L = (if n < 0 then c else min c n)"
  using assms by (auto simp: budget_def Max_const_upt split: if_splits)

lemma budget_ones_overflow:
  assumes "0 < B" and "2 ^ 63 \<le> n"
  shows "budget (LenInt n) (map (\<lambda>b. c) [0..<B]) = Inl RuntimeError"
proof -
  from assms(2) have "\<not> n < 0" by (smt (verit) zero_less_power)
  with assms show ?thesis by (simp add: budget_def)
qed

lemma budget_float_ones:
  assumes "0 < B"
  shows "budget (LenFloat r) (map (\<lambda>b. c) [0..<B]) = Inr c"
  using assms by (simp add: budget_def Max_const_upt)

lemma gather_tokens_simps:
  "dims3 (out_x (gather_tokens m sel k (B, C, H, W) x xm pe lab)) = (B, k + 1, C)"
  "mdims (out_mask (gather_tokens m sel k (B, C, H, W) x xm pe lab)) = (B, k)"
  "out_grid (gather_tokens m sel k (B, C, H, W) x xm pe lab) = (H, W)"
  "out_patch_index (gather_tokens m sel k (B, C, H, W) x xm pe lab) b j =
     (snd (sel ! (b * k + j)) div W, snd (sel ! (b * k + j)) mod W)"
  "melem (out_mask (gather_tokens m sel k (B, C, H, W) x xm pe lab)) b j =
     xm (fst (sel ! (b * k + j))) (snd (sel ! (b * k + j)))"
  "elem3 (out_x (gather_tokens m sel k (B, C, H, W) x xm pe lab)) b 0 c =
     vit_cls_token m c + vit_pos_embed m 0 c"
  "elem3 (out_x (gather_tokens m sel k (B, C, H, W) x xm pe lab)) b (Suc j) c =
     x (fst (sel ! (b * k + j))) (snd (sel ! (b * k + j))) c +
     pe (fst (sel ! (b * k + j))) (snd (sel ! (b * k + j))) c"
  "out_label (gather_tokens m sel k (B, C, H, W) x xm pe lab) =
     map_option (\<lambda>l b j c.
        if j = 0 then - 100
        else if xm (fst (sel ! (b * k + (j - 1)))) (snd (sel ! (b * k + (j - 1)))) = 0 then - 100
        else l (fst (sel ! (b * k + (j - 1)))) (snd (sel ! (b * k + (j - 1)))) c) lab"
  by (simp_all add: gather_tokens_def Let_def)

lemma embed_tokens_InrE:
  assumes "embed_tokens m x0 max_image_len mask_it dr = Inr s"
  obtains x B C H W pe x1 lab L sel where
    "PatchEmbed_forward (vit_patch_embed m) x0 = Inr x"
    "dims x = (B, C, H, W)"
    "valid_mask x0 (H, W) = Inr (\<lambda>b i j. 1)"
    "position_embeddings m (\<lambda>b i j. 1) B C H W = Inr pe"
    "(if mask_it
      then (\<exists>l. mask_tokens m x0 (\<lambda>b n c. elem x b c (n div W) (n mod W)) dr = Inr (x1, l) \<and>
                 lab = Some l)
      else x1 = (\<lambda>b n c. elem x b c (n div W) (n mod W)) \<and> lab = None)"
    "budget max_image_len (map (\<lambda>b. int H * int W) [0..<B]) = Inr L"
    "sampler (\<lambda>b n. 1) B (H * W) L (d_choice dr) = Inr sel"
    "0 < C"
    "s = gather_tokens m sel (nat L) (B, C, H, W) x1 (\<lambda>b n. 1) pe lab"
proof -
  from assms obtain x where x: "PatchEmbed_forward (vit_patch_embed m) x0 = Inr x"
    by (auto simp: embed_tokens_def bnd_eq_Inr_iff)
  obtain B C H W where d: "dims x = (B, C, H, W)" by (cases "dims x") auto
  from assms x d obtain xm where xm0: "valid_mask x0 (H, W) = Inr xm"
    by (auto simp: embed_tokens_def bnd_eq_Inr_iff)
  from valid_mask_Inr[OF xm0] have xm: "valid_mask x0 (H, W) = Inr (\<lambda>b i j. 1)"
    using xm0 by simp
  from assms x d xm obtain pe where pe: "position_embeddings m (\<lambda>b i j. 1) B C H W = Inr pe"
    by (auto simp: embed_tokens_def bnd_eq_Inr_iff)
  let ?xf = "\<lambda>b n c. elem x b c (n div W) (n mod W)"
  from assms x d xm pe obtain x1 lab where
    ml: "(if mask_it
          then bnd (mask_tokens m x0 ?xf dr) (\<lambda>(feats, labels). Inr (feats, Some labels))
          else Inr (?xf, None)) = Inr (x1, lab)"
    by (auto simp: embed_tokens_def Let_def bnd_eq_Inr_iff)
  from assms x d xm pe ml obtain L where
    L: "budget max_image_len (map (\<lambda>b. int H * int W) [0..<B]) = Inr L"
    by (auto simp: embed_tokens_def Let_def x_h_ones x_w_ones bnd_eq_Inr_iff)
  from assms x d xm pe ml L obtain sel where
    sel: "sampler (\<lambda>b n. 1) B (H * W) L (d_choice dr) = Inr sel"
    by (auto simp: embed_tokens_def Let_def x_h_ones x_w_ones bnd_eq_Inr_iff)
  from assms x d xm pe ml L sel obtain k where
    k: "view_rows (length sel) B C = Inr k"
    and s: "s = gather_tokens m sel k (B, C, H, W) x1 (\<lambda>b n. 1) pe lab"
    by (auto simp: embed_tokens_def Let_def x_h_ones x_w_ones bnd_eq_Inr_iff)
  from sampler_ones_Inr[OF sel] have ls: "length sel = B * nat L" and B: "0 < B" by auto
  from view_rows_Inr[OF k] have C: "0 < C" and "length sel = B * k" by auto
  with ls B have "k = nat L" by simp
  have m1: "(if mask_it
      then (\<exists>l. mask_tokens m x0 ?xf dr = Inr (x1, l) \<and> lab = Some l)
      else x1 = ?xf \<and> lab = None)"
    using ml by (auto simp: bnd_eq_Inr_iff split: if_splits)
  show thesis
    using that[OF x d xm pe m1 L sel C] s \<open>k = nat L\<close> by simp
qed

lemma embed_tokens_returns:
  assumes "PatchEmbed_forward (vit_patch_embed m) x0 = Inr x"
    and "dims x = (B, C, H, W)"
    and "valid_mask x0 (H, W) = Inr (\<lambda>b i j. 1)"
    and "position_embeddings m (\<lambda>b i j. 1) B C H W = Inr pe"
    and "budget max_image_len (map (\<lambda>b. int H * int W) [0..<B]) = Inr L"
    and "sampler (\<lambda>b n. 1) B (H * W) L (d_choice dr) = Inr sel"
    and "0 < C"
  shows "embed_tokens m x0 max_image_len False dr =
           Inr (gather_tokens m sel (nat L) (B, C, H, W)
                  (\<lambda>b n c. elem x b c (n div W) (n mod W)) (\<lambda>b n. 1) pe None)"
proof -
  from sampler_ones_Inr[OF assms(6)] have ls: "length sel = B * nat L" and B: "0 < B" by auto
  with assms(7) have "view_rows (length sel) B C = Inr (nat L)"
    by (simp add: view_rows_uniform)
  with assms show ?thesis
    by (simp add: embed_tokens_def Let_def x_h_ones x_w_ones)
qed

lemma conv_out_size_pos: "conv_out_size n k s p = Inr h \<Longrightarrow> 0 < h"
proof -
  assume a: "conv_out_size n k s p = Inr h"
  then have s: "0 < s" and g: "k \<le> int n + 2 * p"
    and h: "h = nat ((int n + 2 * p - k) div s + 1)"
    by (auto simp: conv_out_size_def split: if_splits)
  from s g have "0 \<le> (int n + 2 * p - k) div s" by (simp add: pos_imp_zdiv_nonneg_iff)
  with h show ?thesis by simp
qed

lemma conv2d_forward_Inr:
  assumes "conv2d_forward cv x0 = Inr x" and "dims x0 = (B, Cin, Hin, Win)"
  shows "\<exists>H W. dims x = (B, if Cin = 0 then 0 else nat (out_channels cv), H, W) \<and>
               0 < out_channels cv \<and> 0 < H \<and> 0 < W \<and>
               conv_out_size Hin (fst (kernel_size cv)) (fst (stride cv)) (fst (padding cv)) = Inr H \<and>
               conv_out_size Win (snd (kernel_size cv)) (snd (stride cv)) (snd (padding cv)) = Inr W \<and>
               int Cin = in_channels cv \<and> elem x = conv2d_value cv x0"
  using assms
  by (auto simp: conv2d_forward_def bnd_eq_Inr_iff conv_out_size_pos split: if_splits)

lemma drop_and_norm_Inr:
  assumes "drop_and_norm m dr s = Inr out"
  shows "out_mask out = out_mask s \<and> out_patch_index out = out_patch_index s \<and>
         out_grid out = out_grid s \<and> out_label out = out_label s \<and>
         dims3 (out_x out) = dims3 (out_x s)"
  using assms
  by (auto simp: drop_and_norm_def Let_def dropout_forward_def layer_norm_forward_def
      bnd_eq_Inr_iff split: if_splits option.splits prod.splits)

lemma drop_and_norm_identity:
  assumes "\<not> vit_add_norm_before_transformer m" and "\<not> vit_training m \<or> vit_pos_drop m \<le> 0"
  shows "drop_and_norm m dr s = Inr s"
  using assms by (auto simp: drop_and_norm_def Let_def dropout_forward_def)

lemma drop_and_norm_returns:
  assumes "vit_add_norm_before_transformer m \<longrightarrow>
             (\<exists>lnorm. vit_pre_norm m = Some lnorm \<and> ln_shape lnorm = int C)"
    and "dims3 (out_x s) = (B, N, C)"
  shows "\<exists>out. drop_and_norm m dr s = Inr out"
  using assms
  by (auto simp: drop_and_norm_def Let_def dropout_forward_def layer_norm_forward_def)

lemma image_mask_simps:
  assumes "mdims (out_mask s) = (B, k)"
  shows "mdims (out_mask (image_mask s)) = (B, k + 1)"
    and "melem (out_mask (image_mask s)) b 0 = 1"
    and "melem (out_mask (image_mask s)) b (Suc j) = melem (out_mask s) b j"
    and "out_x (image_mask s) = out_x s"
    and "out_patch_index (image_mask s) = out_patch_index s"
    and "out_grid (image_mask s) = out_grid s"
    and "out_label (image_mask s) = out_label s"
  using assms by (simp_all add: image_mask_def)

lemma visual_embed_image_InrE:
  assumes "visual_embed m (Image x0) max_image_len mask_it dr = Inr out"
  obtains s where "embed_tokens m x0 max_image_len mask_it dr = Inr s"
    and "drop_and_norm m dr (image_mask s) = Inr out"
  using assms by (auto simp: visual_embed_def bnd_eq_Inr_iff)

lemma selected_position_in_grid:
  assumes "n < H * (W::nat)"
  shows "n div W < H \<and> n mod W < W"
proof -
  from assms have W: "0 < W" by (cases W) auto
  moreover from assms have "n div W < H"
    by (simp add: less_mult_imp_div_less)
  ultimately show ?thesis by simp
qed

lemma image_attention_mask_aux:
  assumes "visual_embed m (Image x0) max_image_len mask_it dr = Inr out"
  shows "\<exists>B L C H W.
           fst (dims x0) = B \<and> dims3 (out_x out) = (B, L + 1, C) \<and>
           mdims (out_mask out) = (B, L + 1) \<and> out_grid out = (H, W) \<and>
           valid_mask x0 (H, W) = Inr (\<lambda>b i j. 1) \<and>
           (\<forall>b < B. melem (out_mask out) b 0 = 1 \<and>
              (\<forall>j < L. fst (out_patch_index out b j) < H \<and> snd (out_patch_index out b j) < W \<and>
                        melem (out_mask out) b (j + 1) = 1))"
proof -
  from assms obtain s where s: "embed_tokens m x0 max_image_len mask_it dr = Inr s"
    and o: "drop_and_norm m dr (image_mask s) = Inr out"
    by (rule visual_embed_image_InrE)
  from s obtain x B C H W pe x1 lab L sel where
    x: "PatchEmbed_forward (vit_patch_embed m) x0 = Inr x" and d: "dims x = (B, C, H, W)"
    and xm: "valid_mask x0 (H, W) = Inr (\<lambda>b i j. 1)"
    and sel: "sampler (\<lambda>b n. 1) B (H * W) L (d_choice dr) = Inr sel"
    and sv: "s = gather_tokens m sel (nat L) (B, C, H, W) x1 (\<lambda>b n. 1) pe lab"
    by (rule embed_tokens_InrE)
  obtain B0 Cin Hin Win where d0: "dims x0 = (B0, Cin, Hin, Win)" by (cases "dims x0") auto
  from conv2d_forward_Inr[OF x[unfolded PatchEmbed_forward_def] d0] d have B0: "B0 = B" by auto
  from sampler_ones_Inr[OF sel] have
    pos: "\<And>b j. b < B \<Longrightarrow> j < nat L \<Longrightarrow> snd (sel ! (b * nat L + j)) < H * W"
    by auto
  have md: "mdims (out_mask s) = (B, nat L)" unfolding sv by (simp add: gather_tokens_simps)
  from drop_and_norm_Inr[OF o] have
    e: "out_mask out = out_mask (image_mask s)" "out_patch_index out = out_patch_index s"
       "out_grid out = out_grid s" "dims3 (out_x out) = dims3 (out_x s)"
    by (simp_all add: image_mask_simps[OF md])
  have 1: "dims3 (out_x out) = (B, nat L + 1, C)"
    unfolding e sv by (simp add: gather_tokens_simps)
  have 2: "mdims (out_mask out) = (B, nat L + 1)"
    unfolding e by (simp add: image_mask_simps[OF md])
  have 3: "out_grid out = (H, W)" unfolding e sv by (simp add: gather_tokens_simps)
  have 4: "melem (out_mask out) b 0 = 1" for b
    unfolding e by (simp add: image_mask_simps[OF md])
  have 5: "fst (out_patch_index out b j) < H \<and> snd (out_patch_index out b j) < W \<and>
           melem (out_mask out) b (j + 1) = 1" if "b < B" "j < nat L" for b j
    using selected_position_in_grid[OF pos[OF that]]
    unfolding e by (simp add: image_mask_simps[OF md]) (simp add: sv gather_tokens_simps)
  from d0 B0 1 2 3 4 5 xm show ?thesis by auto
qed

lemma tiny_vit_fields:
  "vit_patch_embed tiny_vit =
     \<lparr>pe_img_size = (2, 2), pe_patch_size = (1, 1), pe_num_patches = 4,
      pe_proj = \<lparr>in_channels = 3, out_channels = 2, kernel_size = (1, 1), stride = (1, 1),
                 padding = (0, 0), has_bias = True, weight = const_weight 0,
                 bias = const_bias 0\<rparr>\<rparr>"
  "vit_patch_dim tiny_vit = 2"
  "vit_total_output_patch tiny_vit = 5"
  "vit_embed_dim tiny_vit = 2"
  "vit_add_norm_before_transformer tiny_vit = False"
  "vit_pos_drop tiny_vit = 0"
  "vit_mask_token tiny_vit = None"
  "vit_temporal_embed tiny_vit = None"
  by (simp_all add: tiny_vit_def ctor_defs)

lemma tiny_vit_constructed: "PerceiverVisionTransformer tiny_args zero_init = Inr tiny_vit"
  by (simp add: tiny_vit_def ctor_defs)

lemma tiny_video_vit_fields:
  "vit_patch_embed tiny_video_vit =
     \<lparr>pe_img_size = (2, 2), pe_patch_size = (1, 1), pe_num_patches = 4,
      pe_proj = \<lparr>in_channels = 3, out_channels = 2, kernel_size = (1, 1), stride = (1, 1),
                 padding = (0, 0), has_bias = True, weight = const_weight 0,
                 bias = const_bias 0\<rparr>\<rparr>"
  "vit_patch_dim tiny_video_vit = 2"
  "vit_total_output_patch tiny_video_vit = 5"
  "vit_embed_dim tiny_video_vit = 2"
  "vit_add_norm_before_transformer tiny_video_vit = False"
  "vit_pos_drop tiny_video_vit = 0"
  "vit_mask_token tiny_video_vit = None"
  "vit_temporal_embed tiny_video_vit = Some (\<lambda>f d. 0)"
  "vit_max_frames tiny_video_vit = Some 2"
  by (simp_all add: tiny_video_vit_def ctor_defs)

lemma sequence_first_Inl: "sequence (Inl e # rs) = Inl e"
  by simp

lemma sampler_ones_nonpositive:
  assumes "L \<le> 0"
  shows "sampler (\<lambda>b n. 1) B N L rs = Inl RuntimeError"
proof (cases "N = 0 \<or> B = 0")
  case True
  then show ?thesis unfolding sampler_def Let_def unique_rows_ones by auto
next
  case False
  then have B: "[0..<B] = 0 # [1..<B]" by (simp add: upt_conv_Cons)
  have mp: "map (\<lambda>i. bnd (select_row (\<lambda>n. 1) N L (rs i))
                        (\<lambda>ns. Inr (map (\<lambda>n. ([0..<B] ! i, n)) ns))) [0..<B]
            = map (\<lambda>i. Inl RuntimeError) [0..<B]"
    using assms by (intro map_cong) (auto simp: select_row_nonpositive)
  have "sequence (map (\<lambda>i. Inl RuntimeError) [0..<B]) = (Inl RuntimeError :: py_error + (nat \<times> nat) list list)"
    by (subst B) simp
  with False show ?thesis
    unfolding sampler_def Let_def unique_rows_ones by (simp add: mp)
qed

lemma image_front:
  assumes x: "PatchEmbed_forward (vit_patch_embed m) x0 = Inr x"
    and d0: "dims x0 = (B, Cin, Hin, Win)" and B: "0 < B" and Hin: "0 < Hin" and Win: "0 < Win"
    and d: "dims x = (B, C, H, W)"
    and sp: "spatial_pos m C = Inr sp" and pd: "0 < vit_patch_dim m"
  shows "0 < H" "0 < W" "valid_mask x0 (H, W) = Inr (\<lambda>b i j. 1)"
    "\<exists>pe. position_embeddings m (\<lambda>b i j. 1) B C H W = Inr pe"
proof -
  from conv2d_forward_Inr[OF x[unfolded PatchEmbed_forward_def] d0] d
  show H: "0 < H" and W: "0 < W" by auto
  show "valid_mask x0 (H, W) = Inr (\<lambda>b i j. 1)"
    using valid_mask_returns[OF d0 Hin Win, of "(H, W)"] H W by simp
  show "\<exists>pe. position_embeddings m (\<lambda>b i j. 1) B C H W = Inr pe"
    using sp B H W pd by (rule position_embeddings_ones_returns)
qed

lemma visual_embed_image_returns:
  assumes x: "PatchEmbed_forward (vit_patch_embed m) x0 = Inr x"
    and d0: "dims x0 = (B, Cin, Hin, Win)" and B: "0 < B" and Hin: "0 < Hin" and Win: "0 < Win"
    and d: "dims x = (B, C, H, W)"
    and sp: "spatial_pos m C = Inr sp" and pd: "0 < vit_patch_dim m" and C: "0 < C"
    and nrm: "vit_add_norm_before_transformer m \<longrightarrow>
                (\<exists>lnorm. vit_pre_norm m = Some lnorm \<and> ln_shape lnorm = int C)"
    and n: "0 < n" and n63: "n < 2 ^ 63" and cap: "H * W \<le> 2 ^ 24"
  shows "\<exists>out. visual_embed m (Image x0) (LenInt n) False dr = Inr out"
proof -
  note fr = image_front[OF x d0 B Hin Win d sp pd]
  from fr(4) obtain pe where pe: "position_embeddings m (\<lambda>b i j. 1) B C H W = Inr pe" by blast
  let ?L = "min (int H * int W) n"
  have bud: "budget (LenInt n) (map (\<lambda>b. int H * int W) [0..<B]) = Inr ?L"
    using B n n63 by (simp add: budget_ones)
  have "0 < ?L" "?L \<le> int (H * W)" using n fr(1,2) by auto
  with B cap obtain sel where sel: "sampler (\<lambda>b n. 1) B (H * W) ?L (d_choice dr) = Inr sel"
    using sampler_ones_returns by blast
  let ?s = "gather_tokens m sel (nat ?L) (B, C, H, W)
              (\<lambda>b n c. elem x b c (n div W) (n mod W)) (\<lambda>b n. 1) pe None"
  have s: "embed_tokens m x0 (LenInt n) False dr = Inr ?s"
    using x d fr(3) pe bud sel C by (rule embed_tokens_returns)
  have md: "mdims (out_mask ?s) = (B, nat ?L)" by (simp add: gather_tokens_simps)
  have "dims3 (out_x (image_mask ?s)) = (B, nat ?L + 1, C)"
    by (simp add: image_mask_simps[OF md] gather_tokens_simps)
  with nrm obtain out where "drop_and_norm m dr (image_mask ?s) = Inr out"
    using drop_and_norm_returns by blast
  with s show ?thesis by (simp add: visual_embed_def)
qed

lemma visual_embed_zero_budget:
  assumes x: "PatchEmbed_forward (vit_patch_embed m) x0 = Inr x"
    and d0: "dims x0 = (B, Cin, Hin, Win)" and B: "0 < B" and Hin: "0 < Hin" and Win: "0 < Win"
    and d: "dims x = (B, C, H, W)"
    and sp: "spatial_pos m C = Inr sp" and pd: "0 < vit_patch_dim m"
  shows "visual_embed m (Image x0) (LenInt 0) False dr = Inl RuntimeError"
proof -
  note fr = image_front[OF x d0 B Hin Win d sp pd]
  from fr(4) obtain pe where pe: "position_embeddings m (\<lambda>b i j. 1) B C H W = Inr pe" by blast
  have bud: "budget (LenInt 0) (map (\<lambda>b. int H * int W) [0..<B]) = Inr 0"
    using B by (simp add: budget_ones)
  show ?thesis
    using x d fr(3) pe bud
    by (simp add: visual_embed_def embed_tokens_def Let_def x_h_ones x_w_ones
        sampler_ones_nonpositive)
qed

lemma patch_index_inj:
  assumes "inj_on f A" and "0 < (W::nat)"
  shows "inj_on (\<lambda>j. (f j div W, f j mod W)) A"
proof (rule inj_onI)
  fix a b assume a: "a \<in> A" and b: "b \<in> A"
    and e: "(f a div W, f a mod W) = (f b div W, f b mod W)"
  then have "f a div W * W + f a mod W = f b div W * W + f b mod W" by simp
  then have "f a = f b" by simp
  with assms(1) a b show "a = b" by (simp add: inj_on_def)
qed

lemma image_tokens_aux:
  assumes "visual_embed m (Image x0) (LenInt n) mask_it dr = Inr out"
  shows "\<exists>x B C H W L.
           PatchEmbed_forward (vit_patch_embed m) x0 = Inr x \<and> dims x = (B, C, H, W) \<and>
           L = nat (if n < 0 then int (H * W) else min (int (H * W)) n) \<and> 0 < L \<and>
           dims3 (out_x out) = (B, L + 1, C) \<and>
           (\<forall>b < B. inj_on (out_patch_index out b) {..<L} \<and>
              (\<forall>j < L. fst (out_patch_index out b j) < H \<and> snd (out_patch_index out b j) < W))"
proof -
  from assms obtain s where s: "embed_tokens m x0 (LenInt n) mask_it dr = Inr s"
    and o: "drop_and_norm m dr (image_mask s) = Inr out"
    by (rule visual_embed_image_InrE)
  from s obtain x B C H W pe x1 lab L sel where
    x: "PatchEmbed_forward (vit_patch_embed m) x0 = Inr x" and d: "dims x = (B, C, H, W)"
    and bud: "budget (LenInt n) (map (\<lambda>b. int H * int W) [0..<B]) = Inr L"
    and sel: "sampler (\<lambda>b n. 1) B (H * W) L (d_choice dr) = Inr sel"
    and sv: "s = gather_tokens m sel (nat L) (B, C, H, W) x1 (\<lambda>b n. 1) pe lab"
    by (rule embed_tokens_InrE)
  from sampler_ones_Inr[OF sel] have B: "0 < B" and L: "0 < L" "L \<le> int (H * W)"
    and pos: "\<And>b j. b < B \<Longrightarrow> j < nat L \<Longrightarrow> snd (sel ! (b * nat L + j)) < H * W"
    and inj: "\<And>b. b < B \<Longrightarrow> inj_on (\<lambda>j. snd (sel ! (b * nat L + j))) {..<nat L}"
    by auto
  from budget_ones_Inr[OF B bud] have
    Lv: "L = (if n < 0 then int (H * W) else min (int (H * W)) n)"
    by simp
  from L have W: "0 < W" by (cases W) auto
  have md: "mdims (out_mask s) = (B, nat L)" unfolding sv by (simp add: gather_tokens_simps)
  from drop_and_norm_Inr[OF o] have
    e: "out_patch_index out = out_patch_index s" "dims3 (out_x out) = dims3 (out_x s)"
    by (simp_all add: image_mask_simps[OF md])
  have 1: "dims3 (out_x out) = (B, nat L + 1, C)"
    unfolding e sv by (simp add: gather_tokens_simps)
  have pi: "out_patch_index out b =
      (\<lambda>j. (snd (sel ! (b * nat L + j)) div W, snd (sel ! (b * nat L + j)) mod W))" for b
    unfolding e sv by (rule ext) (simp add: gather_tokens_simps)
  have 2: "inj_on (out_patch_index out b) {..<nat L}" if "b < B" for b
    unfolding pi using inj[OF that] W by (rule patch_index_inj)
  have 3: "fst (out_patch_index out b j) < H \<and> snd (out_patch_index out b j) < W"
    if "b < B" "j < nat L" for b j
    unfolding pi using selected_position_in_grid[OF pos[OF that]] by simp
  have 4: "nat L = nat (if n < 0 then int (H * W) else min (int (H * W)) n)"
    using Lv by simp
  have 5: "0 < nat L" using L by simp
  have 6: "\<forall>b < B. inj_on (out_patch_index out b) {..<nat L} \<and>
             (\<forall>j < nat L. fst (out_patch_index out b j) < H \<and>
                             snd (out_patch_index out b j) < W)"
    using 2 3 by simp
  show ?thesis
    apply (rule exI[of _ x], rule exI[of _ B], rule exI[of _ C], rule exI[of _ H],
           rule exI[of _ W], rule exI[of _ "nat L"])
    apply (intro conjI)
         apply (rule x)
        apply (rule d)
       apply (rule 4)
      apply (rule 5)
     apply (rule 1)
    apply (rule 6)
    done
qed

section \<open>Modules that the constructor built\<close>

lemma LayerNorm_Inr: "LayerNorm nl n = Inr l \<Longrightarrow> ln_shape l = n"
  by (cases nl) (auto simp: bnd_eq_Inr_iff)

lemma init_layer_norm_Inr: "init_layer_norm l = Inr l' \<Longrightarrow> ln_shape l' = ln_shape l"
  by (auto simp: init_layer_norm_def split: option.splits)

lemma build_modules_Inr:
  assumes "build_modules a r = Inr m"
  shows "\<exists>pe pd.
      PatchEmbed (arg_img_size a) (arg_patch_size a) (arg_in_chans a) (arg_embed_dim a) False
        (r_proj_weight r) (r_proj_bias r) = Inr pe \<and>
      size_floordiv (arg_img_size a) (arg_patch_size a) = Inr pd \<and>
      vit_patch_embed m = pe \<and> vit_patch_dim m = pd \<and>
      vit_total_output_patch m = pe_num_patches pe + 1 \<and>
      vit_embed_dim m = arg_embed_dim a \<and> vit_mask_token m = None \<and>
      vit_add_norm_before_transformer m = arg_add_norm_before_transformer a \<and>
      (arg_add_norm_before_transformer a \<longrightarrow>
         (\<exists>lnorm. vit_pre_norm m = Some lnorm \<and> ln_shape lnorm = arg_embed_dim a)) \<and>
      vit_temporal_embed m = (if arg_use_video a then Some (\<lambda>f d. 0) else None) \<and>
      vit_max_frames m = (if arg_use_video a then Some (arg_max_frames a) else None)"
proof -
  from assms obtain pe pd pn where
    pe: "PatchEmbed (arg_img_size a) (arg_patch_size a) (arg_in_chans a) (arg_embed_dim a) False
        (r_proj_weight r) (r_proj_bias r) = Inr pe"
    and pd: "size_floordiv (arg_img_size a) (arg_patch_size a) = Inr pd"
    and pn: "(if arg_add_norm_before_transformer a
           then bnd (LayerNorm (case arg_norm_layer a of None \<Rightarrow> LayerNormOf (1 / 10 ^ 6) True
                                | Some n \<Rightarrow> n) (arg_embed_dim a)) (\<lambda>n. Inr (Some n))
           else Inr None) = Inr pn"
    and f: "vit_patch_embed m = pe" "vit_patch_dim m = pd"
      "vit_total_output_patch m = pe_num_patches pe + 1"
      "vit_embed_dim m = arg_embed_dim a" "vit_mask_token m = None"
      "vit_add_norm_before_transformer m = arg_add_norm_before_transformer a"
      "vit_pre_norm m = pn"
      "vit_temporal_embed m = (if arg_use_video a then Some (\<lambda>f d. 0) else None)"
      "vit_max_frames m = (if arg_use_video a then Some (arg_max_frames a) else None)"
    unfolding build_modules_def Let_def
    by (auto simp: bnd_eq_Inr_iff simp del: LayerNorm.simps split: if_splits)
  have "\<exists>lnorm. vit_pre_norm m = Some lnorm \<and> ln_shape lnorm = arg_embed_dim a"
    if "arg_add_norm_before_transformer a"
  proof -
    from pn that obtain v where
      v: "LayerNorm (case arg_norm_layer a of None \<Rightarrow> LayerNormOf (1 / 10 ^ 6) True
                                | Some n \<Rightarrow> n) (arg_embed_dim a) = Inr v" "pn = Some v"
      by (auto simp: bnd_eq_Inr_iff simp del: LayerNorm.simps)
    from LayerNorm_Inr[OF v(1)] v(2) f(7) show ?thesis by simp
  qed
  with pe pd f show ?thesis by blast
qed

lemma init_weights_Inr:
  assumes "init_weights r m0 = Inr m"
  shows "vit_patch_embed m = vit_patch_embed m0 \<and> vit_patch_dim m = vit_patch_dim m0 \<and>
      vit_total_output_patch m = vit_total_output_patch m0 \<and>
      vit_embed_dim m = vit_embed_dim m0 \<and> vit_mask_token m = vit_mask_token m0 \<and>
      vit_add_norm_before_transformer m = vit_add_norm_before_transformer m0 \<and>
      vit_temporal_embed m = vit_temporal_embed m0 \<and> vit_max_frames m = vit_max_frames m0 \<and>
      vit_pos_embed m = r_pos_embed r \<and> vit_cls_token m = r_cls_token r \<and>
      (\<forall>l0. vit_pre_norm m0 = Some l0 \<longrightarrow>
         (\<exists>l. vit_pre_norm m = Some l \<and> ln_shape l = ln_shape l0))"
  using assms
  by (auto simp: init_weights_def bnd_eq_Inr_iff dest: init_layer_norm_Inr split: option.splits)

lemma constructed_module:
  assumes "PerceiverVisionTransformer a r = Inr m"
  shows "\<exists>pe pd.
      PatchEmbed (arg_img_size a) (arg_patch_size a) (arg_in_chans a) (arg_embed_dim a) False
        (r_proj_weight r) (r_proj_bias r) = Inr pe \<and>
      size_floordiv (arg_img_size a) (arg_patch_size a) = Inr pd \<and>
      vit_patch_embed m = pe \<and> vit_patch_dim m = pd \<and>
      vit_total_output_patch m = pe_num_patches pe + 1 \<and>
      vit_embed_dim m = arg_embed_dim a \<and> vit_mask_token m = None \<and>
      (vit_add_norm_before_transformer m \<longrightarrow>
         (\<exists>lnorm. vit_pre_norm m = Some lnorm \<and> ln_shape lnorm = arg_embed_dim a)) \<and>
      vit_temporal_embed m = (if arg_use_video a then Some (\<lambda>f d. 0) else None) \<and>
      vit_max_frames m = (if arg_use_video a then Some (arg_max_frames a) else None) \<and>
      vit_pos_embed m = r_pos_embed r \<and> vit_cls_token m = r_cls_token r"
proof -
  from assms obtain m0 where b: "build_modules a r = Inr m0" and i: "init_weights r m0 = Inr m"
    by (auto simp: PerceiverVisionTransformer_def bnd_eq_Inr_iff split: if_splits)
  from build_modules_Inr[OF b] obtain pe pd where
    f: "PatchEmbed (arg_img_size a) (arg_patch_size a) (arg_in_chans a) (arg_embed_dim a) False
        (r_proj_weight r) (r_proj_bias r) = Inr pe"
      "size_floordiv (arg_img_size a) (arg_patch_size a) = Inr pd"
      "vit_patch_embed m0 = pe" "vit_patch_dim m0 = pd"
      "vit_total_output_patch m0 = pe_num_patches pe + 1"
      "vit_embed_dim m0 = arg_embed_dim a" "vit_mask_token m0 = None"
      "vit_add_norm_before_transformer m0 = arg_add_norm_before_transformer a"
      "arg_add_norm_before_transformer a \<longrightarrow>
         (\<exists>lnorm. vit_pre_norm m0 = Some lnorm \<and> ln_shape lnorm = arg_embed_dim a)"
      "vit_temporal_embed m0 = (if arg_use_video a then Some (\<lambda>f d. 0) else None)"
      "vit_max_frames m0 = (if arg_use_video a then Some (arg_max_frames a) else None)"
    by blast
  note g = init_weights_Inr[OF i]
  have pn: "\<exists>lnorm. vit_pre_norm m = Some lnorm \<and> ln_shape lnorm = arg_embed_dim a"
    if "vit_add_norm_before_transformer m"
  proof -
    from that g f(8) have "arg_add_norm_before_transformer a" by simp
    with f(9) obtain l0 where l0: "vit_pre_norm m0 = Some l0" "ln_shape l0 = arg_embed_dim a"
      by blast
    with g show ?thesis by auto
  qed
  show ?thesis
    apply (rule exI[of _ pe], rule exI[of _ pd])
    using f g pn by simp
qed

lemma constructed_geometry:
  assumes c: "PerceiverVisionTransformer a r = Inr m"
    and sz: "arg_img_size a = Scalar img" "arg_patch_size a = Scalar patch"
  shows "0 < patch" and "vit_patch_dim m = img div patch"
    and "vit_total_output_patch m = (img div patch) * (img div patch) + 1"
    and "kernel_size (pe_proj (vit_patch_embed m)) = (patch, patch)"
    and "stride (pe_proj (vit_patch_embed m)) = (patch, patch)"
    and "padding (pe_proj (vit_patch_embed m)) = (0, 0)"
    and "in_channels (pe_proj (vit_patch_embed m)) = arg_in_chans a"
    and "out_channels (pe_proj (vit_patch_embed m)) = arg_embed_dim a"
proof -
  from constructed_module[OF c] obtain pe pd where
    f: "PatchEmbed (Scalar img) (Scalar patch) (arg_in_chans a) (arg_embed_dim a) False
        (r_proj_weight r) (r_proj_bias r) = Inr pe"
      "size_floordiv (Scalar img) (Scalar patch) = Inr pd"
      "vit_patch_embed m = pe" "vit_patch_dim m = pd"
      "vit_total_output_patch m = pe_num_patches pe + 1"
    unfolding sz by blast
  have t: "to_2tuple (Scalar patch) = (patch, patch)" "to_2tuple (Scalar img) = (img, img)"
    by simp_all
  note pe = PatchEmbed_Inr[OF f(1) t]
  show "0 < patch" by (rule pe(1))
  from f(2) show "vit_patch_dim m = img div patch"
    by (auto simp: f(4) floordiv_def split: if_splits)
  show "vit_total_output_patch m = (img div patch) * (img div patch) + 1"
    by (simp add: f(5) pe(5))
  show "kernel_size (pe_proj (vit_patch_embed m)) = (patch, patch)"
    "stride (pe_proj (vit_patch_embed m)) = (patch, patch)"
    "padding (pe_proj (vit_patch_embed m)) = (0, 0)"
    "in_channels (pe_proj (vit_patch_embed m)) = arg_in_chans a"
    "out_channels (pe_proj (vit_patch_embed m)) = arg_embed_dim a"
    by (simp_all add: f(3) pe(5))
qed

lemma patch_forward:
  assumes "kernel_size (pe_proj pe) = (patch, patch)" "stride (pe_proj pe) = (patch, patch)"
    "padding (pe_proj pe) = (0, 0)" "in_channels (pe_proj pe) = ic"
    "out_channels (pe_proj pe) = ed"
    and "0 < patch" "0 < ic" "0 < ed"
    and "dims x0 = (B, Cin, Hin, Win)" "int Cin = ic" "patch \<le> int Hin" "patch \<le> int Win"
  shows "PatchEmbed_forward pe x0 =
           Inr \<lparr>dims = (B, nat ed, nat (int Hin div patch), nat (int Win div patch)),
                elem = conv2d_value (pe_proj pe) x0\<rparr>"
  using assms conv_out_size_patch[of patch Hin] conv_out_size_patch[of patch Win]
  by (auto simp: PatchEmbed_forward_def conv2d_forward_def)

text \<open>
  The facts about a call on a batch of images that the theorems below start from: the module
  \<open>m\<close> was built from integer sizes with \<open>0 < patch \<le> img\<close>, a positive number of input
  channels and a positive width, and the batch \<open>x0\<close> is not empty, has the channels of the
  module and is at least one patch high and wide.
\<close>

lemma constructed_image_call:
  assumes c: "PerceiverVisionTransformer a r = Inr m0"
    and m: "m = m0\<lparr>vit_training := t, vit_temporal_embed := te\<rparr>"
    and sz: "arg_img_size a = Scalar img" "arg_patch_size a = Scalar patch" "patch \<le> img"
    and pos: "0 < arg_in_chans a" "0 < arg_embed_dim a"
    and d0: "dims x0 = (B, Cin, Hin, Win)" "0 < B" "int Cin = arg_in_chans a"
      "patch \<le> int Hin" "patch \<le> int Win"
  shows "PatchEmbed_forward (vit_patch_embed m) x0 =
           Inr \<lparr>dims = (B, nat (arg_embed_dim a), nat (int Hin div patch),
                          nat (int Win div patch)),
                elem = conv2d_value (pe_proj (vit_patch_embed m)) x0\<rparr>"
    and "0 < Hin" and "0 < Win"
    and "spatial_pos m (nat (arg_embed_dim a)) =
           Inr (\<lambda>c i j. vit_pos_embed m (1 + i * nat (vit_patch_dim m) + j) c)"
    and "0 < vit_patch_dim m" and "0 < nat (arg_embed_dim a)"
    and "vit_add_norm_before_transformer m \<longrightarrow>
           (\<exists>lnorm. vit_pre_norm m = Some lnorm \<and> ln_shape lnorm = int (nat (arg_embed_dim a)))"
proof -
  note g = constructed_geometry[OF c sz(1,2)]
  from constructed_module[OF c] have
    e: "vit_embed_dim m0 = arg_embed_dim a"
    and n: "vit_add_norm_before_transformer m0 \<longrightarrow>
         (\<exists>lnorm. vit_pre_norm m0 = Some lnorm \<and> ln_shape lnorm = arg_embed_dim a)"
    by blast+
  have pe: "vit_patch_embed m = vit_patch_embed m0" by (simp add: m)
  show "PatchEmbed_forward (vit_patch_embed m) x0 =
           Inr \<lparr>dims = (B, nat (arg_embed_dim a), nat (int Hin div patch),
                          nat (int Win div patch)),
                elem = conv2d_value (pe_proj (vit_patch_embed m)) x0\<rparr>"
    unfolding pe
    by (rule patch_forward[OF g(4,5,6,7,8) g(1) pos d0(1,3,4,5)])
  show "0 < Hin" "0 < Win" using g(1) d0(4,5) by auto
  have pd: "0 < img div patch" using g(1) sz(3) by (simp add: pos_imp_zdiv_pos_iff)
  then show "0 < vit_patch_dim m" by (simp add: m g(2))
  show "spatial_pos m (nat (arg_embed_dim a)) =
           Inr (\<lambda>c i j. vit_pos_embed m (1 + i * nat (vit_patch_dim m) + j) c)"
    using pd pos(2) by (simp add: spatial_pos_Inr_iff m g(2,3) e)
  show "0 < nat (arg_embed_dim a)" using pos(2) by simp
  show "vit_add_norm_before_transformer m \<longrightarrow>
           (\<exists>lnorm. vit_pre_norm m = Some lnorm \<and> ln_shape lnorm = int (nat (arg_embed_dim a)))"
    using n pos(2) by (simp add: m)
qed

section \<open>The token budget of the sampler\<close>

lemma tiny_call:
  "PerceiverVisionTransformer tiny_args zero_init = Inr tiny_vit"
  "arg_img_size tiny_args = Scalar 2" "arg_patch_size tiny_args = Scalar 1"
  "arg_in_chans tiny_args = 3" "arg_embed_dim tiny_args = 2"
  "arg_use_video tiny_args = False"
  "dims tiny_image = (1, 3, 2, 2)" "dims zero_image = (1, 3, 2, 2)"
  "tiny_vit\<lparr>vit_training := True, vit_temporal_embed := None\<rparr> = tiny_vit"
  "tiny_vit\<lparr>vit_training := True\<rparr> = tiny_vit"
  by (simp_all add: tiny_vit_constructed tiny_args_def default_args_def tiny_image_def
      zero_image_def const_tensor4_def tiny_vit_def ctor_defs)

text \<open>
  C1 (amended). Let the module \<open>m\<close> be built by the constructor from integer sizes with
  \<open>patch \<le> img\<close>, a positive number of input channels and a positive embedding width, in
  training or in evaluation mode. Let the batch \<open>x0\<close> hold \<open>B > 0\<close> images with the channels of
  the module, at least one patch high and wide, so that the grid has
  \<open>H = Hin div patch\<close> by \<open>W = Win div patch\<close> patches, at most \<open>2 ^ 24\<close> of them, and let
  \<^verbatim>\<open>max_image_len\<close> be an integer \<open>n\<close> with \<open>0 < n < 2 ^ 63\<close> and \<^verbatim>\<open>mask_it\<close> be false. Then
  \<^verbatim>\<open>visual_embed\<close> returns \<open>L + 1\<close> tokens of the embedding width per example, where
  \<open>L = min (H * W) n\<close> and \<open>H * W\<close> is the number of valid patches of every example (the mask
  of the code is all ones), and the \<open>L\<close> patches of an example are distinct patches of its grid.
  For an arbitrary mask over at most \<open>2 ^ 24\<close> positions, one round of the sampler loop draws
  \<open>K\<close> distinct valid positions if the example has at least \<open>K > 0\<close> of them, and otherwise
  keeps every valid position and appends \<open>K\<close> minus their number positions whose mask entry is
  not one.
\<close>

theorem sampler_selects_budget:
  assumes "PerceiverVisionTransformer a r = Inr m0"
    and "m = m0\<lparr>vit_training := t\<rparr>"
    and "arg_img_size a = Scalar img" and "arg_patch_size a = Scalar patch" and "patch \<le> img"
    and "0 < arg_in_chans a" and "0 < arg_embed_dim a"
    and "dims x0 = (B, Cin, Hin, Win)" and "0 < B" and "int Cin = arg_in_chans a"
    and "patch \<le> int Hin" and "patch \<le> int Win"
    and "H = nat (int Hin div patch)" and "W = nat (int Win div patch)"
    and "H * W \<le> 2 ^ 24"
    and "0 < n" and "n < 2 ^ 63" and "L = nat (min (int (H * W)) n)"
  shows "(\<exists>out. visual_embed m (Image x0) (LenInt n) False dr = Inr out \<and>
            dims3 (out_x out) = (B, L + 1, nat (arg_embed_dim a)) \<and>
            (\<forall>b < B. inj_on (out_patch_index out b) {..<L} \<and>
               (\<forall>j < L. fst (out_patch_index out b j) < H \<and>
                         snd (out_patch_index out b j) < W))) \<and>
         (\<forall>row N K rs. 0 < K \<and> K \<le> int (length (filter (\<lambda>n. row n \<noteq> 0) [0..<N])) \<and>
                       N \<le> 2 ^ 24 \<longrightarrow>
            (\<exists>ns. select_row row N K rs = Inr ns \<and> length ns = nat K \<and> distinct ns \<and>
                  set ns \<subseteq> {n. n < N \<and> row n \<noteq> 0})) \<and>
         (\<forall>row N K rs. int (length (filter (\<lambda>n. row n \<noteq> 0) [0..<N])) < K \<and>
                       (\<exists>n < N. row n \<noteq> 1) \<and> N \<le> 2 ^ 24 \<longrightarrow>
            (\<exists>pads. select_row row N K rs = Inr (filter (\<lambda>n. row n \<noteq> 0) [0..<N] @ pads) \<and>
                    length pads = nat (K - int (length (filter (\<lambda>n. row n \<noteq> 0) [0..<N]))) \<and>
                    set pads \<subseteq> {n. n < N \<and> row n \<noteq> 1}))"
proof (intro conjI allI impI)
  let ?C = "nat (arg_embed_dim a)"
  let ?x = "\<lparr>dims = (B, ?C, nat (int Hin div patch), nat (int Win div patch)),
            elem = conv2d_value (pe_proj (vit_patch_embed m)) x0\<rparr>"
  have m: "m = m0\<lparr>vit_training := t, vit_temporal_embed := vit_temporal_embed m0\<rparr>"
    using assms(2) by simp
  note cc = constructed_image_call[OF assms(1) m assms(3-12)]
  have d: "dims ?x = (B, ?C, H, W)" using assms(13,14) by simp
  from visual_embed_image_returns[OF cc(1) assms(8,9) cc(2,3) d cc(4,5,6,7) assms(16,17,15)]
  obtain out where
    out: "visual_embed m (Image x0) (LenInt n) False dr = Inr out" by blast
  from image_tokens_aux[OF out] obtain x' B' C' H' W' L' where
    a: "PatchEmbed_forward (vit_patch_embed m) x0 = Inr x'" "dims x' = (B', C', H', W')"
      "L' = nat (if n < 0 then int (H' * W') else min (int (H' * W')) n)"
      "dims3 (out_x out) = (B', L' + 1, C')"
      "\<forall>b < B'. inj_on (out_patch_index out b) {..<L'} \<and>
         (\<forall>j < L'. fst (out_patch_index out b j) < H' \<and> snd (out_patch_index out b j) < W')"
    by blast
  from a(1,2) cc(1) d have e: "B' = B" "C' = ?C" "H' = H" "W' = W" by simp_all
  from a(3) assms(16,18) e have l: "L' = L" by simp
  show "\<exists>out. visual_embed m (Image x0) (LenInt n) False dr = Inr out \<and>
            dims3 (out_x out) = (B, L + 1, ?C) \<and>
            (\<forall>b < B. inj_on (out_patch_index out b) {..<L} \<and>
               (\<forall>j < L. fst (out_patch_index out b j) < H \<and>
                         snd (out_patch_index out b j) < W))"
    apply (rule exI[of _ out])
    apply (intro conjI)
      apply (rule out)
     apply (rule a(4)[unfolded e l])
    apply (rule a(5)[unfolded e l])
    done
next
  fix row :: "nat \<Rightarrow> int" and N K rs
  assume "0 < K \<and> K \<le> int (length (filter (\<lambda>n. row n \<noteq> 0) [0..<N])) \<and> N \<le> 2 ^ 24"
  then show "\<exists>ns. select_row row N K rs = Inr ns \<and> length ns = nat K \<and> distinct ns \<and>
                  set ns \<subseteq> {n. n < N \<and> row n \<noteq> 0}"
    using select_row_truncate[of K row N rs] by simp
next
  fix row :: "nat \<Rightarrow> int" and N K rs
  assume "int (length (filter (\<lambda>n. row n \<noteq> 0) [0..<N])) < K \<and> (\<exists>n < N. row n \<noteq> 1) \<and>
          N \<le> 2 ^ 24"
  then show "\<exists>pads. select_row row N K rs = Inr (filter (\<lambda>n. row n \<noteq> 0) [0..<N] @ pads) \<and>
                    length pads = nat (K - int (length (filter (\<lambda>n. row n \<noteq> 0) [0..<N]))) \<and>
                    set pads \<subseteq> {n. n < N \<and> row n \<noteq> 1}"
    using select_row_pad[of row N K rs] by simp
qed

theorem sampler_selects_budget_witness:
  "\<exists>out. visual_embed tiny_vit (Image tiny_image) (LenInt 3) False zero_draws = Inr out \<and>
         dims3 (out_x out) = (1, 4, 2) \<and> inj_on (out_patch_index out 0) {..<3}"
proof -
  have m: "tiny_vit = tiny_vit\<lparr>vit_training := True\<rparr>"
    using tiny_call(10) by simp
  have h: "(1::int) \<le> 2" "(0::int) < arg_in_chans tiny_args" "(0::int) < arg_embed_dim tiny_args"
    "(0::nat) < 1" "int 3 = arg_in_chans tiny_args" "(1::int) \<le> int 2"
    "(2::nat) = nat (int 2 div 1)" "(2::nat) * 2 \<le> 2 ^ 24" "(0::int) < 3" "(3::int) < 2 ^ 63"
    "(3::nat) = nat (min (int (2 * 2)) 3)"
    by (simp_all add: tiny_call)
  from sampler_selects_budget[OF tiny_call(1) m tiny_call(2,3) h(1,2,3) tiny_call(7)
      h(4,5,6,6,7,7,8,9,10,11), of zero_draws, THEN conjunct1]
  obtain out where
    o: "visual_embed tiny_vit (Image tiny_image) (LenInt 3) False zero_draws = Inr out"
    and d: "dims3 (out_x out) = (1, 3 + 1, nat (arg_embed_dim tiny_args))"
    and i: "\<forall>b < 1. inj_on (out_patch_index out b) {..<3} \<and>
       (\<forall>j < 3. fst (out_patch_index out b j) < 2 \<and> snd (out_patch_index out b j) < 2)"
    by blast
  from i have i0: "inj_on (out_patch_index out 0) {..<3}" by simp
  from d have d': "dims3 (out_x out) = (1, 4, 2)" by (simp add: tiny_call)
  show ?thesis
    apply (rule exI[of _ out])
    apply (intro conjI)
      apply (rule o)
     apply (rule d')
    apply (rule i0)
    done
qed

theorem zero_budget_counterexample:
  "visual_embed tiny_vit (Image tiny_image) (LenInt 0) False zero_draws = Inl RuntimeError"
proof -
  have m: "tiny_vit = tiny_vit\<lparr>vit_training := True, vit_temporal_embed := None\<rparr>"
    using tiny_call(9) by simp
  have h: "(1::int) \<le> 2" "(0::int) < arg_in_chans tiny_args" "(0::int) < arg_embed_dim tiny_args"
    "(0::nat) < 1" "int 3 = arg_in_chans tiny_args" "(1::int) \<le> int 2"
    by (simp_all add: tiny_call)
  note cc = constructed_image_call[OF tiny_call(1) m tiny_call(2,3) h(1,2,3) tiny_call(7)
      h(4,5,6,6)]
  show ?thesis
    by (rule visual_embed_zero_budget[OF cc(1) tiny_call(7) h(4) cc(2,3) _ cc(4,5)]) simp
qed

section \<open>The attention mask of an image batch\<close>

lemma tiny_image_returns:
  assumes "dims x0 = (1, 3, 2, 2)" and "0 < n" and "n < 2 ^ 63"
  shows "\<exists>out. visual_embed tiny_vit (Image x0) (LenInt n) False dr = Inr out"
proof -
  have m: "tiny_vit = tiny_vit\<lparr>vit_training := True, vit_temporal_embed := None\<rparr>"
    using tiny_call(9) by simp
  have h: "(1::int) \<le> 2" "(0::int) < arg_in_chans tiny_args" "(0::int) < arg_embed_dim tiny_args"
    "(0::nat) < 1" "int 3 = arg_in_chans tiny_args" "(1::int) \<le> int 2"
    by (simp_all add: tiny_call)
  note cc = constructed_image_call[OF tiny_call(1) m tiny_call(2,3) h(1,2,3) assms(1)
      h(4,5,6,6)]
  have d: "dims \<lparr>dims = (1, nat (arg_embed_dim tiny_args), nat (int 2 div 1), nat (int 2 div 1)),
                 elem = conv2d_value (pe_proj (vit_patch_embed tiny_vit)) x0\<rparr>
           = (1, nat (arg_embed_dim tiny_args), 2, 2)" by simp
  have cap: "(2::nat) * 2 \<le> 2 ^ 24" by simp
  show ?thesis
    by (rule visual_embed_image_returns[OF cc(1) assms(1) h(4) cc(2,3) d cc(4,5,6,7)
          assms(2,3) cap])
qed

lemma tiny_image_mask:
  assumes o: "visual_embed tiny_vit (Image x0) (LenInt 4) False dr = Inr out"
    and d0: "dims x0 = (1, 3, 2, 2)"
  shows "mdims (out_mask out) = (1, 5) \<and> melem (out_mask out) 0 0 = 1 \<and>
         melem (out_mask out) 0 1 = 1 \<and> melem (out_mask out) 0 2 = 1 \<and>
         melem (out_mask out) 0 3 = 1 \<and> melem (out_mask out) 0 4 = 1"
proof -
  have m: "tiny_vit = tiny_vit\<lparr>vit_training := True, vit_temporal_embed := None\<rparr>"
    using tiny_call(9) by simp
  have h: "(1::int) \<le> 2" "(0::int) < arg_in_chans tiny_args" "(0::int) < arg_embed_dim tiny_args"
    "(0::nat) < 1" "int 3 = arg_in_chans tiny_args" "(1::int) \<le> int 2"
    by (simp_all add: tiny_call)
  note cc = constructed_image_call[OF tiny_call(1) m tiny_call(2,3) h(1,2,3) d0 h(4,5,6,6)]
  from image_tokens_aux[OF o] cc(1) have x3: "dims3 (out_x out) = (1, 5, 2)"
    by (auto simp: tiny_call)
  from image_attention_mask_aux[OF o] obtain B L C H W where
    a: "fst (dims x0) = B" "dims3 (out_x out) = (B, L + 1, C)"
       "mdims (out_mask out) = (B, L + 1)"
       "\<forall>b < B. melem (out_mask out) b 0 = 1 \<and>
              (\<forall>j < L. fst (out_patch_index out b j) < H \<and> snd (out_patch_index out b j) < W \<and>
                        melem (out_mask out) b (j + 1) = 1)"
    by blast
  from a(1) d0 have B: "B = 1" by simp
  from a(2) x3 have L: "L = 4" by simp
  have b0: "(0::nat) < B" using B by simp
  from a(4)[rule_format, OF b0] have m0: "melem (out_mask out) 0 0 = 1"
    and mj: "\<And>j. j < L \<Longrightarrow> melem (out_mask out) 0 (j + 1) = 1" by auto
  from mj[of 0] mj[of 1] mj[of 2] mj[of 3] L have
    "melem (out_mask out) 0 1 = 1" "melem (out_mask out) 0 2 = 1" "melem (out_mask out) 0 3 = 1"
    "melem (out_mask out) 0 4 = 1"
    by (simp_all add: eval_nat_numeral)
  with a(3) B L m0 show ?thesis by simp
qed

text \<open>
  C9 (amended). If \<^verbatim>\<open>visual_embed\<close> returns on a batch of \<open>B\<close> images, the tokens have shape
  \<open>[B, L + 1, C]\<close> and the mask has shape \<open>[B, L + 1]\<close>, and every entry of the mask is one,
  whatever the pixels of the images are: \<^verbatim>\<open>x_mask\<close> is \<^verbatim>\<open>torch.ones_like\<close> of the test
  for non-zero pixels, hence all ones on the grid of patches, so that the code takes every
  patch for a valid one, never pad-samples, and column \<open>j + 1\<close> of the mask is the entry one of
  \<^verbatim>\<open>x_mask\<close> at the \<open>j\<close>-th selected patch. The gathering itself copies \<^verbatim>\<open>x_mask\<close>: behind the
  column of ones for the class token, entry \<open>j + 1\<close> is the entry of the mask that was given
  at row \<open>j\<close> of \<^verbatim>\<open>select\<close>, for every mask.
\<close>

theorem image_attention_mask:
  assumes "visual_embed m (Image x0) max_image_len mask_it dr = Inr out"
  shows "(\<exists>B L C H W.
           fst (dims x0) = B \<and> dims3 (out_x out) = (B, L + 1, C) \<and>
           mdims (out_mask out) = (B, L + 1) \<and> out_grid out = (H, W) \<and>
           valid_mask x0 (H, W) = Inr (\<lambda>b i j. 1) \<and>
           (\<forall>b < B. melem (out_mask out) b 0 = 1 \<and>
              (\<forall>j < L. fst (out_patch_index out b j) < H \<and> snd (out_patch_index out b j) < W \<and>
                 melem (out_mask out) b (j + 1) = 1))) \<and>
         (\<forall>sel k B C H W x x_mask pe lab b j.
            melem (out_mask (image_mask (gather_tokens m sel k (B, C, H, W) x x_mask pe lab)))
              b 0 = 1 \<and>
            melem (out_mask (image_mask (gather_tokens m sel k (B, C, H, W) x x_mask pe lab)))
              b (j + 1) = x_mask (fst (sel ! (b * k + j))) (snd (sel ! (b * k + j))))"
proof (intro conjI allI)
  show "\<exists>B L C H W.
           fst (dims x0) = B \<and> dims3 (out_x out) = (B, L + 1, C) \<and>
           mdims (out_mask out) = (B, L + 1) \<and> out_grid out = (H, W) \<and>
           valid_mask x0 (H, W) = Inr (\<lambda>b i j. 1) \<and>
           (\<forall>b < B. melem (out_mask out) b 0 = 1 \<and>
              (\<forall>j < L. fst (out_patch_index out b j) < H \<and> snd (out_patch_index out b j) < W \<and>
                 melem (out_mask out) b (j + 1) = 1))"
    by (rule image_attention_mask_aux[OF assms])
next
  fix sel k B C H W x x_mask pe lab b j
  have md: "mdims (out_mask (gather_tokens m sel k (B, C, H, W) x x_mask pe lab)) = (B, k)"
    by (simp add: gather_tokens_simps)
  show "melem (out_mask (image_mask (gather_tokens m sel k (B, C, H, W) x x_mask pe lab)))
              b 0 = 1"
    by (simp add: image_mask_simps[OF md] gather_tokens_simps)
  show "melem (out_mask (image_mask (gather_tokens m sel k (B, C, H, W) x x_mask pe lab)))
              b (j + 1) = x_mask (fst (sel ! (b * k + j))) (snd (sel ! (b * k + j)))"
    by (simp add: image_mask_simps[OF md] gather_tokens_simps)
qed

theorem image_attention_mask_witness:
  "\<exists>out B L C H W. visual_embed tiny_vit (Image tiny_image) (LenInt 4) False zero_draws = Inr out \<and>
         fst (dims tiny_image) = B \<and> dims3 (out_x out) = (B, L + 1, C) \<and>
         mdims (out_mask out) = (B, L + 1) \<and> out_grid out = (H, W) \<and>
         valid_mask tiny_image (H, W) = Inr (\<lambda>b i j. 1) \<and>
         (\<forall>b < B. melem (out_mask out) b 0 = 1 \<and>
            (\<forall>j < L. fst (out_patch_index out b j) < H \<and> snd (out_patch_index out b j) < W \<and>
               melem (out_mask out) b (j + 1) = 1))"
proof -
  from tiny_image_returns[OF tiny_call(7), of 4 zero_draws] obtain out where
    out: "visual_embed tiny_vit (Image tiny_image) (LenInt 4) False zero_draws = Inr out"
    by auto
  from image_attention_mask[OF out, THEN conjunct1] obtain B L C H W where
    a: "fst (dims tiny_image) = B \<and> dims3 (out_x out) = (B, L + 1, C) \<and>
         mdims (out_mask out) = (B, L + 1) \<and> out_grid out = (H, W) \<and>
         valid_mask tiny_image (H, W) = Inr (\<lambda>b i j. 1) \<and>
         (\<forall>b < B. melem (out_mask out) b 0 = 1 \<and>
            (\<forall>j < L. fst (out_patch_index out b j) < H \<and> snd (out_patch_index out b j) < W \<and>
               melem (out_mask out) b (j + 1) = 1))"
    by blast
  show ?thesis
    apply (rule exI[of _ out], rule exI[of _ B], rule exI[of _ L], rule exI[of _ C],
           rule exI[of _ H], rule exI[of _ W])
    apply (rule conjI)
     apply (rule out)
    apply (rule a)
    done
qed

theorem zero_image_mask_counterexample:
  "\<exists>out. visual_embed tiny_vit (Image zero_image) (LenInt 4) False zero_draws = Inr out \<and>
         (mdims (out_mask out) = (1, 5) \<and> melem (out_mask out) 0 0 = 1 \<and>
          melem (out_mask out) 0 1 = 1 \<and> melem (out_mask out) 0 2 = 1 \<and>
          melem (out_mask out) 0 3 = 1 \<and> melem (out_mask out) 0 4 = 1) \<and>
         \<not> nonzero_pixels zero_image 0 0 0 \<and> \<not> nonzero_pixels zero_image 0 0 1 \<and>
         \<not> nonzero_pixels zero_image 0 1 0 \<and> \<not> nonzero_pixels zero_image 0 1 1"
proof -
  from tiny_image_returns[OF tiny_call(8), of 4 zero_draws] obtain out where
    out: "visual_embed tiny_vit (Image zero_image) (LenInt 4) False zero_draws = Inr out"
    by auto
  note mk = tiny_image_mask[OF out tiny_call(8)]
  have z: "\<not> nonzero_pixels zero_image 0 r c" for r c
    by (simp add: nonzero_pixels_def zero_image_def const_tensor4_def const_weight_def)
  show ?thesis
    apply (rule exI[of _ out])
    apply (rule conjI)
     apply (rule out)
    apply (rule conjI)
     apply (rule mk)
    apply (intro conjI)
       apply (rule z)+
    done
qed

end
